theory Spec2Isabelle
  imports Main "HOL-Library.Char_ord" "HOL-Library.List_Lexorder" "HOL-Library.Multiset"
begin

section \<open>Strings\<close>

text \<open>
  JavaScript strings are modelled as \<^typ>\<open>string\<close>; the intended reading is ASCII text
  (configuration identifiers, paths, JSON and script sources). Case conversion and the
  whitespace class are the ASCII ones.
\<close>

definition dq :: string where
  "dq = [CHR 0x22]"

definition sq :: string where
  "sq = [CHR 0x27]"

definition nl :: string where
  "nl = [CHR 0x0A]"

fun starts_with :: "string \<Rightarrow> string \<Rightarrow> bool" where
  "starts_with _ [] = True"
| "starts_with [] (n # ns) = False"
| "starts_with (c # cs) (n # ns) = (c = n \<and> starts_with cs ns)"

text \<open>\<^verbatim>\<open>String.prototype.includes\<close>: substring test.\<close>

fun str_includes :: "string \<Rightarrow> string \<Rightarrow> bool" where
  "str_includes [] n = (n = [])"
| "str_includes (c # cs) n = (starts_with (c # cs) n \<or> str_includes cs n)"

text \<open>\<^verbatim>\<open>Array.prototype.join\<close> on strings.\<close>

fun join_with :: "string \<Rightarrow> string list \<Rightarrow> string" where
  "join_with sep [] = []"
| "join_with sep [x] = x"
| "join_with sep (x # y # ys) = x @ sep @ join_with sep (y # ys)"

definition is_space :: "char \<Rightarrow> bool" where
  "is_space c = (c \<in> set [CHR 0x09, CHR 0x0A, CHR 0x0B, CHR 0x0C, CHR 0x0D, CHR 0x20])"

definition is_digit :: "char \<Rightarrow> bool" where
  "is_digit c = (CHR ''0'' \<le> c \<and> c \<le> CHR ''9'')"

definition digit_val :: "char \<Rightarrow> nat" where
  "digit_val c = of_char c - of_char (CHR ''0'')"

definition to_upper :: "char \<Rightarrow> char" where
  "to_upper c = (if CHR ''a'' \<le> c \<and> c \<le> CHR ''z'' then char_of (of_char c - (32::nat)) else c)"

definition to_lower :: "char \<Rightarrow> char" where
  "to_lower c = (if CHR ''A'' \<le> c \<and> c \<le> CHR ''Z'' then char_of (of_char c + (32::nat)) else c)"

subsection \<open>First-match replacement with a literal pattern\<close>

text \<open>
  The three anchor patterns of the patch strategies contain no regular-expression operator
  besides capture groups, so each matches one literal text. \<open>find_first n pre h\<close> returns
  the text before and after the leftmost occurrence of \<open>n\<close> in \<open>h\<close>.
\<close>

fun find_first :: "string \<Rightarrow> string \<Rightarrow> string \<Rightarrow> (string \<times> string) option" where
  "find_first n pre [] = (if n = [] then Some (pre, []) else None)"
| "find_first n pre (c # cs) =
     (if starts_with (c # cs) n then Some (pre, drop (length n) (c # cs))
      else find_first n (pre @ [c]) cs)"

text \<open>
  The replacement text of \<^verbatim>\<open>String.prototype.replace\<close> is itself a pattern
  (ECMAScript GetSubstitution): \<^verbatim>\<open>$$\<close>, \<^verbatim>\<open>$&\<close>, the text before and after the match,
  and one- or two-digit group references. A reference to a group that does not exist stays
  as it is written. The patterns here have no named groups.
\<close>

fun get_substitution ::
  "string list \<Rightarrow> string \<Rightarrow> string \<Rightarrow> string \<Rightarrow> string \<Rightarrow> string" where
  "get_substitution caps m b a [] = []"
| "get_substitution caps m b a [c] = [c]"
| "get_substitution caps m b a (c # d # rest) =
     (if c \<noteq> CHR ''$'' then c # get_substitution caps m b a (d # rest)
      else if d = CHR ''$'' then CHR ''$'' # get_substitution caps m b a rest
      else if d = CHR ''&'' then m @ get_substitution caps m b a rest
      else if d = CHR 0x60 then b @ get_substitution caps m b a rest
      else if d = CHR 0x27 then a @ get_substitution caps m b a rest
      else if is_digit d then
        (case rest of
           [] \<Rightarrow>
             (if 1 \<le> digit_val d \<and> digit_val d \<le> length caps
              then caps ! (digit_val d - 1) else [c, d])
         | e # rest' \<Rightarrow>
             (if is_digit e \<and> 10 * digit_val d + digit_val e \<le> length caps then
                (if 1 \<le> 10 * digit_val d + digit_val e
                 then caps ! (10 * digit_val d + digit_val e - 1) @ get_substitution caps m b a rest'
                 else c # d # e # get_substitution caps m b a rest')
              else if 1 \<le> digit_val d \<and> digit_val d \<le> length caps
                then caps ! (digit_val d - 1) @ get_substitution caps m b a (e # rest')
              else c # d # get_substitution caps m b a (e # rest')))
      else c # get_substitution caps m b a (d # rest))"

text \<open>
  \<open>replace_first groups repl s\<close>: \<^verbatim>\<open>s.replace(/(g1)(g2).../, repl)\<close> for literal groups.
  Without a match the text is returned as it is.
\<close>

definition replace_first :: "string list \<Rightarrow> string \<Rightarrow> string \<Rightarrow> string" where
  "replace_first groups repl s =
     (case find_first (concat groups) [] s of
        None \<Rightarrow> s
      | Some (pre, post) \<Rightarrow>
          pre @ get_substitution groups (concat groups) pre post repl @ post)"

section \<open>Name-case helpers (\<^verbatim>\<open>lib/utils.ts\<close>)\<close>

definition capitalize :: "string \<Rightarrow> string" where
  "capitalize str = (case str of [] \<Rightarrow> [] | c # cs \<Rightarrow> to_upper c # cs)"

definition is_word_sep :: "char \<Rightarrow> bool" where
  "is_word_sep c = (c = CHR ''-'' \<or> c = CHR ''_'' \<or> is_space c)"

text \<open>\<^verbatim>\<open>str.split(/[-_\s]+/)\<close>: a maximal run of separators ends the current word.\<close>

function split_words :: "string \<Rightarrow> string \<Rightarrow> string list" where
  "split_words cur [] = [cur]"
| "split_words cur (c # cs) =
     (if is_word_sep c then cur # split_words [] (dropWhile is_word_sep cs)
      else split_words (cur @ [c]) cs)"
  by pat_completeness auto
termination
  by (relation "measure (\<lambda>(cur, s). length s)")
     (auto simp: length_dropWhile_le less_Suc_eq_le)

definition toPascalCase :: "string \<Rightarrow> string" where
  "toPascalCase str = concat (map (\<lambda>word. capitalize (map to_lower word)) (split_words [] str))"

definition toCamelCase :: "string \<Rightarrow> string" where
  "toCamelCase str =
     (let pascal = toPascalCase str in map to_lower (take 1 pascal) @ drop 1 pascal)"

section \<open>Paths (\<^verbatim>\<open>path.join\<close>, \<^verbatim>\<open>path.dirname\<close>, POSIX flavour)\<close>

fun split_on :: "char \<Rightarrow> string \<Rightarrow> string \<Rightarrow> string list" where
  "split_on d cur [] = [cur]"
| "split_on d cur (c # cs) =
     (if c = d then cur # split_on d [] cs else split_on d (cur @ [c]) cs)"

fun normalizeString :: "bool \<Rightarrow> string list \<Rightarrow> string list \<Rightarrow> string list" where
  "normalizeString allowAboveRoot res [] = res"
| "normalizeString allowAboveRoot res (s # ss) =
     (if s = [] \<or> s = ''.'' then normalizeString allowAboveRoot res ss
      else if s = ''..'' then
        (if res \<noteq> [] \<and> last res \<noteq> ''..'' then normalizeString allowAboveRoot (butlast res) ss
         else if allowAboveRoot then normalizeString allowAboveRoot (res @ [''..'']) ss
         else normalizeString allowAboveRoot res ss)
      else normalizeString allowAboveRoot (res @ [s]) ss)"

definition normalize :: "string \<Rightarrow> string" where
  "normalize path =
     (if path = [] then ''.''
      else
        let isAbsolute = (hd path = CHR ''/'');
            trailingSeparator = (last path = CHR ''/'');
            p = join_with ''/'' (normalizeString (\<not> isAbsolute) [] (split_on (CHR ''/'') [] path))
        in if p = [] then (if isAbsolute then ''/'' else if trailingSeparator then ''./'' else ''.'')
           else (if isAbsolute then ''/'' else []) @ p @ (if trailingSeparator then ''/'' else []))"

definition join :: "string list \<Rightarrow> string" where
  "join paths =
     (let ps = filter (\<lambda>p. p \<noteq> []) paths
      in if ps = [] then ''.'' else normalize (join_with ''/'' ps))"

definition dirname :: "string \<Rightarrow> string" where
  "dirname path =
     (case path of
        [] \<Rightarrow> ''.''
      | c # cs \<Rightarrow>
          (case dropWhile (\<lambda>x. x \<noteq> CHR ''/'') (dropWhile (\<lambda>x. x = CHR ''/'') (rev cs)) of
             [] \<Rightarrow> (if c = CHR ''/'' then ''/'' else ''.'')
           | s # r \<Rightarrow> (if c = CHR ''/'' \<and> r = [] then ''//'' else c # rev r)))"

text \<open>The text after the last separator of a path.\<close>

definition base :: "string \<Rightarrow> string" where
  "base p = rev (takeWhile (\<lambda>c. c \<noteq> CHR ''/'') (rev p))"

section \<open>Errors and the file tree\<close>

text \<open>
  A thrown JavaScript error is a value carrying its message. The wording of engine messages
  (V8, Node) is indicative; no property below depends on it.
\<close>

datatype exn =
    SyntaxError string
  | TypeError string
  | SystemError string
  | EngineError string

fun message :: "exn \<Rightarrow> string" where
  "message (SyntaxError m) = m"
| "message (TypeError m) = m"
| "message (SystemError m) = m"
| "message (EngineError m) = m"

text \<open>
  The file tree maps a path, as \<open>join\<close> writes it, to a file with its content or to a
  directory. The root and the working directory always exist. I/O fails for structural
  reasons only (a missing parent, a file where a directory is needed and conversely);
  permissions and quotas are not part of the model.
\<close>

datatype node = File string | Dir

type_synonym fs = "string \<Rightarrow> node option"

definition lookup :: "fs \<Rightarrow> string \<Rightarrow> node option" where
  "lookup fs p = (if p = ''/'' \<or> p = ''.'' then Some Dir else fs p)"

definition existsSync :: "fs \<Rightarrow> string \<Rightarrow> bool" where
  "existsSync fs p = (lookup fs p \<noteq> None)"

definition readFile :: "fs \<Rightarrow> string \<Rightarrow> exn + string" where
  "readFile fs p =
     (case lookup fs p of
        Some (File c) \<Rightarrow> Inr c
      | Some Dir \<Rightarrow> Inl (SystemError ''EISDIR: illegal operation on a directory, read'')
      | None \<Rightarrow> Inl (SystemError (''ENOENT: no such file or directory, open '' @ sq @ p @ sq)))"

definition writeFile :: "fs \<Rightarrow> string \<Rightarrow> string \<Rightarrow> exn + fs" where
  "writeFile fs p c =
     (case lookup fs p of
        Some Dir \<Rightarrow>
          Inl (SystemError (''EISDIR: illegal operation on a directory, open '' @ sq @ p @ sq))
      | _ \<Rightarrow>
          (case lookup fs (dirname p) of
             Some Dir \<Rightarrow> Inr (fs(p \<mapsto> File c))
           | Some (File _) \<Rightarrow> Inl (SystemError (''ENOTDIR: not a directory, open '' @ sq @ p @ sq))
           | None \<Rightarrow>
               Inl (SystemError (''ENOENT: no such file or directory, open '' @ sq @ p @ sq))))"

text \<open>
  \<open>ancestors p\<close>: the directories \<^verbatim>\<open>mkdir(p, {recursive: true})\<close> visits, outermost
  first, \<open>p\<close> last. Every \<open>dirname\<close> step shortens the path or reaches the root or the
  working directory, so the length of the path bounds the number of steps.
\<close>

fun ancestors_upto :: "nat \<Rightarrow> string \<Rightarrow> string list" where
  "ancestors_upto 0 p = []"
| "ancestors_upto (Suc n) p =
     (if p = ''/'' \<or> p = ''.'' then [] else ancestors_upto n (dirname p) @ [p])"

definition ancestors :: "string \<Rightarrow> string list" where
  "ancestors p = ancestors_upto (length p) p"

text \<open>
  Recursive \<^verbatim>\<open>mkdir\<close> creates the missing directories in turn and stops at the first
  path that is a file; the directories created before that stay.
\<close>

fun mkdir_chain :: "fs \<Rightarrow> string list \<Rightarrow> string \<Rightarrow> (exn + unit) \<times> fs" where
  "mkdir_chain fs [] target = (Inr (), fs)"
| "mkdir_chain fs (d # ds) target =
     (case lookup fs d of
        None \<Rightarrow> mkdir_chain (fs(d \<mapsto> Dir)) ds target
      | Some Dir \<Rightarrow> mkdir_chain fs ds target
      | Some (File _) \<Rightarrow>
          (Inl (SystemError ((if d = target then ''EEXIST: file already exists, mkdir ''
                              else ''ENOTDIR: not a directory, mkdir '') @ sq @ target @ sq)),
           fs))"

definition mkdir_recursive :: "fs \<Rightarrow> string \<Rightarrow> (exn + unit) \<times> fs" where
  "mkdir_recursive fs p = mkdir_chain fs (ancestors p) p"

section \<open>JSON documents as JavaScript values\<close>

text \<open>
  A number carries the text JavaScript prints for it. An object lists its properties in
  enumeration order. Reading an absent property gives \<^verbatim>\<open>undefined\<close>, modelled as \<open>None\<close>.
\<close>

datatype json =
    JNull
  | JBool bool
  | JNum string
  | JStr string
  | JArr "json list"
  | JObj "(string \<times> json) list"

fun truthy :: "json \<Rightarrow> bool" where
  "truthy JNull = False"
| "truthy (JBool b) = b"
| "truthy (JNum n) = (n \<noteq> ''0'')"
| "truthy (JStr s) = (s \<noteq> [])"
| "truthy (JArr _) = True"
| "truthy (JObj _) = True"

text \<open>\<open>v || d\<close> for a possibly undefined \<open>v\<close>.\<close>

definition or_default :: "json option \<Rightarrow> json \<Rightarrow> json" where
  "or_default v d = (case v of None \<Rightarrow> d | Some x \<Rightarrow> if truthy x then x else d)"

definition defined_truthy :: "json option \<Rightarrow> bool" where
  "defined_truthy v = (case v of None \<Rightarrow> False | Some x \<Rightarrow> truthy x)"

text \<open>
  \<open>get_prop v k\<close> is \<^verbatim>\<open>v.k\<close> for the property names this program reads
  (\<^verbatim>\<open>workspaces\<close>, \<^verbatim>\<open>scripts\<close>, \<^verbatim>\<open>configurations\<close>, \<^verbatim>\<open>extensionDevelopmentPath\<close>,
  \<^verbatim>\<open>folders\<close>, \<^verbatim>\<open>path\<close>), none of which a primitive, an array or
  \<^verbatim>\<open>Object.prototype\<close> provides: only \<^verbatim>\<open>null\<close> throws.
\<close>

definition get_prop :: "json \<Rightarrow> string \<Rightarrow> exn + json option" where
  "get_prop v k =
     (case v of
        JNull \<Rightarrow> Inl (TypeError (''Cannot read properties of null (reading '' @ sq @ k @ sq @ '')''))
      | JObj kvs \<Rightarrow> Inr (map_of kvs k)
      | _ \<Rightarrow> Inr None)"

fun obj_set :: "string \<Rightarrow> json \<Rightarrow> (string \<times> json) list \<Rightarrow> (string \<times> json) list" where
  "obj_set k v [] = [(k, v)]"
| "obj_set k v (p # ps) = (if fst p = k then (k, v) # ps else p # obj_set k v ps)"

text \<open>
  \<open>set_prop v k x\<close> is \<^verbatim>\<open>v.k = x\<close> in strict mode (the sources are ES modules), for the
  property names this program writes, none of which is an array index. A property of that
  kind put on an array is not part of what \<^verbatim>\<open>JSON.stringify\<close> prints, so the document
  is unchanged. Assigning to a property of a primitive throws.
\<close>

definition set_prop :: "json \<Rightarrow> string \<Rightarrow> json \<Rightarrow> exn + json" where
  "set_prop v k x =
     (case v of
        JObj kvs \<Rightarrow> Inr (JObj (obj_set k x kvs))
      | JArr xs \<Rightarrow> Inr (JArr xs)
      | JNull \<Rightarrow> Inl (TypeError (''Cannot set properties of null (setting '' @ sq @ k @ sq @ '')''))
      | _ \<Rightarrow> Inl (TypeError (''Cannot create property '' @ sq @ k @ sq @ '' on a primitive value'')))"

text \<open>\<^verbatim>\<open>String(v)\<close>, the key of the default comparator of \<^verbatim>\<open>Array.prototype.sort\<close>.\<close>

fun to_string :: "json \<Rightarrow> string" where
  "to_string JNull = ''null''"
| "to_string (JBool b) = (if b then ''true'' else ''false'')"
| "to_string (JNum n) = n"
| "to_string (JStr s) = s"
| "to_string (JArr xs) = join_with '','' (map (\<lambda>x. if x = JNull then [] else to_string x) xs)"
| "to_string (JObj kvs) = ''[object Object]''"

text \<open>\<^verbatim>\<open>xs.sort()\<close>: stable, by the code units of the elements' string forms.\<close>

definition js_sort :: "json list \<Rightarrow> json list" where
  "js_sort xs = sort_key to_string xs"

text \<open>\<^verbatim>\<open>Array.prototype.some\<close> with a callback that may throw: it stops at the first hit.\<close>

fun some_m :: "('a \<Rightarrow> exn + bool) \<Rightarrow> 'a list \<Rightarrow> exn + bool" where
  "some_m f [] = Inr False"
| "some_m f (x # xs) =
     (case f x of Inl e \<Rightarrow> Inl e | Inr b \<Rightarrow> if b then Inr True else some_m f xs)"

text \<open>\<^verbatim>\<open>forEach\<close> with a callback that rewrites the element and may throw.\<close>

fun map_m :: "('a \<Rightarrow> exn + 'b) \<Rightarrow> 'a list \<Rightarrow> exn + 'b list" where
  "map_m f [] = Inr []"
| "map_m f (x # xs) =
     (case f x of
        Inl e \<Rightarrow> Inl e
      | Inr y \<Rightarrow> (case map_m f xs of Inl e \<Rightarrow> Inl e | Inr ys \<Rightarrow> Inr (y # ys)))"

text \<open>\<^verbatim>\<open>v.includes(s)\<close> for a JSON value \<open>v\<close>: a string method and an array method.\<close>

definition js_includes :: "string \<Rightarrow> json \<Rightarrow> string \<Rightarrow> exn + bool" where
  "js_includes what v s =
     (case v of
        JStr t \<Rightarrow> Inr (str_includes t s)
      | JArr xs \<Rightarrow> Inr (JStr s \<in> set xs)
      | JNull \<Rightarrow> Inl (TypeError (''Cannot read properties of null (reading '' @ sq @ ''includes'' @ sq @ '')''))
      | _ \<Rightarrow> Inl (TypeError (what @ ''.includes is not a function'')))"

section \<open>Configuration and results (\<^verbatim>\<open>types/config.ts\<close>)\<close>

text \<open>
  The records hold the fields the generator reads or hands to the template engine. Field
  names are the source's, with a prefix where two interfaces share a name.
\<close>

record Platform =
  os :: string
  arch :: string
  binaryExtension :: "string option"

record AssetSource =
  repository :: string
  assetReleaseTag :: string
  assetNamePattern :: "string option"

record RuntimeCheck =
  command :: string
  versionPattern :: "string option"
  minVersion :: "string option"

record Activation =
  fileExtensions :: "string list"
  filePatterns :: "string list option"
  workspaceContains :: "string list"
  additionalLanguageIds :: "string list option"

record Provider =
  providerType :: string
  binaryName :: string
  binaryArgs :: "string list"
  assetSource :: "AssetSource option"
  platforms :: "Platform list"

record Lsp =
  enabled :: bool
  proxyRequired :: bool
  providerName :: "string option"

record Dependencies =
  vscodeExtensions :: "string list"
  runtimeCheck :: "RuntimeCheck option"

record Analysis =
  mode :: string
  contextLines :: int

record ExtensionConfig =
  language :: string
  displayName :: string
  languageId :: string
  activation :: Activation
  provider :: Provider
  lsp :: Lsp
  dependencies :: Dependencies
  providerSpecificConfig :: "(string \<times> json) list"
  analysis :: Analysis

record CliOptions =
  dryRun :: bool
  force :: bool

record RepoConfig =
  version :: string
  releaseTag :: string
  csharpReleaseTag :: "string option"
  org :: string
  repo :: string
  rulesetOrg :: string
  rulesetRepo :: string

record GenerationContext =
  config :: ExtensionConfig
  options :: CliOptions
  repoPath :: string
  branchName :: string
  templatesDir :: string
  repoConfig :: RepoConfig

datatype OpType = Create | Modify

record FileOperation =
  opType :: OpType
  path :: string
  description :: string
  changes :: "string list option"
  content :: "string option"
  diff :: "string option"

record GenerationResult =
  success :: bool
  operations :: "FileOperation list"
  resultBranchName :: string
  errors :: "string list"

text \<open>The data handed to the template engine (\<^verbatim>\<open>TemplateData\<close> in \<^verbatim>\<open>lib/generator.ts\<close>).\<close>

record TemplateLsp =
  lspEnabled :: bool
  lspProxyRequired :: bool
  lspProviderName :: string

record TemplateData =
  dataLanguage :: string
  dataDisplayName :: string
  dataLanguageId :: string
  pascalLanguage :: string
  camelLanguage :: string
  dataActivation :: Activation
  dataProvider :: Provider
  dataLsp :: TemplateLsp
  dataDependencies :: Dependencies
  dataProviderSpecificConfig :: "(string \<times> json) list"
  dataAnalysis :: Analysis

section \<open>Library functions the generator calls\<close>

text \<open>
  \<^verbatim>\<open>JSON.parse\<close>, \<^verbatim>\<open>JSON.stringify(_, null, 2)\<close> and the template engine
  (\<^verbatim>\<open>Handlebars.compile(text)(data)\<close> with the registered helpers) are not code of this
  repository. The generator is defined over any such library; \<open>Inl\<close> is a thrown error.
\<close>

record lib =
  JSON_parse :: "string \<Rightarrow> exn + json"
  JSON_stringify :: "json \<Rightarrow> string"
  render :: "string \<Rightarrow> TemplateData \<Rightarrow> exn + string"

section \<open>The generator (\<^verbatim>\<open>lib/generator.ts\<close>)\<close>

text \<open>
  \<^verbatim>\<open>content.replace(/,(\s*[}\]])/g, "$1")\<close>: every comma that is followed by optional
  whitespace and a closing brace or bracket is dropped, left to right, wherever it stands.
  The whitespace is the ASCII part of \<^verbatim>\<open>\s\<close>; the other characters of that class (the
  no-break space, the line and paragraph separators, the byte-order mark and the Unicode
  spaces) are outside the ASCII reading of strings.
\<close>

function strip_trailing_commas :: "string \<Rightarrow> string" where
  "strip_trailing_commas [] = []"
| "strip_trailing_commas (c # cs) =
     (if c = CHR '','' then
        (case dropWhile is_space cs of
           [] \<Rightarrow> c # strip_trailing_commas cs
         | r # rest \<Rightarrow>
             if r = CHR ''}'' \<or> r = CHR '']''
             then takeWhile is_space cs @ r # strip_trailing_commas rest
             else c # strip_trailing_commas cs)
      else c # strip_trailing_commas cs)"
  by pat_completeness auto
termination
proof (relation "measure length")
  fix c :: char and cs r rest
  assume "dropWhile is_space cs = r # rest"
  then have "length (r # rest) \<le> length cs"
    by (metis length_dropWhile_le)
  then show "(rest, c # cs) \<in> measure length" by simp
qed auto

definition parseJsonc :: "lib \<Rightarrow> string \<Rightarrow> exn + json" where
  "parseJsonc l text = JSON_parse l (strip_trailing_commas text)"

definition makeTemplateData :: "ExtensionConfig \<Rightarrow> TemplateData" where
  "makeTemplateData cfg =
     \<lparr> dataLanguage = language cfg,
       dataDisplayName = displayName cfg,
       dataLanguageId = languageId cfg,
       pascalLanguage = toPascalCase (language cfg),
       camelLanguage = toCamelCase (language cfg),
       dataActivation = activation cfg,
       dataProvider = provider cfg,
       dataLsp =
         \<lparr> lspEnabled = enabled (lsp cfg),
           lspProxyRequired = proxyRequired (lsp cfg),
           lspProviderName =
             (case providerName (lsp cfg) of
                None \<Rightarrow> language cfg
              | Some n \<Rightarrow> if n = [] then language cfg else n) \<rparr>,
       dataDependencies = dependencies cfg,
       dataProviderSpecificConfig = providerSpecificConfig cfg,
       dataAnalysis =
         \<lparr> mode = (if mode (analysis cfg) = [] then ''source-only'' else mode (analysis cfg)),
           contextLines =
             (if contextLines (analysis cfg) = 0 then 10 else contextLines (analysis cfg)) \<rparr> \<rparr>"

text \<open>
  A step of the run reads and possibly writes the file tree and stages operations, or
  throws. What a step wrote before it threw stays written. \<open>run_steps\<close> runs steps in
  order, appending what each stages; the first error ends the sequence.
\<close>

type_synonym step = "fs \<Rightarrow> (exn + FileOperation list) \<times> fs"

fun run_steps :: "step list \<Rightarrow> FileOperation list \<Rightarrow> step" where
  "run_steps [] ops fs = (Inr ops, fs)"
| "run_steps (s # ss) ops fs =
     (case s fs of
        (Inl e, fs') \<Rightarrow> (Inl e, fs')
      | (Inr new, fs') \<Rightarrow> run_steps ss (ops @ new) fs')"

text \<open>The common tail of every patch: write unless in dry-run, then stage the operation.\<close>

definition stage :: "bool \<Rightarrow> string \<Rightarrow> string \<Rightarrow> FileOperation \<Rightarrow> step" where
  "stage dry p text operation fs =
     (if dry then (Inr [operation], fs)
      else (case writeFile fs p text of
              Inl e \<Rightarrow> (Inl e, fs)
            | Inr fs' \<Rightarrow> (Inr [operation], fs')))"

subsection \<open>New files from templates\<close>

record FileMapping =
  template :: string
  "output" :: string
  condition :: "bool option"

definition fileMappings :: "TemplateData \<Rightarrow> FileMapping list" where
  "fileMappings data =
     [ \<lparr> template = ''package.json.hbs'', output = ''package.json'', condition = None \<rparr>,
       \<lparr> template = ''tsconfig.json.hbs'', output = ''tsconfig.json'', condition = None \<rparr>,
       \<lparr> template = ''webpack.config.js.hbs'', output = ''webpack.config.js'', condition = None \<rparr>,
       \<lparr> template = ''eslintrc.json.hbs'', output = ''.eslintrc.json'', condition = None \<rparr>,
       \<lparr> template = ''LICENSE.md.hbs'', output = ''LICENSE.md'', condition = None \<rparr>,
       \<lparr> template = ''extension.ts.hbs'', output = ''src/extension.ts'', condition = None \<rparr>,
       \<lparr> template = ''providerManager.ts.hbs'',
         output = ''src/'' @ pascalLanguage data @ ''ExternalProviderManager.ts'',
         condition = None \<rparr>,
       \<lparr> template = ''proxyServer.ts.hbs'',
         output = ''src/'' @ pascalLanguage data @ ''VscodeProxyServer.ts'',
         condition = Some (lspProxyRequired (dataLsp data)) \<rparr>,
       \<lparr> template = ''constants.ts.hbs'', output = ''src/utilities/constants.ts'',
         condition = None \<rparr> ]"

definition placeholderOp :: "string \<Rightarrow> FileMapping \<Rightarrow> FileOperation" where
  "placeholderOp outputPath mapping =
     \<lparr> opType = Create,
       path = outputPath,
       description = ''Template '' @ template mapping @ '' not found - create manually'',
       changes = None, content = None, diff = None \<rparr>"

definition createOp :: "TemplateData \<Rightarrow> FileMapping \<Rightarrow> bool \<Rightarrow> string \<Rightarrow> FileOperation" where
  "createOp data mapping dry rendered =
     \<lparr> opType = Create,
       path = ''vscode/'' @ dataLanguage data @ ''/'' @ output mapping,
       description = ''Generated from '' @ template mapping,
       changes = None,
       content = (if dry then Some rendered else None),
       diff = None \<rparr>"

text \<open>The body of the loop over the mappings.\<close>

definition emitFile ::
  "lib \<Rightarrow> string \<Rightarrow> string \<Rightarrow> TemplateData \<Rightarrow> bool \<Rightarrow> FileMapping \<Rightarrow> step" where
  "emitFile l tdir extensionDir data dry mapping fs =
     (if condition mapping = Some False then (Inr [], fs)
      else
        let templatePath = join [tdir, template mapping];
            outputPath = join [extensionDir, output mapping]
        in if \<not> existsSync fs templatePath
           then (Inr [placeholderOp outputPath mapping], fs)
           else
             (case readFile fs templatePath of
                Inl e \<Rightarrow> (Inl e, fs)
              | Inr templateContent \<Rightarrow>
                  (case render l templateContent data of
                     Inl e \<Rightarrow> (Inl e, fs)
                   | Inr rendered \<Rightarrow>
                       if dry then (Inr [createOp data mapping dry rendered], fs)
                       else
                         (case mkdir_recursive fs (dirname outputPath) of
                            (Inl e, fs1) \<Rightarrow> (Inl e, fs1)
                          | (Inr _, fs1) \<Rightarrow>
                              (case writeFile fs1 outputPath rendered of
                                 Inl e \<Rightarrow> (Inl e, fs1)
                               | Inr fs2 \<Rightarrow>
                                   (Inr [createOp data mapping dry rendered], fs2))))))"

definition generateNewFiles :: "lib \<Rightarrow> string \<Rightarrow> string \<Rightarrow> TemplateData \<Rightarrow> bool \<Rightarrow> step" where
  "generateNewFiles l tdir extensionDir data dry =
     run_steps (map (emitFile l tdir extensionDir data dry) (fileMappings data)) []"

subsection \<open>Patches of existing files\<close>

definition quoted :: "string \<Rightarrow> string" where
  "quoted s = dq @ s @ dq"

definition text_lines :: "string list \<Rightarrow> string" where
  "text_lines ls = join_with nl ls"

definition modifyOp :: "string \<Rightarrow> string \<Rightarrow> string list \<Rightarrow> string \<Rightarrow> FileOperation" where
  "modifyOp p d cs df =
     \<lparr> opType = Modify, path = p, description = d,
       changes = Some cs, content = None, diff = Some df \<rparr>"

paragraph \<open>Root \<^verbatim>\<open>package.json\<close>\<close>

text \<open>
  \<^verbatim>\<open>if (!rootPkg.workspaces?.includes(p)) { rootPkg.workspaces = rootPkg.workspaces || [];
  rootPkg.workspaces.push(p); rootPkg.workspaces.sort(); }\<close>
\<close>

definition addWorkspace :: "json \<Rightarrow> string \<Rightarrow> exn + json" where
  "addWorkspace rootPkg workspacePath =
     (case get_prop rootPkg ''workspaces'' of
        Inl e \<Rightarrow> Inl e
      | Inr ws \<Rightarrow>
          (case (case ws of
                   None \<Rightarrow> Inr False
                 | Some JNull \<Rightarrow> Inr False
                 | Some v \<Rightarrow> js_includes ''rootPkg.workspaces?'' v workspacePath) of
             Inl e \<Rightarrow> Inl e
           | Inr present \<Rightarrow>
               if present then Inr rootPkg
               else
                 (case set_prop rootPkg ''workspaces'' (or_default ws (JArr [])) of
                    Inl e \<Rightarrow> Inl e
                  | Inr rootPkg1 \<Rightarrow>
                      (case or_default ws (JArr []) of
                         JArr xs \<Rightarrow>
                           set_prop rootPkg1 ''workspaces''
                             (JArr (js_sort (xs @ [JStr workspacePath])))
                       | _ \<Rightarrow> Inl (TypeError ''rootPkg.workspaces.push is not a function'')))))"

text \<open>
  \<^verbatim>\<open>rootPkg.scripts = rootPkg.scripts || {}; rootPkg.scripts[scriptName] = value;\<close>
\<close>

definition addPackageScript :: "json \<Rightarrow> string \<Rightarrow> string \<Rightarrow> exn + json" where
  "addPackageScript rootPkg scriptName scriptValue =
     (case get_prop rootPkg ''scripts'' of
        Inl e \<Rightarrow> Inl e
      | Inr sc \<Rightarrow>
          (case set_prop rootPkg ''scripts'' (or_default sc (JObj [])) of
             Inl e \<Rightarrow> Inl e
           | Inr rootPkg1 \<Rightarrow>
               (case set_prop (or_default sc (JObj [])) scriptName (JStr scriptValue) of
                  Inl e \<Rightarrow> Inl e
                | Inr scripts' \<Rightarrow> set_prop rootPkg1 ''scripts'' scripts')))"

definition rootPackageOp :: "ExtensionConfig \<Rightarrow> FileOperation" where
  "rootPackageOp cfg =
     modifyOp ''package.json'' ''Add workspace and package script''
       [ ''Add '' @ quoted (''vscode/'' @ language cfg) @ '' to workspaces array'',
         ''Add script '' @ quoted (''package-'' @ language cfg) @ '': ''
           @ quoted (''node ./scripts/package-extensions.js '' @ language cfg) ]
       (text_lines
         [ ''  '' @ quoted ''workspaces'' @ '': ['',
           ''    ...'',
           ''+   '' @ quoted (''vscode/'' @ language cfg),
           ''  ],'',
           ''  '' @ quoted ''scripts'' @ '': {'',
           ''    ...'',
           ''+   '' @ quoted (''package-'' @ language cfg) @ '': ''
             @ quoted (''node ./scripts/package-extensions.js '' @ language cfg),
           ''  }'' ])"

definition patchRootPackage :: "lib \<Rightarrow> string \<Rightarrow> ExtensionConfig \<Rightarrow> bool \<Rightarrow> step" where
  "patchRootPackage l root cfg dry fs =
     (let rootPkgPath = join [root, ''package.json'']
      in if \<not> existsSync fs rootPkgPath then (Inr [], fs)
         else
           (case readFile fs rootPkgPath of
              Inl e \<Rightarrow> (Inl e, fs)
            | Inr text \<Rightarrow>
                (case JSON_parse l text of
                   Inl e \<Rightarrow> (Inl e, fs)
                 | Inr rootPkg \<Rightarrow>
                     (case addWorkspace rootPkg (''vscode/'' @ language cfg) of
                        Inl e \<Rightarrow> (Inl e, fs)
                      | Inr rootPkg1 \<Rightarrow>
                          (case addPackageScript rootPkg1 (''package-'' @ language cfg)
                                  (''node ./scripts/package-extensions.js '' @ language cfg) of
                             Inl e \<Rightarrow> (Inl e, fs)
                           | Inr rootPkg2 \<Rightarrow>
                               stage dry rootPkgPath (JSON_stringify l rootPkg2 @ nl)
                                 (rootPackageOp cfg) fs)))))"

paragraph \<open>Text files patched at an anchor\<close>

text \<open>
  The CI workflow and the three scripts share one shape: skip when the file is absent, skip
  when the key text occurs in it, otherwise replace the first occurrence of the anchor,
  write the result unless in dry-run, and stage the operation.
\<close>

definition patchText ::
  "string \<Rightarrow> string \<Rightarrow> string list \<Rightarrow> string \<Rightarrow> FileOperation \<Rightarrow> bool \<Rightarrow> step" where
  "patchText p key anchor replacement operation dry fs =
     (if \<not> existsSync fs p then (Inr [], fs)
      else
        (case readFile fs p of
           Inl e \<Rightarrow> (Inl e, fs)
         | Inr text \<Rightarrow>
             if str_includes text key then (Inr [], fs)
             else stage dry p (replace_first anchor replacement text) operation fs))"

definition packageStep :: "ExtensionConfig \<Rightarrow> string" where
  "packageStep cfg =
     text_lines
       [ ''- name: Package '' @ displayName cfg @ '' extension'',
         ''        run: npm run package-'' @ language cfg,
         ''        if: runner.os == '' @ sq @ ''Linux'' @ sq ]"

definition ciWorkflowOp :: "ExtensionConfig \<Rightarrow> FileOperation" where
  "ciWorkflowOp cfg =
     modifyOp ''.github/workflows/ci-repo.yml'' ''Add package step for extension''
       [ ''Add step: '' @ quoted (''Package '' @ displayName cfg @ '' extension''),
         ''Run: npm run package-'' @ language cfg ]
       (text_lines
         [ ''+     - name: Package '' @ displayName cfg @ '' extension'',
           ''+       run: npm run package-'' @ language cfg,
           ''+       if: runner.os == '' @ sq @ ''Linux'' @ sq ])"

definition patchCiWorkflow :: "string \<Rightarrow> ExtensionConfig \<Rightarrow> bool \<Rightarrow> step" where
  "patchCiWorkflow root cfg dry =
     patchText (join [root, ''.github/workflows/ci-repo.yml''])
       (''package-'' @ language cfg)
       [nl, ''      '', ''- name: Upload VSIX artifacts'']
       (''$1$2'' @ packageStep cfg @ nl @ nl @ ''$2$3'')
       (ciWorkflowOp cfg) dry"

definition assetRepo :: "ExtensionConfig \<Rightarrow> RepoConfig \<Rightarrow> string" where
  "assetRepo cfg rc =
     (case assetSource (provider cfg) of
        None \<Rightarrow> org rc @ ''/'' @ repo rc
      | Some a \<Rightarrow> if repository a = [] then org rc @ ''/'' @ repo rc else repository a)"

definition assetTag :: "ExtensionConfig \<Rightarrow> RepoConfig \<Rightarrow> string" where
  "assetTag cfg rc =
     (case assetSource (provider cfg) of
        None \<Rightarrow> releaseTag rc
      | Some a \<Rightarrow> if assetReleaseTag a = [] then releaseTag rc else assetReleaseTag a)"

definition assetConfig :: "ExtensionConfig \<Rightarrow> RepoConfig \<Rightarrow> string" where
  "assetConfig cfg rc =
     text_lines
       [ ''  '' @ quoted (binaryName (provider cfg)) @ '': {'',
         ''    release: {'',
         ''      repo: '' @ quoted (assetRepo cfg rc) @ '','',
         ''      tag: '' @ quoted (assetTag cfg rc) @ '','',
         ''    },'',
         ''  },'' ]"

definition collectAssetsOp :: "ExtensionConfig \<Rightarrow> RepoConfig \<Rightarrow> FileOperation" where
  "collectAssetsOp cfg rc =
     modifyOp ''scripts/collect-assets.js'' ''Add asset download configuration''
       [ ''Add '' @ quoted (binaryName (provider cfg)) @ '' to ASSETS object'',
         ''Repository: '' @ assetRepo cfg rc,
         ''Tag: '' @ assetTag cfg rc ]
       (text_lines
         [ ''  const ASSETS = {'',
           ''+   '' @ quoted (binaryName (provider cfg)) @ '': {'',
           ''+     release: {'',
           ''+       repo: '' @ quoted (assetRepo cfg rc) @ '','',
           ''+       tag: '' @ quoted (assetTag cfg rc) @ '','',
           ''+     },'',
           ''+   },'',
           ''    ...'',
           ''  };'' ])"

definition patchCollectAssets :: "string \<Rightarrow> ExtensionConfig \<Rightarrow> RepoConfig \<Rightarrow> bool \<Rightarrow> step" where
  "patchCollectAssets root cfg rc dry =
     patchText (join [root, ''scripts/collect-assets.js''])
       (quoted (binaryName (provider cfg)))
       [''const ASSETS = {'']
       (''$1'' @ nl @ assetConfig cfg rc)
       (collectAssetsOp cfg rc) dry"

definition copyConfig :: "ExtensionConfig \<Rightarrow> string" where
  "copyConfig cfg =
     text_lines
       [ ''  '' @ quoted (language cfg) @ '': {'',
         ''    extensionPath: '' @ quoted (''vscode/'' @ language cfg) @ '','',
         ''    includedAssetPaths: {'',
         ''      '' @ quoted (toCamelCase (binaryName (provider cfg))) @ '': ''
           @ quoted (''../../downloaded_assets/'' @ binaryName (provider cfg)) @ '','',
         ''    },'',
         ''  },'' ]"

definition copyDistOp :: "ExtensionConfig \<Rightarrow> FileOperation" where
  "copyDistOp cfg =
     modifyOp ''scripts/copy-dist.js'' ''Add dist copy configuration''
       [ ''Add '' @ quoted (language cfg) @ '' to EXTENSIONS object'',
         ''Extension path: vscode/'' @ language cfg ]
       (text_lines
         [ ''  const EXTENSIONS = {'',
           ''+   '' @ quoted (language cfg) @ '': {'',
           ''+     extensionPath: '' @ quoted (''vscode/'' @ language cfg) @ '','',
           ''+     includedAssetPaths: {'',
           ''+       '' @ quoted (toCamelCase (binaryName (provider cfg))) @ '': ''
             @ quoted (''../../downloaded_assets/'' @ binaryName (provider cfg)) @ '','',
           ''+     },'',
           ''+   },'',
           ''    ...'',
           ''  };'' ])"

definition patchCopyDist :: "string \<Rightarrow> ExtensionConfig \<Rightarrow> bool \<Rightarrow> step" where
  "patchCopyDist root cfg dry =
     patchText (join [root, ''scripts/copy-dist.js''])
       (quoted (language cfg))
       [''const EXTENSIONS = {'']
       (''$1'' @ nl @ copyConfig cfg)
       (copyDistOp cfg) dry"

definition packageExtensionsOp :: "ExtensionConfig \<Rightarrow> FileOperation" where
  "packageExtensionsOp cfg =
     modifyOp ''scripts/package-extensions.js'' ''Add extension to valid list''
       [ ''Add '' @ quoted (language cfg) @ '' to VALID_EXTENSIONS array'' ]
       (text_lines
         [ ''- const VALID_EXTENSIONS = [...];'',
           ''+ const VALID_EXTENSIONS = ['' @ quoted (language cfg) @ '', ...];'' ])"

definition patchPackageExtensions :: "string \<Rightarrow> ExtensionConfig \<Rightarrow> bool \<Rightarrow> step" where
  "patchPackageExtensions root cfg dry =
     patchText (join [root, ''scripts/package-extensions.js''])
       (quoted (language cfg))
       [''const VALID_EXTENSIONS = ['']
       (''$1'' @ quoted (language cfg) @ '', '')
       (packageExtensionsOp cfg) dry"

paragraph \<open>\<^verbatim>\<open>.vscode/launch.json\<close>\<close>

text \<open>
  \<^verbatim>\<open>c.extensionDevelopmentPath?.some((p) => p.includes(target))\<close>; an undefined result
  counts as false where it is used.
\<close>

definition configurationHasPath :: "string \<Rightarrow> json \<Rightarrow> exn + bool" where
  "configurationHasPath target c =
     (case get_prop c ''extensionDevelopmentPath'' of
        Inl e \<Rightarrow> Inl e
      | Inr None \<Rightarrow> Inr False
      | Inr (Some JNull) \<Rightarrow> Inr False
      | Inr (Some (JArr ps)) \<Rightarrow> some_m (\<lambda>p. js_includes ''p'' p target) ps
      | Inr (Some _) \<Rightarrow>
          Inl (TypeError ''c.extensionDevelopmentPath?.some is not a function''))"

text \<open>\<^verbatim>\<open>launchJson.configurations?.some(...)\<close>\<close>

definition hasExtension :: "json option \<Rightarrow> string \<Rightarrow> exn + bool" where
  "hasExtension configurations target =
     (case configurations of
        None \<Rightarrow> Inr False
      | Some JNull \<Rightarrow> Inr False
      | Some (JArr cs) \<Rightarrow> some_m (configurationHasPath target) cs
      | Some _ \<Rightarrow> Inl (TypeError ''launchJson.configurations?.some is not a function''))"

text \<open>
  The \<^verbatim>\<open>forEach\<close> callback:
  \<^verbatim>\<open>if (c.extensionDevelopmentPath) { c.extensionDevelopmentPath.push(entry); }\<close>
\<close>

definition addDevelopmentPath :: "string \<Rightarrow> json \<Rightarrow> exn + json" where
  "addDevelopmentPath entry c =
     (case get_prop c ''extensionDevelopmentPath'' of
        Inl e \<Rightarrow> Inl e
      | Inr None \<Rightarrow> Inr c
      | Inr (Some v) \<Rightarrow>
          if \<not> truthy v then Inr c
          else
            (case v of
               JArr ps \<Rightarrow> set_prop c ''extensionDevelopmentPath'' (JArr (ps @ [JStr entry]))
             | _ \<Rightarrow> Inl (TypeError ''c.extensionDevelopmentPath.push is not a function'')))"

definition launchOp :: "ExtensionConfig \<Rightarrow> FileOperation" where
  "launchOp cfg =
     modifyOp ''.vscode/launch.json'' ''Add extension to debug configuration''
       [ ''Add '' @ quoted (''${workspaceFolder}/vscode/'' @ language cfg)
           @ '' to extensionDevelopmentPath'' ]
       (text_lines
         [ ''  '' @ quoted ''args'' @ '': ['',
           ''    '' @ quoted ''--extensionDevelopmentPath=${workspaceFolder}/vscode/core'' @ '','',
           ''    '' @ quoted ''--extensionDevelopmentPath=${workspaceFolder}/vscode/java'' @ '','',
           ''    ...'',
           ''+   '' @ quoted (''--extensionDevelopmentPath=${workspaceFolder}/vscode/'' @ language cfg)
             @ '','',
           ''  ]'' ])"

definition patchLaunch :: "lib \<Rightarrow> string \<Rightarrow> ExtensionConfig \<Rightarrow> bool \<Rightarrow> step" where
  "patchLaunch l root cfg dry fs =
     (let launchPath = join [root, ''.vscode/launch.json'']
      in if \<not> existsSync fs launchPath then (Inr [], fs)
         else
           (case readFile fs launchPath of
              Inl e \<Rightarrow> (Inl e, fs)
            | Inr text \<Rightarrow>
                (case JSON_parse l text of
                   Inl e \<Rightarrow> (Inl e, fs)
                 | Inr launchJson \<Rightarrow>
                     (case get_prop launchJson ''configurations'' of
                        Inl e \<Rightarrow> (Inl e, fs)
                      | Inr configurations \<Rightarrow>
                          (case hasExtension configurations (''vscode/'' @ language cfg) of
                             Inl e \<Rightarrow> (Inl e, fs)
                           | Inr has \<Rightarrow>
                               if has \<or> \<not> defined_truthy configurations
                               then (Inr [], fs)
                               else
                                 (case configurations of
                                    Some (JArr cs) \<Rightarrow>
                                      (case map_m (addDevelopmentPath
                                                     (''${workspaceFolder}/vscode/'' @ language cfg)) cs of
                                         Inl e \<Rightarrow> (Inl e, fs)
                                       | Inr cs' \<Rightarrow>
                                           (case set_prop launchJson ''configurations'' (JArr cs') of
                                              Inl e \<Rightarrow> (Inl e, fs)
                                            | Inr launchJson' \<Rightarrow>
                                                stage dry launchPath
                                                  (JSON_stringify l launchJson' @ nl)
                                                  (launchOp cfg) fs))
                                  | _ \<Rightarrow>
                                      (Inl (TypeError
                                         ''launchJson.configurations.forEach is not a function''),
                                       fs)))))))"

paragraph \<open>The workspace file\<close>

text \<open>\<^verbatim>\<open>workspace.folders?.some((f) => f.path === target)\<close>\<close>

definition hasFolder :: "json option \<Rightarrow> string \<Rightarrow> exn + bool" where
  "hasFolder folders target =
     (case folders of
        None \<Rightarrow> Inr False
      | Some JNull \<Rightarrow> Inr False
      | Some (JArr fs) \<Rightarrow>
          some_m (\<lambda>f. case get_prop f ''path'' of
                         Inl e \<Rightarrow> Inl e
                       | Inr v \<Rightarrow> Inr (v = Some (JStr target))) fs
      | Some _ \<Rightarrow> Inl (TypeError ''workspace.folders?.some is not a function''))"

text \<open>
  \<^verbatim>\<open>workspace.folders = workspace.folders || []; workspace.folders.push({ path: target });\<close>
\<close>

definition addFolder :: "json \<Rightarrow> json option \<Rightarrow> string \<Rightarrow> exn + json" where
  "addFolder workspace folders target =
     (case set_prop workspace ''folders'' (or_default folders (JArr [])) of
        Inl e \<Rightarrow> Inl e
      | Inr workspace1 \<Rightarrow>
          (case or_default folders (JArr []) of
             JArr fs \<Rightarrow>
               set_prop workspace1 ''folders'' (JArr (fs @ [JObj [(''path'', JStr target)]]))
           | _ \<Rightarrow> Inl (TypeError ''workspace.folders.push is not a function'')))"

definition workspaceOp :: "ExtensionConfig \<Rightarrow> FileOperation" where
  "workspaceOp cfg =
     modifyOp ''konveyor-extensions.code-workspace'' ''Add extension folder to workspace''
       [ ''Add folder: { '' @ quoted ''path'' @ '': '' @ quoted (''vscode/'' @ language cfg) @ '' }'' ]
       (text_lines
         [ ''  '' @ quoted ''folders'' @ '': ['',
           ''    ...'',
           ''+   {'',
           ''+     '' @ quoted ''path'' @ '': '' @ quoted (''vscode/'' @ language cfg),
           ''+   }'',
           ''  ]'' ])"

definition patchWorkspace :: "lib \<Rightarrow> string \<Rightarrow> ExtensionConfig \<Rightarrow> bool \<Rightarrow> step" where
  "patchWorkspace l root cfg dry fs =
     (let workspacePath = join [root, ''konveyor-extensions.code-workspace'']
      in if \<not> existsSync fs workspacePath then (Inr [], fs)
         else
           (case readFile fs workspacePath of
              Inl e \<Rightarrow> (Inl e, fs)
            | Inr workspaceContent \<Rightarrow>
                (case parseJsonc l workspaceContent of
                   Inl e \<Rightarrow> (Inl e, fs)
                 | Inr workspace \<Rightarrow>
                     (case get_prop workspace ''folders'' of
                        Inl e \<Rightarrow> (Inl e, fs)
                      | Inr folders \<Rightarrow>
                          (case hasFolder folders (''vscode/'' @ language cfg) of
                             Inl e \<Rightarrow> (Inl e, fs)
                           | Inr has \<Rightarrow>
                               if has then (Inr [], fs)
                               else
                                 (case addFolder workspace folders (''vscode/'' @ language cfg) of
                                    Inl e \<Rightarrow> (Inl e, fs)
                                  | Inr workspace' \<Rightarrow>
                                      stage dry workspacePath
                                        (JSON_stringify l workspace' @ nl)
                                        (workspaceOp cfg) fs))))))"

subsection \<open>The two phases and the run\<close>

definition patches :: "lib \<Rightarrow> string \<Rightarrow> ExtensionConfig \<Rightarrow> RepoConfig \<Rightarrow> bool \<Rightarrow> step list" where
  "patches l root cfg rc dry =
     [ patchRootPackage l root cfg dry,
       patchCiWorkflow root cfg dry,
       patchCollectAssets root cfg rc dry,
       patchCopyDist root cfg dry,
       patchPackageExtensions root cfg dry,
       patchLaunch l root cfg dry,
       patchWorkspace l root cfg dry ]"

definition modifyExistingFiles ::
  "lib \<Rightarrow> string \<Rightarrow> ExtensionConfig \<Rightarrow> RepoConfig \<Rightarrow> bool \<Rightarrow> step" where
  "modifyExistingFiles l root cfg rc dry = run_steps (patches l root cfg rc dry) []"

definition extensionDirOf :: "GenerationContext \<Rightarrow> string" where
  "extensionDirOf ctx = join [repoPath ctx, ''vscode'', language (config ctx)]"

definition failed :: "GenerationContext \<Rightarrow> FileOperation list \<Rightarrow> string \<Rightarrow> GenerationResult" where
  "failed ctx ops msg =
     \<lparr> success = False, operations = ops, resultBranchName = branchName ctx, errors = [msg] \<rparr>"

text \<open>
  The directories created up front; skipped in dry-run.
\<close>

definition makeExtensionDirs :: "bool \<Rightarrow> string \<Rightarrow> fs \<Rightarrow> (exn + unit) \<times> fs" where
  "makeExtensionDirs dry extensionDir fs =
     (if dry then (Inr (), fs)
      else
        (case mkdir_recursive fs (join [extensionDir, ''src'', ''utilities'']) of
           (Inl e, fs1) \<Rightarrow> (Inl e, fs1)
         | (Inr _, fs1) \<Rightarrow> mkdir_recursive fs1 (join [extensionDir, ''resources''])))"

definition generateExtension :: "lib \<Rightarrow> GenerationContext \<Rightarrow> fs \<Rightarrow> GenerationResult \<times> fs" where
  "generateExtension l ctx fs =
     (if existsSync fs (extensionDirOf ctx) \<and> \<not> force (options ctx)
      then
        (failed ctx []
           (''Extension directory already exists: '' @ extensionDirOf ctx
              @ ''. Use --force to overwrite.''),
         fs)
      else
        (case makeExtensionDirs (dryRun (options ctx)) (extensionDirOf ctx) fs of
           (Inl e, fs1) \<Rightarrow> (failed ctx [] (message e), fs1)
         | (Inr _, fs1) \<Rightarrow>
             (case generateNewFiles l (templatesDir ctx) (extensionDirOf ctx)
                     (makeTemplateData (config ctx)) (dryRun (options ctx)) fs1 of
                (Inl e, fs2) \<Rightarrow> (failed ctx [] (message e), fs2)
              | (Inr newFiles, fs2) \<Rightarrow>
                  (case modifyExistingFiles l (repoPath ctx) (config ctx) (repoConfig ctx)
                          (dryRun (options ctx)) fs2 of
                     (Inl e, fs3) \<Rightarrow> (failed ctx newFiles (message e), fs3)
                   | (Inr modifiedFiles, fs3) \<Rightarrow>
                       (\<lparr> success = True, operations = newFiles @ modifiedFiles,
                          resultBranchName = branchName ctx, errors = [] \<rparr>,
                        fs3)))))"

section \<open>Shapes of staged operations\<close>

text \<open>
  What a create operation and a modify operation carry. A create operation has content only
  in dry-run and only when it was rendered from a template; its description then starts
  with \<^verbatim>\<open>Generated from\<close>.
\<close>

definition create_shape :: "bool \<Rightarrow> FileOperation \<Rightarrow> bool" where
  "create_shape dry operation =
     (opType operation = Create \<and> diff operation = None
      \<and> (content operation \<noteq> None
           \<longleftrightarrow> dry \<and> starts_with (description operation) ''Generated from ''))"

definition modify_shape :: "FileOperation \<Rightarrow> bool" where
  "modify_shape operation =
     (opType operation = Modify \<and> content operation = None
      \<and> changes operation \<noteq> None \<and> diff operation \<noteq> None)"

section \<open>Fresh repositories\<close>

text \<open>
  The paths a run reads and writes, and what makes a repository fresh for an extension: the
  templates of the enabled mappings are files the engine renders, no file stands where the
  run creates a directory, and no output exists yet or coincides with such a directory.
\<close>

definition is_file :: "node option \<Rightarrow> bool" where
  "is_file n = (case n of Some (File _) \<Rightarrow> True | _ \<Rightarrow> False)"

definition enabledMappings :: "TemplateData \<Rightarrow> FileMapping list" where
  "enabledMappings data = filter (\<lambda>m. condition m \<noteq> Some False) (fileMappings data)"

definition outputPaths :: "string \<Rightarrow> TemplateData \<Rightarrow> string list" where
  "outputPaths ed data = map (\<lambda>m. join [ed, output m]) (enabledMappings data)"

definition newDirectories :: "string \<Rightarrow> TemplateData \<Rightarrow> string list" where
  "newDirectories ed data =
     ancestors (join [ed, ''src'', ''utilities'']) @ ancestors (join [ed, ''resources''])
       @ concat (map (\<lambda>p. ancestors (dirname p)) (outputPaths ed data))"

definition renderedOf :: "lib \<Rightarrow> string \<Rightarrow> TemplateData \<Rightarrow> fs \<Rightarrow> FileMapping \<Rightarrow> string" where
  "renderedOf l tdir data fs m =
     (case lookup fs (join [tdir, template m]) of
        Some (File text) \<Rightarrow> (case render l text data of Inr r \<Rightarrow> r | Inl e \<Rightarrow> [])
      | _ \<Rightarrow> [])"

definition templateReady :: "lib \<Rightarrow> string \<Rightarrow> TemplateData \<Rightarrow> fs \<Rightarrow> FileMapping \<Rightarrow> bool" where
  "templateReady l tdir data fs m =
     (case lookup fs (join [tdir, template m]) of
        Some (File text) \<Rightarrow> (case render l text data of Inr r \<Rightarrow> True | Inl e \<Rightarrow> False)
      | _ \<Rightarrow> False)"

definition extensionSpaceFree :: "fs \<Rightarrow> string \<Rightarrow> TemplateData \<Rightarrow> bool" where
  "extensionSpaceFree fs ed data =
     (list_all (\<lambda>d. \<not> is_file (lookup fs d)) (newDirectories ed data)
      \<and> list_all (\<lambda>p. lookup fs p = None \<and> p \<notin> set (newDirectories ed data)) (outputPaths ed data))"

definition templatesReady :: "lib \<Rightarrow> string \<Rightarrow> TemplateData \<Rightarrow> fs \<Rightarrow> bool" where
  "templatesReady l tdir data fs = list_all (templateReady l tdir data fs) (enabledMappings data)"

definition targetPaths :: "string \<Rightarrow> string list" where
  "targetPaths root =
     map (\<lambda>t. join [root, t])
       [ ''package.json'', ''.github/workflows/ci-repo.yml'', ''scripts/collect-assets.js'',
         ''scripts/copy-dist.js'', ''scripts/package-extensions.js'', ''.vscode/launch.json'',
         ''konveyor-extensions.code-workspace'' ]"

text \<open>
  A property that is absent or \<^verbatim>\<open>null\<close> is replaced by an empty list or object before
  the patch adds to it; \<open>listOrAbsent\<close> and \<open>objectOrAbsent\<close> give the entries the patch
  starts from, and \<open>None\<close> for a value of another kind.
\<close>

definition listOrAbsent :: "json option \<Rightarrow> json list option" where
  "listOrAbsent v =
     (case v of
        None \<Rightarrow> Some []
      | Some JNull \<Rightarrow> Some []
      | Some (JArr xs) \<Rightarrow> Some xs
      | Some _ \<Rightarrow> None)"

definition objectOrAbsent :: "json option \<Rightarrow> (string \<times> json) list option" where
  "objectOrAbsent v =
     (case v of
        None \<Rightarrow> Some []
      | Some JNull \<Rightarrow> Some []
      | Some (JObj kvs) \<Rightarrow> Some kvs
      | Some _ \<Rightarrow> None)"

text \<open>What the launch patch stages: its operation exactly when there are configurations.\<close>

definition launchOps :: "ExtensionConfig \<Rightarrow> json option \<Rightarrow> FileOperation list" where
  "launchOps cfg configurations = (if defined_truthy configurations then [launchOp cfg] else [])"

text \<open>The folder list the workspace patch appends to: the parsed one, or an empty one.\<close>

definition foldersOf :: "json option \<Rightarrow> json list" where
  "foldersOf folders = (case folders of Some (JArr fs) \<Rightarrow> fs | _ \<Rightarrow> [])"

text \<open>
  The manifest after the root patch, for a manifest whose workspace list and scripts start
  from \<open>ws\<close> and \<open>scripts\<close>.
\<close>

definition patchedManifest ::
  "ExtensionConfig \<Rightarrow> (string \<times> json) list \<Rightarrow> json list \<Rightarrow> (string \<times> json) list \<Rightarrow> json" where
  "patchedManifest cfg kvs ws scripts =
     JObj (obj_set ''scripts''
             (JObj (obj_set (''package-'' @ language cfg)
                      (JStr (''node ./scripts/package-extensions.js '' @ language cfg)) scripts))
             (obj_set ''workspaces'' (JArr (js_sort (ws @ [JStr (''vscode/'' @ language cfg)]))) kvs))"

text \<open>
  What stays true while an apply-mode run creates the extension's files: every entry the
  tree had at the start is unchanged, no directory to create has become a file, and no
  output has become a directory.
\<close>

definition keeps :: "fs \<Rightarrow> string list \<Rightarrow> string list \<Rightarrow> fs \<Rightarrow> bool" where
  "keeps fs0 ds outs f =
     ((\<forall>p. lookup fs0 p \<noteq> None \<longrightarrow> f p = fs0 p)
      \<and> (\<forall>d \<in> set ds. \<not> is_file (lookup f d))
      \<and> (\<forall>p \<in> set outs. lookup f p \<noteq> Some Dir))"

section \<open>Presence tests\<close>




section \<open>A reference library for evaluating runs\<close>

text \<open>
  To evaluate the generator on concrete repositories, a small instance of the library:
  a parser and a printer for JSON with integer numbers and the two-character escapes, and
  a renderer for templates of plain text and \<^verbatim>\<open>{{name}}\<close> tags over the top-level
  string fields, in the engine's default mode, where a name the data does not have renders
  as empty text. What lies outside this fragment is refused with an error of the instance
  rather than answered: numbers with a fraction, an exponent or more than fifteen digits
  (the engine reads doubles), object keys that are array indices (the engine enumerates them
  first), \<^verbatim>\<open>\u\<close> escapes; tags that name a helper, an object-valued field, a literal or a
  property of every object, block, comment and raw tags, and escaped tags. The wording of the
  instance's errors is its own, not the engine's. General theorems do not depend on it.
\<close>

definition is_json_ws :: "char \<Rightarrow> bool" where
  "is_json_ws c = (c \<in> set [CHR 0x20, CHR 0x09, CHR 0x0A, CHR 0x0D])"

definition unescape :: "char \<Rightarrow> char option" where
  "unescape e =
     (if e = CHR 0x22 \<or> e = CHR 0x5C \<or> e = CHR ''/'' then Some e
      else if e = CHR ''b'' then Some (CHR 0x08)
      else if e = CHR ''f'' then Some (CHR 0x0C)
      else if e = CHR ''n'' then Some (CHR 0x0A)
      else if e = CHR ''r'' then Some (CHR 0x0D)
      else if e = CHR ''t'' then Some (CHR 0x09)
      else None)"

text \<open>The characters of a string literal after its opening quote.\<close>

fun parse_string :: "string \<Rightarrow> string \<Rightarrow> (string \<times> string) option" where
  "parse_string acc [] = None"
| "parse_string acc [c] = (if c = CHR 0x22 then Some (acc, []) else None)"
| "parse_string acc (c # d # cs) =
     (if c = CHR 0x22 then Some (acc, d # cs)
      else if c = CHR 0x5C then
        (case unescape d of None \<Rightarrow> None | Some x \<Rightarrow> parse_string (acc @ [x]) cs)
      else if (of_char c :: nat) < 32 then None
      else parse_string (acc @ [c]) (d # cs))"

definition parse_number :: "string \<Rightarrow> (json \<times> string) option" where
  "parse_number s =
     (let neg = (take 1 s = ''-'');
          body = (if neg then drop 1 s else s);
          ds = takeWhile is_digit body;
          rest = dropWhile is_digit body
      in if ds = [] \<or> (length ds > 1 \<and> hd ds = CHR ''0'') \<or> length ds > 15 then None
         else if rest \<noteq> [] \<and> hd rest \<in> set ''.eE'' then None
         else Some (JNum (if neg \<and> ds \<noteq> ''0'' then CHR ''-'' # ds else ds), rest))"

definition is_index_key :: "string \<Rightarrow> bool" where
  "is_index_key k = (k \<noteq> [] \<and> list_all is_digit k \<and> (k = ''0'' \<or> hd k \<noteq> CHR ''0''))"

fun parse_value :: "nat \<Rightarrow> string \<Rightarrow> (json \<times> string) option"
  and parse_elements :: "nat \<Rightarrow> json list \<Rightarrow> string \<Rightarrow> (json \<times> string) option"
  and parse_members :: "nat \<Rightarrow> (string \<times> json) list \<Rightarrow> string \<Rightarrow> (json \<times> string) option"
where
  "parse_value 0 s = None"
| "parse_value (Suc n) s =
     (case dropWhile is_json_ws s of
        [] \<Rightarrow> None
      | c # cs \<Rightarrow>
          if c = CHR ''{'' then
            (case dropWhile is_json_ws cs of
               [] \<Rightarrow> None
             | d # ds \<Rightarrow> if d = CHR ''}'' then Some (JObj [], ds) else parse_members n [] (d # ds))
          else if c = CHR ''['' then
            (case dropWhile is_json_ws cs of
               [] \<Rightarrow> None
             | d # ds \<Rightarrow> if d = CHR '']'' then Some (JArr [], ds) else parse_elements n [] (d # ds))
          else if c = CHR 0x22 then
            (case parse_string [] cs of None \<Rightarrow> None | Some (str, rest) \<Rightarrow> Some (JStr str, rest))
          else if starts_with (c # cs) ''true'' then Some (JBool True, drop 4 (c # cs))
          else if starts_with (c # cs) ''false'' then Some (JBool False, drop 5 (c # cs))
          else if starts_with (c # cs) ''null'' then Some (JNull, drop 4 (c # cs))
          else parse_number (c # cs))"
| "parse_elements 0 acc s = None"
| "parse_elements (Suc n) acc s =
     (case parse_value n s of
        None \<Rightarrow> None
      | Some (v, rest) \<Rightarrow>
          (case dropWhile is_json_ws rest of
             [] \<Rightarrow> None
           | c # cs \<Rightarrow>
               if c = CHR '']'' then Some (JArr (acc @ [v]), cs)
               else if c = CHR '','' then parse_elements n (acc @ [v]) cs
               else None))"
| "parse_members 0 acc s = None"
| "parse_members (Suc n) acc s =
     (case dropWhile is_json_ws s of
        [] \<Rightarrow> None
      | q # ks \<Rightarrow>
          if q \<noteq> CHR 0x22 then None
          else
            (case parse_string [] ks of
               None \<Rightarrow> None
             | Some (k, rest) \<Rightarrow>
                 (case dropWhile is_json_ws rest of
                    [] \<Rightarrow> None
                  | c # cs \<Rightarrow>
                      if c \<noteq> CHR '':'' \<or> is_index_key k then None
                      else
                        (case parse_value n cs of
                           None \<Rightarrow> None
                         | Some (v, rest') \<Rightarrow>
                             (case dropWhile is_json_ws rest' of
                                [] \<Rightarrow> None
                              | d # ds \<Rightarrow>
                                  if d = CHR ''}'' then Some (JObj (obj_set k v acc), ds)
                                  else if d = CHR '','' then parse_members n (obj_set k v acc) ds
                                  else None)))))"

definition json_parse :: "string \<Rightarrow> exn + json" where
  "json_parse s =
     (case parse_value (Suc (length s)) s of
        None \<Rightarrow> Inl (SyntaxError ''not JSON of the reference parser'')
      | Some (v, rest) \<Rightarrow>
          if dropWhile is_json_ws rest = [] then Inr v
          else Inl (SyntaxError ''text after the JSON value''))"

definition hex_digit :: "nat \<Rightarrow> char" where
  "hex_digit n = (if n < 10 then char_of (48 + n) else char_of (87 + n))"

definition escape_char :: "char \<Rightarrow> string" where
  "escape_char c =
     (if c = CHR 0x22 then [CHR 0x5C, CHR 0x22]
      else if c = CHR 0x5C then [CHR 0x5C, CHR 0x5C]
      else if c = CHR 0x08 then [CHR 0x5C, CHR ''b'']
      else if c = CHR 0x0C then [CHR 0x5C, CHR ''f'']
      else if c = CHR 0x0A then [CHR 0x5C, CHR ''n'']
      else if c = CHR 0x0D then [CHR 0x5C, CHR ''r'']
      else if c = CHR 0x09 then [CHR 0x5C, CHR ''t'']
      else if (of_char c :: nat) < 32
        then [CHR 0x5C, CHR ''u'', CHR ''0'', CHR ''0'',
              hex_digit (of_char c div 16), hex_digit (of_char c mod 16)]
      else [c])"

definition quote_json :: "string \<Rightarrow> string" where
  "quote_json s = dq @ concat (map escape_char s) @ dq"

fun stringify_at :: "nat \<Rightarrow> json \<Rightarrow> string" where
  "stringify_at i JNull = ''null''"
| "stringify_at i (JBool b) = (if b then ''true'' else ''false'')"
| "stringify_at i (JNum n) = n"
| "stringify_at i (JStr s) = quote_json s"
| "stringify_at i (JArr xs) =
     (if xs = [] then ''[]''
      else ''['' @ nl
        @ join_with ('','' @ nl)
            (map (\<lambda>x. replicate (2 * Suc i) (CHR '' '') @ stringify_at (Suc i) x) xs)
        @ nl @ replicate (2 * i) (CHR '' '') @ '']'')"
| "stringify_at i (JObj kvs) =
     (if kvs = [] then ''{}''
      else ''{'' @ nl
        @ join_with ('','' @ nl)
            (map (\<lambda>kv. replicate (2 * Suc i) (CHR '' '') @ quote_json (fst kv) @ '': ''
                          @ stringify_at (Suc i) (snd kv)) kvs)
        @ nl @ replicate (2 * i) (CHR '' '') @ ''}'')"

definition json_stringify :: "json \<Rightarrow> string" where
  "json_stringify v = stringify_at 0 v"

definition escape_html :: "char \<Rightarrow> string" where
  "escape_html c =
     (if c = CHR ''&'' then ''&amp;''
      else if c = CHR ''<'' then ''&lt;''
      else if c = CHR ''>'' then ''&gt;''
      else if c = CHR 0x22 then ''&quot;''
      else if c = CHR 0x27 then ''&#x27;''
      else if c = CHR 0x60 then ''&#x60;''
      else if c = CHR ''='' then ''&#x3D;''
      else [c])"

definition data_field :: "TemplateData \<Rightarrow> string \<Rightarrow> string option" where
  "data_field data name =
     map_of
       [ (''language'', dataLanguage data),
         (''displayName'', dataDisplayName data),
         (''languageId'', dataLanguageId data),
         (''pascalLanguage'', pascalLanguage data),
         (''camelLanguage'', camelLanguage data) ] name"

definition is_name_char :: "char \<Rightarrow> bool" where
  "is_name_char c =
     ((CHR ''a'' \<le> c \<and> c \<le> CHR ''z'') \<or> (CHR ''A'' \<le> c \<and> c \<le> CHR ''Z'')
      \<or> is_digit c \<or> c = CHR ''_'')"

text \<open>
  Names the engine does not read as a field of the data: the helpers registered by the
  generator and the built-in ones, the object-valued fields, literals, and properties that
  every object has.
\<close>

definition reserved_names :: "string list" where
  "reserved_names =
     [ ''pascalCase'', ''camelCase'', ''capitalize'', ''json'', ''extractExtName'',
       ''if'', ''unless'', ''each'', ''with'', ''lookup'', ''log'', ''helperMissing'',
       ''blockHelperMissing'', ''else'', ''this'', ''true'', ''false'', ''null'', ''undefined'',
       ''activation'', ''provider'', ''lsp'', ''dependencies'', ''providerSpecificConfig'',
       ''analysis'', ''constructor'', ''__proto__'', ''__defineGetter__'', ''__defineSetter__'',
       ''__lookupGetter__'', ''__lookupSetter__'', ''hasOwnProperty'', ''isPrototypeOf'',
       ''propertyIsEnumerable'', ''toLocaleString'', ''toString'', ''valueOf'' ]"

definition plain_tag :: "string \<Rightarrow> bool" where
  "plain_tag name =
     (name \<noteq> [] \<and> list_all is_name_char name \<and> \<not> is_digit (hd name)
      \<and> name \<notin> set reserved_names)"

definition trim_spaces :: "string \<Rightarrow> string" where
  "trim_spaces s = rev (dropWhile is_space (rev (dropWhile is_space s)))"

fun render_tags :: "nat \<Rightarrow> TemplateData \<Rightarrow> string \<Rightarrow> exn + string" where
  "render_tags 0 data s = Inl (EngineError ''template too long'')"
| "render_tags (Suc n) data s =
     (case find_first ''{{'' [] s of
        None \<Rightarrow> Inr s
      | Some (pre, rest) \<Rightarrow>
          (case find_first ''}}'' [] rest of
             None \<Rightarrow> Inl (EngineError ''Parse error: unclosed tag'')
           | Some (tag, post) \<Rightarrow>
               if \<not> plain_tag (trim_spaces tag) \<or> (pre \<noteq> [] \<and> last pre = CHR 0x5C)
               then Inl (EngineError ''tag outside the reference renderer'')
               else
                 (case render_tags n data post of
                    Inl e \<Rightarrow> Inl e
                  | Inr out \<Rightarrow>
                      Inr (pre
                           @ concat (map escape_html
                               (case data_field data (trim_spaces tag) of
                                  None \<Rightarrow> []
                                | Some v \<Rightarrow> v))
                           @ out))))"

definition render_default :: "string \<Rightarrow> TemplateData \<Rightarrow> exn + string" where
  "render_default text data = render_tags (Suc (length text)) data text"

definition ref_lib :: lib where
  "ref_lib = \<lparr> JSON_parse = json_parse, JSON_stringify = json_stringify, render = render_default \<rparr>"

section \<open>Sample repositories\<close>

text \<open>
  A host repository under \<^verbatim>\<open>/r\<close> with the seven files the patches look for, and a template
  directory \<^verbatim>\<open>/t\<close> with the nine templates. The workspace file has trailing commas.
\<close>

definition sampleConfig :: "bool \<Rightarrow> string \<Rightarrow> string \<Rightarrow> ExtensionConfig" where
  "sampleConfig proxy lang name =
     \<lparr> language = lang, displayName = name, languageId = lang,
       activation = \<lparr> fileExtensions = [''.x''], filePatterns = None,
                      workspaceContains = [], additionalLanguageIds = None \<rparr>,
       provider = \<lparr> providerType = ''generic'', binaryName = ''generic-external-provider'',
                    binaryArgs = [], assetSource = None, platforms = [] \<rparr>,
       lsp = \<lparr> enabled = True, proxyRequired = proxy, providerName = None \<rparr>,
       dependencies = \<lparr> vscodeExtensions = [], runtimeCheck = None \<rparr>,
       providerSpecificConfig = [],
       analysis = \<lparr> mode = ''source-only'', contextLines = 10 \<rparr> \<rparr>"

definition sampleRepoConfig :: RepoConfig where
  "sampleRepoConfig =
     \<lparr> version = ''0.4.0'', releaseTag = ''v0.8.0-beta.5'', csharpReleaseTag = None,
       org = ''konveyor'', repo = ''kai'', rulesetOrg = ''konveyor'', rulesetRepo = ''rulesets'' \<rparr>"

definition sampleContext :: "bool \<Rightarrow> bool \<Rightarrow> ExtensionConfig \<Rightarrow> GenerationContext" where
  "sampleContext dry frc cfg =
     \<lparr> config = cfg, options = \<lparr> dryRun = dry, force = frc \<rparr>, repoPath = ''/r'',
       branchName = ''feature/'' @ language cfg @ ''-extension'', templatesDir = ''/t'',
       repoConfig = sampleRepoConfig \<rparr>"

definition pythonConfig :: ExtensionConfig where
  "pythonConfig = sampleConfig True ''python'' ''Python''"

definition rustConfig :: ExtensionConfig where
  "rustConfig = sampleConfig False ''rust'' ''Rust''"

definition sampleManifest :: string where
  "sampleManifest =
     ''{'' @ quoted ''workspaces'' @ '':['' @ quoted ''shared'' @ '','' @ quoted ''vscode/core''
       @ ''],'' @ quoted ''scripts'' @ '':{}}''"

definition sampleWorkflow :: string where
  "sampleWorkflow = ''steps:'' @ nl @ ''      - name: Upload VSIX artifacts'' @ nl"

definition sampleLaunch :: string where
  "sampleLaunch =
     ''{'' @ quoted ''configurations'' @ '':[{'' @ quoted ''extensionDevelopmentPath''
       @ '':['' @ quoted ''${workspaceFolder}/vscode/core'' @ '']}]}''"

definition sampleWorkspace :: string where
  "sampleWorkspace =
     ''{'' @ quoted ''folders'' @ '':[{'' @ quoted ''path'' @ '':'' @ quoted ''vscode/core''
       @ ''},],}''"

definition hostFiles :: "(string \<times> node) list" where
  "hostFiles =
     [ (''/r'', Dir),
       (''/r/package.json'', File sampleManifest),
       (''/r/.github'', Dir),
       (''/r/.github/workflows'', Dir),
       (''/r/.github/workflows/ci-repo.yml'', File sampleWorkflow),
       (''/r/scripts'', Dir),
       (''/r/scripts/collect-assets.js'', File ''const ASSETS = {};''),
       (''/r/scripts/copy-dist.js'', File ''const EXTENSIONS = {};''),
       (''/r/scripts/package-extensions.js'', File ''const VALID_EXTENSIONS = [];''),
       (''/r/.vscode'', Dir),
       (''/r/.vscode/launch.json'', File sampleLaunch),
       (''/r/konveyor-extensions.code-workspace'', File sampleWorkspace) ]"

definition templateFiles :: "(string \<times> node) list" where
  "templateFiles =
     [ (''/t'', Dir),
       (''/t/package.json.hbs'', File ''{{language}}''),
       (''/t/tsconfig.json.hbs'', File ''{}''),
       (''/t/webpack.config.js.hbs'', File ''w''),
       (''/t/eslintrc.json.hbs'', File ''e''),
       (''/t/LICENSE.md.hbs'', File ''L''),
       (''/t/extension.ts.hbs'', File ''x {{displayName}}''),
       (''/t/providerManager.ts.hbs'', File ''class {{pascalLanguage}}''),
       (''/t/proxyServer.ts.hbs'', File ''proxy''),
       (''/t/constants.ts.hbs'', File ''c'') ]"

definition sampleRepo :: fs where
  "sampleRepo = map_of (hostFiles @ templateFiles)"

definition existingExtensionRepo :: fs where
  "existingExtensionRepo = map_of ((''/r/vscode/python'', Dir) # hostFiles @ templateFiles)"

definition sparseTemplateRepo :: fs where
  "sparseTemplateRepo =
     map_of (hostFiles @ [(''/t'', Dir), (''/t/package.json.hbs'', File ''{{language}}'')])"

definition brokenTemplateRepo :: fs where
  "brokenTemplateRepo = map_of (hostFiles @ [(''/t'', Dir), (''/t/tsconfig.json.hbs'', Dir)])"

definition tsconfigMapping :: FileMapping where
  "tsconfigMapping = \<lparr> template = ''tsconfig.json.hbs'', output = ''tsconfig.json'', condition = None \<rparr>"

definition malformedLaunchRepo :: fs where
  "malformedLaunchRepo = map_of ((''/r/.vscode/launch.json'', File ''{'') # hostFiles @ templateFiles)"

definition noAnchorRepo :: fs where
  "noAnchorRepo =
     map_of [ (''/r'', Dir), (''/r/.github'', Dir), (''/r/.github/workflows'', Dir),
              (''/r/.github/workflows/ci-repo.yml'', File ''steps: []'') ]"


definition commaPathWorkspace :: string where
  "commaPathWorkspace =
     ''{'' @ quoted ''folders'' @ '':[{'' @ quoted ''path'' @ '':'' @ quoted ''a,]'' @ ''}]}''"

definition commaPathRepo :: fs where
  "commaPathRepo =
     map_of [ (''/r'', Dir), (''/r/konveyor-extensions.code-workspace'', File commaPathWorkspace) ]"

definition smallRepo :: fs where
  "smallRepo =
     map_of [ (''/r'', Dir), (''/r/scripts'', Dir),
              (''/r/scripts/package-extensions.js'', File ''const VALID_EXTENSIONS = [];''),
              (''/t'', Dir), (''/t/package.json.hbs'', File ''{{language}}'') ]"



text \<open>
  The sample repository with a launch file that has no configurations; a repository whose
  manifest, launch file and workspace file are empty objects; a workspace file with trailing
  commas and a folder path that ends like one.
\<close>

definition emptyLaunchRepo :: fs where
  "emptyLaunchRepo = map_of ((''/r/.vscode/launch.json'', File ''{}'') # hostFiles @ templateFiles)"

definition bareRepo :: fs where
  "bareRepo =
     map_of ([ (''/r/package.json'', File ''{}''),
               (''/r/.vscode/launch.json'', File ''{}''),
               (''/r/konveyor-extensions.code-workspace'', File ''{}'') ]
             @ hostFiles @ templateFiles)"

definition trailingCommaWorkspace :: string where
  "trailingCommaWorkspace =
     ''{'' @ quoted ''folders'' @ '':[{'' @ quoted ''path'' @ '':'' @ quoted ''a,]'' @ ''},],}''"

definition trailingCommaRepo :: fs where
  "trailingCommaRepo =
     map_of [ (''/r'', Dir), (''/r/konveyor-extensions.code-workspace'', File trailingCommaWorkspace) ]"

text \<open>The trees of a run on the repository with the malformed launch file, phase by phase.\<close>

definition launchFailureDirs :: fs where
  "launchFailureDirs = snd (makeExtensionDirs False ''/r/vscode/python'' malformedLaunchRepo)"

definition launchFailureNewFiles :: fs where
  "launchFailureNewFiles =
     snd (generateNewFiles ref_lib ''/t'' ''/r/vscode/python'' (makeTemplateData pythonConfig) False
            launchFailureDirs)"

definition launchFailurePatches :: fs where
  "launchFailurePatches =
     snd (modifyExistingFiles ref_lib ''/r'' pythonConfig sampleRepoConfig False launchFailureNewFiles)"



section \<open>Frame properties of dry-run\<close>

lemma stage_dry: "snd (stage True p t operation fs) = fs"
  by (simp add: stage_def)

lemma run_steps_frame:
  assumes "\<And>s f. s \<in> set ss \<Longrightarrow> snd (s f) = f"
  shows "snd (run_steps ss ops fs) = fs"
  using assms
proof (induction ss arbitrary: ops fs)
  case Nil
  then show ?case by simp
next
  case (Cons s ss)
  have s: "snd (s fs) = fs" using Cons.prems by simp
  show ?case
  proof (cases "s fs")
    case (Pair r fs')
    with s have [simp]: "fs' = fs" by simp
    show ?thesis
    proof (cases r)
      case (Inl e)
      with Pair show ?thesis by simp
    next
      case (Inr new)
      with Pair Cons show ?thesis by simp
    qed
  qed
qed

lemma patchText_dry: "snd (patchText p key anchor repl operation True fs) = fs"
  by (simp add: patchText_def stage_def split: sum.splits)

lemma patchRootPackage_dry: "snd (patchRootPackage l root cfg True fs) = fs"
  by (simp add: patchRootPackage_def stage_def Let_def split: sum.splits)

lemma patchLaunch_dry: "snd (patchLaunch l root cfg True fs) = fs"
  by (simp add: patchLaunch_def stage_def Let_def split: sum.splits option.splits json.splits)

lemma patchWorkspace_dry: "snd (patchWorkspace l root cfg True fs) = fs"
  by (simp add: patchWorkspace_def stage_def Let_def split: sum.splits)

lemma emitFile_dry: "snd (emitFile l tdir ed data True m fs) = fs"
  by (simp add: emitFile_def Let_def split: sum.splits)

lemma modifyExistingFiles_dry: "snd (modifyExistingFiles l root cfg rc True fs) = fs"
  unfolding modifyExistingFiles_def
  by (rule run_steps_frame)
     (auto simp: patches_def patchRootPackage_dry patchLaunch_dry patchWorkspace_dry
        patchText_dry patchCiWorkflow_def patchCollectAssets_def patchCopyDist_def
        patchPackageExtensions_def)

lemma generateNewFiles_dry: "snd (generateNewFiles l tdir ed data True fs) = fs"
  unfolding generateNewFiles_def
  by (rule run_steps_frame) (auto simp: emitFile_dry)

section \<open>Sequences of steps\<close>

lemma run_steps_error:
  "run_steps ss ops fs = (Inl e, fs') \<Longrightarrow> \<exists>s \<in> set ss. \<exists>fs0. s fs0 = (Inl e, fs')"
proof (induction ss arbitrary: ops fs)
  case Nil
  then show ?case by simp
next
  case (Cons s ss)
  show ?case
  proof (cases "s fs")
    case (Pair r f1)
    show ?thesis
    proof (cases r)
      case (Inl e1)
      with Pair Cons.prems have "s fs = (Inl e, fs')" by simp
      then show ?thesis by auto
    next
      case (Inr new)
      with Pair Cons.prems have "run_steps ss (ops @ new) f1 = (Inl e, fs')" by simp
      from Cons.IH [OF this] show ?thesis by auto
    qed
  qed
qed

lemma run_steps_all:
  assumes "\<And>s f new f'. s \<in> set ss \<Longrightarrow> s f = (Inr new, f') \<Longrightarrow> list_all P new"
    and "list_all P ops"
    and "run_steps ss ops fs = (Inr out, fs')"
  shows "list_all P out"
  using assms
proof (induction ss arbitrary: ops fs)
  case Nil
  then show ?case by simp
next
  case (Cons s ss)
  show ?case
  proof (cases "s fs")
    case (Pair r f1)
    show ?thesis
    proof (cases r)
      case (Inl e)
      with Pair Cons.prems(3) show ?thesis by simp
    next
      case (Inr new)
      with Pair Cons.prems(3) have run: "run_steps ss (ops @ new) f1 = (Inr out, fs')" by simp
      have step: "list_all P n" if "t \<in> set (s # ss)" and "t f = (Inr n, f')" for t f n f'
        using Cons.prems(1) [of t f n f'] that by simp
      from Pair Inr have "list_all P new" using step [of s fs new f1] by simp
      with Cons.prems(2) have all: "list_all P (ops @ new)" by simp
      have "list_all P n" if "t \<in> set ss" and "t f = (Inr n, f')" for t f n f'
        using step [of t f n f'] that by simp
      then show ?thesis
        using Cons.IH [of "ops @ new" f1] all run by blast
    qed
  qed
qed

lemma run_steps_length:
  assumes "\<And>m f new f'. g m f = (Inr new, f') \<Longrightarrow> length new = w m"
    and "run_steps (map g ms) ops fs = (Inr out, fs')"
  shows "length out = length ops + sum_list (map w ms)"
  using assms
proof (induction ms arbitrary: ops fs)
  case Nil
  then show ?case by simp
next
  case (Cons m ms)
  show ?case
  proof (cases "g m fs")
    case (Pair r f1)
    show ?thesis
    proof (cases r)
      case (Inl e)
      with Pair Cons.prems(2) show ?thesis by simp
    next
      case (Inr new)
      with Pair Cons.prems(2) have run: "run_steps (map g ms) (ops @ new) f1 = (Inr out, fs')" by simp
      from Pair Inr have "g m fs = (Inr new, f1)" by simp
      then have "length new = w m" by (rule Cons.prems(1))
      moreover have "length out = length (ops @ new) + sum_list (map w ms)"
        by (rule Cons.IH [OF _ run]) (rule Cons.prems(1))
      ultimately show ?thesis by simp
    qed
  qed
qed

section \<open>What the steps stage\<close>

lemma emitFile_missing:
  assumes "condition m \<noteq> Some False" and "\<not> existsSync fs (join [tdir, template m])"
  shows "emitFile l tdir ed data dry m fs = (Inr [placeholderOp (join [ed, output m]) m], fs)"
  using assms by (simp add: emitFile_def Let_def)

lemma emitFile_error_template_exists:
  "emitFile l tdir ed data dry m fs0 = (Inl e, fs') \<Longrightarrow> existsSync fs0 (join [tdir, template m])"
  by (auto simp: emitFile_def Let_def split: if_splits)

lemma createOp_shape: "create_shape dry (createOp data m dry r)"
  by (simp add: create_shape_def createOp_def)

lemma placeholderOp_shape: "create_shape dry (placeholderOp p m)"
  by (simp add: create_shape_def placeholderOp_def)

lemma modifyOp_shape: "modify_shape (modifyOp p d cs df)"
  by (simp add: modify_shape_def modifyOp_def)

lemma emitFile_ops:
  "emitFile l tdir ed data dry m f = (Inr new, f') \<Longrightarrow>
     list_all (create_shape dry) new \<and> length new = (if condition m = Some False then 0 else 1)"
  by (auto simp: emitFile_def Let_def createOp_shape placeholderOp_shape
           split: if_splits sum.splits prod.splits)

lemma generateNewFiles_ops:
  assumes "generateNewFiles l tdir ed data dry fs = (Inr out, fs')"
  shows "list_all (create_shape dry) out"
    and "length out = (if lspProxyRequired (dataLsp data) then 9 else 8)"
proof -
  show "list_all (create_shape dry) out"
    using assms unfolding generateNewFiles_def
    by (rule run_steps_all [rotated 2]) (auto dest: emitFile_ops)
  have "length out = length ([] :: FileOperation list)
        + sum_list (map (\<lambda>m. if condition m = Some False then 0 else 1) (fileMappings data))"
    using assms unfolding generateNewFiles_def
    by (rule run_steps_length [rotated]) (auto dest: emitFile_ops)
  then show "length out = (if lspProxyRequired (dataLsp data) then 9 else 8)"
    by (simp add: fileMappings_def)
qed

lemma stage_ops: "stage dry p t operation f = (Inr new, f') \<Longrightarrow> new = [operation]"
  by (auto simp: stage_def split: if_splits sum.splits)

lemma patchText_ops:
  "patchText p key anchor repl (modifyOp a b c d) dry f = (Inr new, f') \<Longrightarrow> list_all modify_shape new"
  by (auto simp: patchText_def modifyOp_shape split: if_splits sum.splits dest!: stage_ops)

lemma patchRootPackage_ops:
  "patchRootPackage l root cfg dry f = (Inr new, f') \<Longrightarrow> list_all modify_shape new"
  by (auto simp: patchRootPackage_def Let_def rootPackageOp_def modifyOp_shape
           split: if_splits sum.splits dest!: stage_ops)

lemma patchLaunch_ops:
  "patchLaunch l root cfg dry f = (Inr new, f') \<Longrightarrow> list_all modify_shape new"
  by (auto simp: patchLaunch_def Let_def launchOp_def modifyOp_shape
           split: if_splits sum.splits option.splits json.splits dest!: stage_ops)

lemma patchWorkspace_ops:
  "patchWorkspace l root cfg dry f = (Inr new, f') \<Longrightarrow> list_all modify_shape new"
  by (auto simp: patchWorkspace_def Let_def workspaceOp_def modifyOp_shape
           split: if_splits sum.splits dest!: stage_ops)

lemma modifyExistingFiles_ops:
  assumes "modifyExistingFiles l root cfg rc dry fs = (Inr out, fs')"
  shows "list_all modify_shape out"
  using assms unfolding modifyExistingFiles_def
proof (rule run_steps_all [rotated 2])
  fix s f new f'
  assume "s \<in> set (patches l root cfg rc dry)" and "s f = (Inr new, f')"
  then show "list_all modify_shape new"
    by (auto simp: patches_def patchCiWorkflow_def ciWorkflowOp_def patchCollectAssets_def
          collectAssetsOp_def patchCopyDist_def copyDistOp_def patchPackageExtensions_def
          packageExtensionsOp_def
        dest: patchRootPackage_ops patchLaunch_ops patchWorkspace_ops patchText_ops)
qed simp

section \<open>The outcomes of a run\<close>

lemma generateExtension_cases:
  obtains
    (pre) "existsSync fs (extensionDirOf ctx)" "\<not> force (options ctx)"
  | (dirs) e fs1 where
      "makeExtensionDirs (dryRun (options ctx)) (extensionDirOf ctx) fs = (Inl e, fs1)"
      "fst (generateExtension l ctx fs) = failed ctx [] (message e)"
  | (new) e fs1 fs2 where
      "generateNewFiles l (templatesDir ctx) (extensionDirOf ctx) (makeTemplateData (config ctx))
         (dryRun (options ctx)) fs1 = (Inl e, fs2)"
      "fst (generateExtension l ctx fs) = failed ctx [] (message e)"
  | (patch) e newFiles fs1 fs2 fs3 where
      "generateNewFiles l (templatesDir ctx) (extensionDirOf ctx) (makeTemplateData (config ctx))
         (dryRun (options ctx)) fs1 = (Inr newFiles, fs2)"
      "modifyExistingFiles l (repoPath ctx) (config ctx) (repoConfig ctx) (dryRun (options ctx)) fs2
         = (Inl e, fs3)"
      "fst (generateExtension l ctx fs) = failed ctx newFiles (message e)"
  | (ok) newFiles modifiedFiles fs1 fs2 fs3 where
      "generateNewFiles l (templatesDir ctx) (extensionDirOf ctx) (makeTemplateData (config ctx))
         (dryRun (options ctx)) fs1 = (Inr newFiles, fs2)"
      "modifyExistingFiles l (repoPath ctx) (config ctx) (repoConfig ctx) (dryRun (options ctx)) fs2
         = (Inr modifiedFiles, fs3)"
      "fst (generateExtension l ctx fs) =
         \<lparr> success = True, operations = newFiles @ modifiedFiles,
           resultBranchName = branchName ctx, errors = [] \<rparr>"
proof (cases "existsSync fs (extensionDirOf ctx) \<and> \<not> force (options ctx)")
  case True
  then show ?thesis using pre by simp
next
  case False
  show ?thesis
  proof (cases "makeExtensionDirs (dryRun (options ctx)) (extensionDirOf ctx) fs")
    case (Pair r1 fs1)
    show ?thesis
    proof (cases r1)
      case (Inl e)
      with Pair False show ?thesis
        by (intro dirs [of e fs1]) (auto simp add: generateExtension_def)
    next
      case (Inr u)
      show ?thesis
      proof (cases "generateNewFiles l (templatesDir ctx) (extensionDirOf ctx)
                      (makeTemplateData (config ctx)) (dryRun (options ctx)) fs1")
        case g: (Pair r2 fs2)
        show ?thesis
        proof (cases r2)
          case (Inl e)
          with Pair Inr g False show ?thesis
            by (intro new [of fs1 e fs2]) (auto simp add: generateExtension_def)
        next
          case n: (Inr newFiles)
          show ?thesis
          proof (cases "modifyExistingFiles l (repoPath ctx) (config ctx) (repoConfig ctx)
                          (dryRun (options ctx)) fs2")
            case p: (Pair r3 fs3)
            show ?thesis
            proof (cases r3)
              case (Inl e)
              with Pair Inr g n p False show ?thesis
                by (intro patch [of fs1 newFiles fs2 e fs3]) (auto simp add: generateExtension_def)
            next
              case m: (Inr modifiedFiles)
              with Pair Inr g n p False show ?thesis
                by (intro ok [of fs1 newFiles fs2 modifiedFiles fs3])
                   (auto simp add: generateExtension_def)
            qed
          qed
        qed
      qed
    qed
  qed
qed

section \<open>Text search, writes and objects\<close>

lemma find_first_None_iff: "find_first n pre h = None \<longleftrightarrow> \<not> str_includes h n"
  by (induction h arbitrary: pre) auto

lemma replace_first_no_match:
  "\<not> str_includes text (concat groups) \<Longrightarrow> replace_first groups repl text = text"
  using find_first_None_iff [of "concat groups" "[]" "text"]
  by (simp add: replace_first_def)

lemma lookup_file_eq: "lookup fs p = Some (File c) \<Longrightarrow> fs p = Some (File c)"
  by (auto simp: lookup_def split: if_splits)

lemma writeFile_parent:
  assumes "lookup fs p = Some (File c)" and "lookup fs (dirname p) = Some Dir"
  shows "writeFile fs p c' = Inr (fs(p \<mapsto> File c'))"
  using assms by (simp add: writeFile_def)

lemma obj_set_twice: "obj_set k v (obj_set k w kvs) = obj_set k v kvs"
  by (induction kvs) auto

lemma map_of_obj_set: "map_of (obj_set k v kvs) = (map_of kvs)(k \<mapsto> v)"
  by (induction kvs) (auto simp: fun_eq_iff)

section \<open>Directories and writes on a fresh tree\<close>

lemma lookup_upd_other: "p \<noteq> q \<Longrightarrow> lookup (f(q \<mapsto> x)) p = lookup f p"
  by (simp add: lookup_def)

lemma lookup_eqI: "f' p = f p \<Longrightarrow> lookup f' p = lookup f p"
  by (simp add: lookup_def)

lemma mkdir_chain_ok:
  assumes "\<forall>d \<in> set ds. \<not> is_file (lookup f d)"
  shows "\<exists>f'. mkdir_chain f ds t = (Inr (), f')
              \<and> (\<forall>p. lookup f p \<noteq> None \<longrightarrow> f' p = f p)
              \<and> (\<forall>p. p \<notin> set ds \<longrightarrow> f' p = f p)
              \<and> (\<forall>d \<in> set ds. lookup f' d = Some Dir)
              \<and> (\<forall>p. lookup f' p = lookup f p \<or> lookup f' p = Some Dir)"
  using assms
proof (induction ds arbitrary: f)
  case Nil
  then show ?case by simp
next
  case (Cons d ds)
  from Cons.prems have nf: "\<not> is_file (lookup f d)" by simp
  show ?case
  proof (cases "lookup f d")
    case None
    let ?f1 = "f(d \<mapsto> Dir)"
    have l1: "lookup ?f1 p = (if p = d then Some Dir else lookup f p)" for p
      using None by (auto simp: lookup_def)
    have "\<forall>d' \<in> set ds. \<not> is_file (lookup ?f1 d')"
      using Cons.prems by (simp add: l1 is_file_def)
    from Cons.IH [OF this] obtain f' where
      r: "mkdir_chain ?f1 ds t = (Inr (), f')"
      and a: "\<forall>p. lookup ?f1 p \<noteq> None \<longrightarrow> f' p = ?f1 p"
      and b: "\<forall>p. p \<notin> set ds \<longrightarrow> f' p = ?f1 p"
      and c: "\<forall>d \<in> set ds. lookup f' d = Some Dir"
      and e: "\<forall>p. lookup f' p = lookup ?f1 p \<or> lookup f' p = Some Dir"
      by blast
    have m: "mkdir_chain f (d # ds) t = (Inr (), f')" using None r by simp
    have a': "\<forall>p. lookup f p \<noteq> None \<longrightarrow> f' p = f p"
    proof (intro allI impI)
      fix p assume p: "lookup f p \<noteq> None"
      with None have "p \<noteq> d" by auto
      moreover from p have "lookup ?f1 p \<noteq> None" by (simp add: l1)
      ultimately show "f' p = f p" using a by simp
    qed
    have b': "\<forall>p. p \<notin> set (d # ds) \<longrightarrow> f' p = f p" using b by simp
    have "lookup ?f1 d \<noteq> None" by (simp add: l1)
    with a have "f' d = ?f1 d" by blast
    then have "lookup f' d = Some Dir" using lookup_eqI [of f' d ?f1] by (simp add: l1)
    with c have c': "\<forall>x \<in> set (d # ds). lookup f' x = Some Dir" by simp
    have e': "\<forall>p. lookup f' p = lookup f p \<or> lookup f' p = Some Dir"
      using e by (auto simp: l1 split: if_splits)
    from m a' b' c' e' show ?thesis by blast
  next
    case (Some n)
    with nf have n: "lookup f d = Some Dir" by (cases n) (simp_all add: is_file_def)
    from Cons.prems have "\<forall>d' \<in> set ds. \<not> is_file (lookup f d')" by simp
    from Cons.IH [OF this] obtain f' where
      r: "mkdir_chain f ds t = (Inr (), f')"
      and a: "\<forall>p. lookup f p \<noteq> None \<longrightarrow> f' p = f p"
      and b: "\<forall>p. p \<notin> set ds \<longrightarrow> f' p = f p"
      and c: "\<forall>d \<in> set ds. lookup f' d = Some Dir"
      and e: "\<forall>p. lookup f' p = lookup f p \<or> lookup f' p = Some Dir"
      by blast
    have m: "mkdir_chain f (d # ds) t = (Inr (), f')" using n r by simp
    from a n have "f' d = f d" by simp
    then have "lookup f' d = Some Dir" using lookup_eqI [of f' d f] n by simp
    with c have c': "\<forall>x \<in> set (d # ds). lookup f' x = Some Dir" by simp
    from b have b': "\<forall>p. p \<notin> set (d # ds) \<longrightarrow> f' p = f p" by simp
    from m a b' c' e show ?thesis by blast
  qed
qed

lemma dirname_nonempty: "dirname p \<noteq> []"
  by (auto simp: dirname_def split: list.splits)

lemma ancestors_self: "p \<noteq> [] \<Longrightarrow> p = ''/'' \<or> p = ''.'' \<or> p \<in> set (ancestors p)"
  by (cases p) (auto simp: ancestors_def)

lemma mkdir_recursive_ok:
  assumes "\<forall>d \<in> set (ancestors p). \<not> is_file (lookup f d)" and "p \<noteq> []"
  shows "\<exists>f'. mkdir_recursive f p = (Inr (), f')
              \<and> (\<forall>q. lookup f q \<noteq> None \<longrightarrow> f' q = f q)
              \<and> (\<forall>q. q \<notin> set (ancestors p) \<longrightarrow> f' q = f q)
              \<and> lookup f' p = Some Dir
              \<and> (\<forall>q. lookup f' q = lookup f q \<or> lookup f' q = Some Dir)"
proof -
  from mkdir_chain_ok [OF assms(1), of p] obtain f' where
    r: "mkdir_chain f (ancestors p) p = (Inr (), f')"
    and a: "\<forall>q. lookup f q \<noteq> None \<longrightarrow> f' q = f q"
    and b: "\<forall>q. q \<notin> set (ancestors p) \<longrightarrow> f' q = f q"
    and c: "\<forall>d \<in> set (ancestors p). lookup f' d = Some Dir"
    and e: "\<forall>q. lookup f' q = lookup f q \<or> lookup f' q = Some Dir"
    by blast
  from ancestors_self [OF assms(2)] c have "lookup f' p = Some Dir"
    by (auto simp: lookup_def)
  with r a b e show ?thesis by (auto simp: mkdir_recursive_def)
qed

lemma keeps_init:
  "extensionSpaceFree fs ed data \<Longrightarrow> keeps fs (newDirectories ed data) (outputPaths ed data) fs"
  by (auto simp: keeps_def extensionSpaceFree_def list_all_iff)

lemma keeps_mkdir:
  assumes k: "keeps fs0 ds outs f"
    and sub: "set (ancestors p) \<subseteq> set ds"
    and dis: "\<forall>q \<in> set outs. q \<notin> set ds"
    and ne: "p \<noteq> []"
  shows "\<exists>f'. mkdir_recursive f p = (Inr (), f') \<and> keeps fs0 ds outs f' \<and> lookup f' p = Some Dir"
proof -
  from k sub have "\<forall>d \<in> set (ancestors p). \<not> is_file (lookup f d)"
    by (auto simp: keeps_def)
  from mkdir_recursive_ok [OF this ne] obtain f' where
    r: "mkdir_recursive f p = (Inr (), f')"
    and a: "\<forall>q. lookup f q \<noteq> None \<longrightarrow> f' q = f q"
    and b: "\<forall>q. q \<notin> set (ancestors p) \<longrightarrow> f' q = f q"
    and c: "lookup f' p = Some Dir"
    and e: "\<forall>q. lookup f' q = lookup f q \<or> lookup f' q = Some Dir"
    by blast
  have 1: "\<forall>q. lookup fs0 q \<noteq> None \<longrightarrow> f' q = fs0 q"
  proof (intro allI impI)
    fix q assume q: "lookup fs0 q \<noteq> None"
    with k have fq: "f q = fs0 q" by (simp add: keeps_def)
    then have "lookup f q = lookup fs0 q" by (rule lookup_eqI)
    with q a fq show "f' q = fs0 q" by simp
  qed
  have 2: "\<forall>d \<in> set ds. \<not> is_file (lookup f' d)"
    using k e by (auto simp: keeps_def is_file_def split: option.splits node.splits) (metis option.inject node.distinct(1))+
  have 3: "\<forall>q \<in> set outs. lookup f' q \<noteq> Some Dir"
  proof
    fix q assume q: "q \<in> set outs"
    with dis sub have "q \<notin> set (ancestors p)" by auto
    with b have "f' q = f q" by simp
    then have "lookup f' q = lookup f q" by (rule lookup_eqI)
    with k q show "lookup f' q \<noteq> Some Dir" by (simp add: keeps_def)
  qed
  from r 1 2 3 c show ?thesis by (auto simp: keeps_def)
qed

lemma keeps_write:
  assumes k: "keeps fs0 ds outs f"
    and o: "p \<in> set outs" "p \<notin> set ds" "lookup fs0 p = None"
    and par: "lookup f (dirname p) = Some Dir"
  shows "writeFile f p text = Inr (f(p \<mapsto> File text)) \<and> keeps fs0 ds outs (f(p \<mapsto> File text))"
proof -
  from k o(1) have nd: "lookup f p \<noteq> Some Dir" by (simp add: keeps_def)
  then have w: "writeFile f p text = Inr (f(p \<mapsto> File text))"
    using par by (auto simp: writeFile_def split: option.splits node.splits)
  have l: "lookup (f(p \<mapsto> File text)) q = (if q = p then Some (File text) else lookup f q)" for q
    using nd by (auto simp: lookup_def)
  have "keeps fs0 ds outs (f(p \<mapsto> File text))"
    using k o by (auto simp: keeps_def l is_file_def)
  with w show ?thesis by simp
qed

lemma join_nonempty: "join ps \<noteq> []"
  by (auto simp: join_def normalize_def Let_def)

lemma keeps_lookup: "keeps fs0 ds outs f \<Longrightarrow> lookup fs0 p = Some n \<Longrightarrow> lookup f p = Some n"
  by (metis keeps_def lookup_eqI option.distinct(1))

lemma templateReady_D:
  assumes "templateReady l tdir data fs0 m"
  obtains body where "lookup fs0 (join [tdir, template m]) = Some (File body)"
    and "render l body data = Inr (renderedOf l tdir data fs0 m)"
  using assms
  by (auto simp: templateReady_def renderedOf_def split: option.splits node.splits sum.splits)

lemma emitFile_fresh:
  assumes k: "keeps fs0 ds outs f"
    and m: "condition m \<noteq> Some False"
    and ready: "templateReady l tdir data fs0 m"
    and o: "join [ed, output m] \<in> set outs" "join [ed, output m] \<notin> set ds"
           "lookup fs0 (join [ed, output m]) = None"
    and sub: "set (ancestors (dirname (join [ed, output m]))) \<subseteq> set ds"
    and dis: "\<forall>q \<in> set outs. q \<notin> set ds"
  shows "\<exists>f'. emitFile l tdir ed data dry m f =
                 (Inr [createOp data m dry (renderedOf l tdir data fs0 m)], f')
              \<and> keeps fs0 ds outs f' \<and> (dry \<longrightarrow> f' = f)"
proof -
  let ?o = "join [ed, output m]"
  let ?r = "renderedOf l tdir data fs0 m"
  from ready obtain body where t0: "lookup fs0 (join [tdir, template m]) = Some (File body)"
    and r: "render l body data = Inr ?r"
    by (rule templateReady_D)
  from keeps_lookup [OF k t0] have t: "lookup f (join [tdir, template m]) = Some (File body)" .
  then have e: "existsSync f (join [tdir, template m])" "readFile f (join [tdir, template m]) = Inr body"
    by (simp_all add: existsSync_def readFile_def)
  show ?thesis
  proof (cases dry)
    case True
    with m e r k show ?thesis by (simp add: emitFile_def Let_def)
  next
    case False
    from keeps_mkdir [OF k sub dis dirname_nonempty] obtain f1 where
      d: "mkdir_recursive f (dirname ?o) = (Inr (), f1)"
      and k1: "keeps fs0 ds outs f1"
      and p1: "lookup f1 (dirname ?o) = Some Dir"
      by blast
    from keeps_write [OF k1 o p1, of ?r]
    have w: "writeFile f1 ?o ?r = Inr (f1(?o \<mapsto> File ?r))"
      and k2: "keeps fs0 ds outs (f1(?o \<mapsto> File ?r))"
      by simp_all
    from False m e r d w k2 show ?thesis by (simp add: emitFile_def Let_def)
  qed
qed

lemma emit_loop_fresh:
  assumes "keeps fs0 ds outs f"
    and "\<forall>m \<in> set ms. condition m \<noteq> Some False \<longrightarrow>
           templateReady l tdir data fs0 m
           \<and> join [ed, output m] \<in> set outs \<and> join [ed, output m] \<notin> set ds
           \<and> lookup fs0 (join [ed, output m]) = None
           \<and> set (ancestors (dirname (join [ed, output m]))) \<subseteq> set ds"
    and "\<forall>q \<in> set outs. q \<notin> set ds"
  shows "\<exists>f'. run_steps (map (emitFile l tdir ed data dry) ms) ops f =
                 (Inr (ops @ map (\<lambda>m. createOp data m dry (renderedOf l tdir data fs0 m))
                               (filter (\<lambda>m. condition m \<noteq> Some False) ms)), f')
              \<and> keeps fs0 ds outs f' \<and> (dry \<longrightarrow> f' = f)"
  using assms
proof (induction ms arbitrary: ops f)
  case Nil
  then show ?case by simp
next
  case (Cons m ms)
  show ?case
  proof (cases "condition m = Some False")
    case True
    then have s: "emitFile l tdir ed data dry m f = (Inr [], f)" by (simp add: emitFile_def)
    from Cons.IH [of f ops] Cons.prems True s show ?thesis by simp
  next
    case False
    with Cons.prems(2) have h: "templateReady l tdir data fs0 m"
      "join [ed, output m] \<in> set outs" "join [ed, output m] \<notin> set ds"
      "lookup fs0 (join [ed, output m]) = None"
      "set (ancestors (dirname (join [ed, output m]))) \<subseteq> set ds"
      by simp_all
    from emitFile_fresh [OF Cons.prems(1) False h Cons.prems(3), of dry] obtain f1 where
      s: "emitFile l tdir ed data dry m f =
            (Inr [createOp data m dry (renderedOf l tdir data fs0 m)], f1)"
      and k1: "keeps fs0 ds outs f1" and d1: "dry \<longrightarrow> f1 = f"
      by blast
    from Cons.prems(2) have rest: "\<forall>m \<in> set ms. condition m \<noteq> Some False \<longrightarrow>
           templateReady l tdir data fs0 m
           \<and> join [ed, output m] \<in> set outs \<and> join [ed, output m] \<notin> set ds
           \<and> lookup fs0 (join [ed, output m]) = None
           \<and> set (ancestors (dirname (join [ed, output m]))) \<subseteq> set ds"
      by simp
    from Cons.IH [OF k1 rest Cons.prems(3),
                  of "ops @ [createOp data m dry (renderedOf l tdir data fs0 m)]"]
    obtain f' where
      r: "run_steps (map (emitFile l tdir ed data dry) ms)
            (ops @ [createOp data m dry (renderedOf l tdir data fs0 m)]) f1 =
          (Inr ((ops @ [createOp data m dry (renderedOf l tdir data fs0 m)])
                @ map (\<lambda>m. createOp data m dry (renderedOf l tdir data fs0 m))
                      (filter (\<lambda>m. condition m \<noteq> Some False) ms)), f')"
      and k': "keeps fs0 ds outs f'" and d': "dry \<longrightarrow> f' = f1"
      by blast
    from s r k' d1 d' False show ?thesis by simp
  qed
qed

lemma generateNewFiles_fresh:
  assumes k: "keeps fs0 (newDirectories ed data) (outputPaths ed data) f"
    and free: "extensionSpaceFree fs0 ed data"
    and ready: "templatesReady l tdir data fs0"
  shows "\<exists>f'. generateNewFiles l tdir ed data dry f =
                 (Inr (map (\<lambda>m. createOp data m dry (renderedOf l tdir data fs0 m))
                          (enabledMappings data)), f')
              \<and> keeps fs0 (newDirectories ed data) (outputPaths ed data) f' \<and> (dry \<longrightarrow> f' = f)"
proof -
  have dis: "\<forall>q \<in> set (outputPaths ed data). q \<notin> set (newDirectories ed data)"
    using free by (simp add: extensionSpaceFree_def list_all_iff)
  have each: "\<forall>m \<in> set (fileMappings data). condition m \<noteq> Some False \<longrightarrow>
           templateReady l tdir data fs0 m
           \<and> join [ed, output m] \<in> set (outputPaths ed data)
           \<and> join [ed, output m] \<notin> set (newDirectories ed data)
           \<and> lookup fs0 (join [ed, output m]) = None
           \<and> set (ancestors (dirname (join [ed, output m]))) \<subseteq> set (newDirectories ed data)"
  proof (intro ballI impI)
    fix m assume m: "m \<in> set (fileMappings data)" and c: "condition m \<noteq> Some False"
    then have en: "m \<in> set (enabledMappings data)" by (simp add: enabledMappings_def)
    then have o: "join [ed, output m] \<in> set (outputPaths ed data)"
      by (auto simp: outputPaths_def)
    from en ready have 1: "templateReady l tdir data fs0 m"
      by (simp add: templatesReady_def list_all_iff)
    from o free have 2: "join [ed, output m] \<notin> set (newDirectories ed data)"
      "lookup fs0 (join [ed, output m]) = None"
      by (auto simp: extensionSpaceFree_def list_all_iff)
    from o have 3: "set (ancestors (dirname (join [ed, output m]))) \<subseteq> set (newDirectories ed data)"
      by (auto simp: newDirectories_def)
    from 1 o 2 3 show "templateReady l tdir data fs0 m
           \<and> join [ed, output m] \<in> set (outputPaths ed data)
           \<and> join [ed, output m] \<notin> set (newDirectories ed data)
           \<and> lookup fs0 (join [ed, output m]) = None
           \<and> set (ancestors (dirname (join [ed, output m]))) \<subseteq> set (newDirectories ed data)"
      by simp
  qed
  from emit_loop_fresh [OF k each dis, of dry "[]"] show ?thesis
    by (simp add: generateNewFiles_def enabledMappings_def)
qed

lemma makeExtensionDirs_fresh:
  assumes k: "keeps fs0 (newDirectories ed data) (outputPaths ed data) f"
    and free: "extensionSpaceFree fs0 ed data"
  shows "\<exists>f'. makeExtensionDirs dry ed f = (Inr (), f')
              \<and> keeps fs0 (newDirectories ed data) (outputPaths ed data) f' \<and> (dry \<longrightarrow> f' = f)"
proof (cases dry)
  case True
  with k show ?thesis by (simp add: makeExtensionDirs_def)
next
  case False
  have dis: "\<forall>q \<in> set (outputPaths ed data). q \<notin> set (newDirectories ed data)"
    using free by (simp add: extensionSpaceFree_def list_all_iff)
  have s1: "set (ancestors (join [ed, ''src'', ''utilities''])) \<subseteq> set (newDirectories ed data)"
    and s2: "set (ancestors (join [ed, ''resources''])) \<subseteq> set (newDirectories ed data)"
    by (auto simp: newDirectories_def)
  from keeps_mkdir [OF k s1 dis join_nonempty] obtain f1 where
    m1: "mkdir_recursive f (join [ed, ''src'', ''utilities'']) = (Inr (), f1)"
    and k1: "keeps fs0 (newDirectories ed data) (outputPaths ed data) f1"
    by blast
  from keeps_mkdir [OF k1 s2 dis join_nonempty] obtain f2 where
    m2: "mkdir_recursive f1 (join [ed, ''resources'']) = (Inr (), f2)"
    and k2: "keeps fs0 (newDirectories ed data) (outputPaths ed data) f2"
    by blast
  from False m1 m2 k2 show ?thesis by (simp add: makeExtensionDirs_def)
qed

section \<open>Joined paths\<close>


lemma split_on_sep:
  "d \<notin> set s \<Longrightarrow> split_on d cur (s @ d # b) = (cur @ s) # split_on d [] b"
  by (induction s arbitrary: cur) auto

lemma split_on_plain: "d \<notin> set s \<Longrightarrow> split_on d cur s = [cur @ s]"
  by (induction s arbitrary: cur) auto

lemma split_on_app:
  "split_on d cur (a @ d # b) = split_on d cur a @ split_on d [] b"
  by (induction a arbitrary: cur) auto

lemma normalizeString_append:
  "normalizeString allow res (xs @ ys) = normalizeString allow (normalizeString allow res xs) ys"
  by (induction xs arbitrary: res) auto

lemma normalizeString_plain:
  "\<forall>s \<in> set ys. s \<noteq> [] \<and> s \<noteq> ''.'' \<and> s \<noteq> ''..'' \<Longrightarrow> normalizeString allow res ys = res @ ys"
  by (induction ys arbitrary: res) auto

lemma join_with_snoc:
  "join_with sep (xs @ [y]) = (if xs = [] then y else join_with sep xs @ sep @ y)"
  by (induction sep xs rule: join_with.induct) auto

lemma base_snoc:
  "CHR ''/'' \<notin> set y \<Longrightarrow> base (z @ ''/'' @ y) = y"
  by (simp add: base_def takeWhile_append)

lemma base_plain:
  assumes "CHR ''/'' \<notin> set y"
  shows "base y = y"
proof -
  have "\<forall>x \<in> set (rev y). x \<noteq> CHR ''/''" using assms by auto
  then have "takeWhile (\<lambda>c. c \<noteq> CHR ''/'') (rev y) = rev y"
    by (rule takeWhile_eq_all_conv [THEN iffD2])
  then show ?thesis unfolding base_def by (simp only: rev_rev_ident)
qed

text \<open>The last segment of a joined path is that of the relative path.\<close>

lemma base_join:
  assumes segs: "\<forall>s \<in> set (ss @ [y]). s \<noteq> [] \<and> s \<noteq> ''.'' \<and> s \<noteq> ''..'' \<and> CHR ''/'' \<notin> set s"
  shows "base (join [root, join_with ''/'' (ss @ [y])]) = y"
proof -
  let ?t = "join_with ''/'' (ss @ [y])"
  have y: "y \<noteq> []" "CHR ''/'' \<notin> set y" using segs by auto
  have split_t: "split_on (CHR ''/'') [] (join_with ''/'' (zs @ [y])) = zs @ [y]"
    if "\<forall>s \<in> set zs. CHR ''/'' \<notin> set s" for zs
    using that y(2)
  proof (induction zs)
    case Nil
    then show ?case by (simp add: split_on_plain)
  next
    case (Cons z zs)
    then have "join_with ''/'' ((z # zs) @ [y]) = z @ CHR ''/'' # join_with ''/'' (zs @ [y])"
      by (cases zs) auto
    with Cons show ?case by (simp add: split_on_sep)
  qed
  have st: "split_on (CHR ''/'') [] ?t = ss @ [y]"
    using segs by (intro split_t) auto
  have tne: "?t \<noteq> []" using y(1) by (simp add: join_with_snoc)
  have lt: "last ?t = last y" using y(1) by (simp add: join_with_snoc)
  have ly: "last y \<noteq> CHR ''/''" using y by (metis last_in_set)
  have plain: "\<forall>s \<in> set (ss @ [y]). s \<noteq> [] \<and> s \<noteq> ''.'' \<and> s \<noteq> ''..''" using segs by blast
  have fin: "base (pre @ join_with ''/'' (res @ ss @ [y])) = y" if "pre = [] \<or> pre = ''/''" for pre res
  proof (cases "res @ ss = []")
    case True
    then have "join_with ''/'' (res @ ss @ [y]) = y" by simp
    moreover have "base (''/'' @ y) = y" using base_snoc [OF y(2), of "[]"] by simp
    ultimately show ?thesis using that base_plain [OF y(2)] by auto
  next
    case False
    then have "join_with ''/'' (res @ ss @ [y]) = join_with ''/'' (res @ ss) @ ''/'' @ y"
      using join_with_snoc [of "''/''" "res @ ss" y] by simp
    then have "pre @ join_with ''/'' (res @ ss @ [y]) = (pre @ join_with ''/'' (res @ ss)) @ ''/'' @ y"
      by simp
    then show ?thesis using base_snoc [OF y(2)] by metis
  qed
  show ?thesis
  proof (cases "root = []")
    case True
    then have j: "join [root, ?t] = normalize ?t" using tne by (simp add: join_def)
    have hd: "hd ?t \<noteq> CHR ''/''"
    proof (cases ss)
      case Nil
      then show ?thesis using y by (cases y) auto
    next
      case (Cons z zs)
      then have "z \<noteq> []" "CHR ''/'' \<notin> set z" using segs by auto
      moreover have "?t = z @ CHR ''/'' # join_with ''/'' (zs @ [y])"
        using Cons by (cases zs) auto
      ultimately show ?thesis by (cases z) auto
    qed
    have ns: "normalizeString True [] (ss @ [y]) = ss @ [y]"
      using normalizeString_plain [OF plain, of True "[]"] by simp
    have "normalize ?t = join_with ''/'' (ss @ [y])"
      using tne hd lt ly st ns by (simp add: normalize_def Let_def)
    with j fin [of "[]" "[]"] show ?thesis by simp
  next
    case False
    let ?p = "root @ CHR ''/'' # ?t"
    have j: "join [root, ?t] = normalize ?p" using tne False by (simp add: join_def)
    have sp: "split_on (CHR ''/'') [] ?p = split_on (CHR ''/'') [] root @ ss @ [y]"
      by (simp add: split_on_app st)
    let ?abs = "hd ?p = CHR ''/''"
    let ?res = "normalizeString (\<not> ?abs) [] (split_on (CHR ''/'') [] root)"
    have "normalizeString (\<not> ?abs) [] (split_on (CHR ''/'') [] root @ (ss @ [y]))
            = normalizeString (\<not> ?abs) ?res (ss @ [y])"
      by (rule normalizeString_append)
    also have "\<dots> = ?res @ (ss @ [y])"
      by (rule normalizeString_plain [OF plain])
    finally have ns: "normalizeString (\<not> ?abs) [] (split_on (CHR ''/'') [] ?p) = ?res @ ss @ [y]"
      using sp by simp
    have lp: "last ?p = last y" using lt tne by simp
    have ne: "join_with ''/'' (?res @ ss @ [y]) \<noteq> []"
      using y(1) join_with_snoc [of "''/''" "?res @ ss" y] by auto
    have "normalize ?p = (if ?abs then ''/'' else []) @ join_with ''/'' (?res @ ss @ [y])"
      using lp ly ns ne by (simp add: normalize_def Let_def)
    with j fin [of "if ?abs then ''/'' else []" ?res] show ?thesis by simp
  qed
qed

lemma targetPaths_distinct: "distinct (targetPaths root)"
proof -
  have b: "base (join [root, ''package.json'']) = ''package.json''"
    "base (join [root, ''.github/workflows/ci-repo.yml'']) = ''ci-repo.yml''"
    "base (join [root, ''scripts/collect-assets.js'']) = ''collect-assets.js''"
    "base (join [root, ''scripts/copy-dist.js'']) = ''copy-dist.js''"
    "base (join [root, ''scripts/package-extensions.js'']) = ''package-extensions.js''"
    "base (join [root, ''.vscode/launch.json'']) = ''launch.json''"
    "base (join [root, ''konveyor-extensions.code-workspace'']) = ''konveyor-extensions.code-workspace''"
    using base_join [of "[]" "''package.json''" root]
      base_join [of "[''.github'', ''workflows'']" "''ci-repo.yml''" root]
      base_join [of "[''scripts'']" "''collect-assets.js''" root]
      base_join [of "[''scripts'']" "''copy-dist.js''" root]
      base_join [of "[''scripts'']" "''package-extensions.js''" root]
      base_join [of "[''.vscode'']" "''launch.json''" root]
      base_join [of "[]" "''konveyor-extensions.code-workspace''" root]
    by simp_all
  have "distinct (map base (targetPaths root))"
    by (simp add: targetPaths_def b)
  then show ?thesis by (simp add: distinct_map)
qed

section \<open>The patches on a fresh tree\<close>

lemma stage_ok:
  assumes "lookup g p = Some (File c)" and "lookup g (dirname p) = Some Dir"
  shows "stage dry p c' operation g = (Inr [operation], if dry then g else g(p \<mapsto> File c'))"
  using writeFile_parent [OF assms, of c'] by (simp add: stage_def)

lemma patchText_spec:
  assumes "\<not> str_includes c key"
    and "lookup g p = Some (File c)" and "lookup g (dirname p) = Some Dir"
  shows "patchText p key anchor repl operation dry g =
           (Inr [operation], if dry then g else g(p \<mapsto> File (replace_first anchor repl c)))"
  using assms stage_ok [OF assms(2,3)]
  by (simp add: patchText_def existsSync_def readFile_def)

lemma addWorkspace_fresh:
  assumes "listOrAbsent (map_of kvs ''workspaces'') = Some ws" and "JStr wp \<notin> set ws"
  shows "addWorkspace (JObj kvs) wp = Inr (JObj (obj_set ''workspaces'' (JArr (js_sort (ws @ [JStr wp]))) kvs))"
  using assms
  by (auto simp: listOrAbsent_def addWorkspace_def get_prop_def js_includes_def or_default_def
        set_prop_def obj_set_twice split: option.splits json.splits)

lemma addPackageScript_fresh:
  assumes "objectOrAbsent (map_of kvs ''scripts'') = Some scripts"
  shows "addPackageScript (JObj kvs) name v =
           Inr (JObj (obj_set ''scripts'' (JObj (obj_set name (JStr v) scripts)) kvs))"
  using assms
  by (auto simp: objectOrAbsent_def addPackageScript_def get_prop_def or_default_def set_prop_def
        obj_set_twice split: option.splits json.splits)

lemma patchRootPackage_spec:
  assumes "JSON_parse l c = Inr (JObj kvs)"
    and "listOrAbsent (map_of kvs ''workspaces'') = Some ws"
    and "JStr (''vscode/'' @ language cfg) \<notin> set ws"
    and "objectOrAbsent (map_of kvs ''scripts'') = Some scripts"
    and "lookup g (join [root, ''package.json'']) = Some (File c)"
    and "lookup g (dirname (join [root, ''package.json''])) = Some Dir"
  shows "patchRootPackage l root cfg dry g =
           (Inr [rootPackageOp cfg],
            if dry then g
            else g(join [root, ''package.json''] \<mapsto>
                     File (JSON_stringify l (patchedManifest cfg kvs ws scripts) @ nl)))"
proof -
  let ?k1 = "obj_set ''workspaces'' (JArr (js_sort (ws @ [JStr (''vscode/'' @ language cfg)]))) kvs"
  have s: "objectOrAbsent (map_of ?k1 ''scripts'') = Some scripts"
    using assms(4) by (simp add: map_of_obj_set)
  show ?thesis
    using assms(1,5) addWorkspace_fresh [OF assms(2,3)] addPackageScript_fresh [OF s]
      stage_ok [OF assms(5,6)]
    by (simp add: patchRootPackage_def Let_def existsSync_def readFile_def patchedManifest_def)
qed

lemma configurationHasPath_ok:
  assumes "configurationHasPath t c = Inr b"
  shows "\<exists>c'. addDevelopmentPath e c = Inr c'"
proof (cases c)
  case (JObj kvs)
  with assms show ?thesis
    by (auto simp: configurationHasPath_def addDevelopmentPath_def get_prop_def set_prop_def
             split: option.splits json.splits)
qed (use assms in \<open>auto simp: configurationHasPath_def addDevelopmentPath_def get_prop_def\<close>)

lemma some_m_False_all:
  "some_m f xs = Inr False \<Longrightarrow> \<forall>x \<in> set xs. f x = Inr False"
  by (induction xs) (auto split: sum.splits if_splits)

lemma map_m_ok:
  "\<forall>x \<in> set xs. \<exists>y. f x = Inr y \<Longrightarrow> \<exists>ys. map_m f xs = Inr ys"
proof (induction xs)
  case Nil
  then show ?case by simp
next
  case (Cons x xs)
  then obtain y ys where "f x = Inr y" "map_m f xs = Inr ys" by auto
  then show ?case by simp
qed

lemma patchLaunch_spec:
  assumes "JSON_parse l c = Inr (JObj kvs)"
    and "hasExtension (map_of kvs ''configurations'') (''vscode/'' @ language cfg) = Inr False"
  shows "\<exists>c'. \<forall>g. lookup g (join [root, ''.vscode/launch.json'']) = Some (File c)
              \<and> lookup g (dirname (join [root, ''.vscode/launch.json''])) = Some Dir \<longrightarrow>
            patchLaunch l root cfg dry g =
              (Inr (launchOps cfg (map_of kvs ''configurations'')),
               if dry then g else g(join [root, ''.vscode/launch.json''] \<mapsto> File c'))"
proof (cases "defined_truthy (map_of kvs ''configurations'')")
  case False
  have "patchLaunch l root cfg dry g =
              (Inr (launchOps cfg (map_of kvs ''configurations'')),
               if dry then g else g(join [root, ''.vscode/launch.json''] \<mapsto> File c))"
    if "lookup g (join [root, ''.vscode/launch.json'']) = Some (File c)"
      and "lookup g (dirname (join [root, ''.vscode/launch.json''])) = Some Dir" for g
  proof -
    from that(1) have "g (join [root, ''.vscode/launch.json'']) = Some (File c)"
      by (rule lookup_file_eq)
    then have "g(join [root, ''.vscode/launch.json''] \<mapsto> File c) = g"
      by (rule fun_upd_idem)
    then show ?thesis
      using that(1) assms False
      by (simp add: patchLaunch_def Let_def existsSync_def readFile_def get_prop_def launchOps_def)
  qed
  then show ?thesis by blast
next
  case True
  with assms(2) obtain cs where cs: "map_of kvs ''configurations'' = Some (JArr cs)"
    by (auto simp: hasExtension_def defined_truthy_def split: option.splits json.splits)
  from assms(2) cs have "some_m (configurationHasPath (''vscode/'' @ language cfg)) cs = Inr False"
    by (simp add: hasExtension_def)
  then have "\<forall>x \<in> set cs. configurationHasPath (''vscode/'' @ language cfg) x = Inr False"
    by (rule some_m_False_all)
  then have "\<forall>x \<in> set cs. \<exists>y. addDevelopmentPath (''${workspaceFolder}/vscode/'' @ language cfg) x = Inr y"
    using configurationHasPath_ok by blast
  then obtain cs' where m: "map_m (addDevelopmentPath (''${workspaceFolder}/vscode/'' @ language cfg)) cs = Inr cs'"
    using map_m_ok by blast
  let ?c' = "JSON_stringify l (JObj (obj_set ''configurations'' (JArr cs') kvs)) @ nl"
  have "patchLaunch l root cfg dry g =
              (Inr (launchOps cfg (map_of kvs ''configurations'')),
               if dry then g else g(join [root, ''.vscode/launch.json''] \<mapsto> File ?c'))"
    if "lookup g (join [root, ''.vscode/launch.json'']) = Some (File c)"
      and "lookup g (dirname (join [root, ''.vscode/launch.json''])) = Some Dir" for g
    using that assms cs m stage_ok [OF that]
    by (simp add: patchLaunch_def Let_def existsSync_def readFile_def get_prop_def
          defined_truthy_def set_prop_def launchOps_def)
  then show ?thesis by blast
qed

lemma patchWorkspace_spec:
  assumes "JSON_parse l (strip_trailing_commas c) = Inr (JObj kvs)"
    and "hasFolder (map_of kvs ''folders'') (''vscode/'' @ language cfg) = Inr False"
    and "lookup g (join [root, ''konveyor-extensions.code-workspace'']) = Some (File c)"
    and "lookup g (dirname (join [root, ''konveyor-extensions.code-workspace''])) = Some Dir"
  shows "patchWorkspace l root cfg dry g =
           (Inr [workspaceOp cfg],
            if dry then g
            else g(join [root, ''konveyor-extensions.code-workspace''] \<mapsto>
                 File (JSON_stringify l
                         (JObj (obj_set ''folders''
                                  (JArr (foldersOf (map_of kvs ''folders'')
                                           @ [JObj [(''path'', JStr (''vscode/'' @ language cfg))]]))
                                  kvs))
                       @ nl)))"
proof -
  have a: "addFolder (JObj kvs) (map_of kvs ''folders'') (''vscode/'' @ language cfg) =
             Inr (JObj (obj_set ''folders''
                          (JArr (foldersOf (map_of kvs ''folders'')
                                   @ [JObj [(''path'', JStr (''vscode/'' @ language cfg))]])) kvs))"
    using assms(2)
    by (auto simp: addFolder_def or_default_def set_prop_def obj_set_twice foldersOf_def
          hasFolder_def split: option.splits json.splits)
  show ?thesis
    using assms(1-3) a stage_ok [OF assms(3,4)]
    by (simp add: patchWorkspace_def Let_def parseJsonc_def existsSync_def readFile_def get_prop_def)
qed

lemma run_patches_fresh:
  assumes "\<forall>(s, t, staged) \<in> set specs.
             \<exists>c c'. lookup f t = Some (File c) \<and> lookup f (dirname t) = Some Dir
               \<and> (\<forall>g. lookup g t = Some (File c) \<and> lookup g (dirname t) = Some Dir \<longrightarrow>
                      s g = (Inr staged, if dry then g else g(t \<mapsto> File c')))"
    and "distinct (map (\<lambda>(s, t, staged). t) specs)"
  shows "\<exists>f'. run_steps (map (\<lambda>(s, t, staged). s) specs) ops f =
                 (Inr (ops @ concat (map (\<lambda>(s, t, staged). staged) specs)), f')
              \<and> (\<forall>p. p \<notin> set (map (\<lambda>(s, t, staged). t) specs) \<longrightarrow> f' p = f p)"
  using assms
proof (induction specs arbitrary: ops f)
  case Nil
  then show ?case by simp
next
  case (Cons spec specs)
  obtain s t staged where spec: "spec = (s, t, staged)" by (cases spec)
  from Cons.prems(1) spec obtain c c' where
    ft: "lookup f t = Some (File c)" and fd: "lookup f (dirname t) = Some Dir"
    and sp: "\<forall>g. lookup g t = Some (File c) \<and> lookup g (dirname t) = Some Dir \<longrightarrow>
                      s g = (Inr staged, if dry then g else g(t \<mapsto> File c'))"
    by auto
  let ?f1 = "if dry then f else f(t \<mapsto> File c')"
  from sp ft fd have step: "s f = (Inr staged, ?f1)" by blast
  have l1: "lookup ?f1 p = lookup f p" if "p \<noteq> t" for p
    using that by (simp add: lookup_def)
  have rest: "\<forall>(s2, t2, staged2) \<in> set specs.
             \<exists>c c'. lookup ?f1 t2 = Some (File c) \<and> lookup ?f1 (dirname t2) = Some Dir
               \<and> (\<forall>g. lookup g t2 = Some (File c) \<and> lookup g (dirname t2) = Some Dir \<longrightarrow>
                      s2 g = (Inr staged2, if dry then g else g(t2 \<mapsto> File c')))"
  proof (clarify)
    fix s2 t2 staged2
    assume mem: "(s2, t2, staged2) \<in> set specs"
    with Cons.prems(1) obtain c2 c2' where
      a: "lookup f t2 = Some (File c2)" and b: "lookup f (dirname t2) = Some Dir"
      and c: "\<forall>g. lookup g t2 = Some (File c2) \<and> lookup g (dirname t2) = Some Dir \<longrightarrow>
                      s2 g = (Inr staged2, if dry then g else g(t2 \<mapsto> File c2'))"
      by fastforce
    from mem Cons.prems(2) spec have "t2 \<noteq> t" by force
    moreover from b ft have "dirname t2 \<noteq> t" by auto
    ultimately have "lookup ?f1 t2 = Some (File c2)" "lookup ?f1 (dirname t2) = Some Dir"
      using a b by (simp_all add: l1)
    with c show "\<exists>c c'. lookup ?f1 t2 = Some (File c) \<and> lookup ?f1 (dirname t2) = Some Dir
               \<and> (\<forall>g. lookup g t2 = Some (File c) \<and> lookup g (dirname t2) = Some Dir \<longrightarrow>
                      s2 g = (Inr staged2, if dry then g else g(t2 \<mapsto> File c')))"
      by blast
  qed
  from Cons.prems(2) have d: "distinct (map (\<lambda>(s, t, staged). t) specs)" by simp
  from Cons.IH [OF rest d, of "ops @ staged"] obtain f' where
    r: "run_steps (map (\<lambda>(s, t, staged). s) specs) (ops @ staged) ?f1 =
          (Inr ((ops @ staged) @ concat (map (\<lambda>(s, t, staged). staged) specs)), f')"
    and fr: "\<forall>p. p \<notin> set (map (\<lambda>(s, t, staged). t) specs) \<longrightarrow> f' p = ?f1 p"
    by blast
  have "run_steps (map (\<lambda>(s, t, staged). s) (spec # specs)) ops f =
          (Inr (ops @ concat (map (\<lambda>(s, t, staged). staged) (spec # specs))), f')"
    using spec step r by simp
  moreover have "\<forall>p. p \<notin> set (map (\<lambda>(s, t, staged). t) (spec # specs)) \<longrightarrow> f' p = f p"
    using fr spec by auto
  ultimately show ?case by blast
qed

lemma patchText_spec_ex:
  assumes "\<not> str_includes c key"
  shows "\<exists>c'. \<forall>g. lookup g p = Some (File c) \<and> lookup g (dirname p) = Some Dir \<longrightarrow>
            patchText p key anchor repl operation dry g =
              (Inr [operation], if dry then g else g(p \<mapsto> File c'))"
  using patchText_spec [OF assms] by blast

lemma spec_after_first:
  assumes "lookup f t = Some (File c)" and "lookup f (dirname t) = Some Dir"
    and "t \<noteq> t1" and "lookup f t1 = Some (File m)"
    and "\<exists>c'. \<forall>g. lookup g t = Some (File c) \<and> lookup g (dirname t) = Some Dir \<longrightarrow>
            s g = (Inr staged, if dry then g else g(t \<mapsto> File c'))"
  shows "\<exists>c c'. lookup (if dry then f else f(t1 \<mapsto> File c1)) t = Some (File c)
           \<and> lookup (if dry then f else f(t1 \<mapsto> File c1)) (dirname t) = Some Dir
           \<and> (\<forall>g. lookup g t = Some (File c) \<and> lookup g (dirname t) = Some Dir \<longrightarrow>
                  s g = (Inr staged, if dry then g else g(t \<mapsto> File c')))"
proof -
  from assms(2,4) have "dirname t \<noteq> t1" by auto
  with assms(1-3) have "lookup (if dry then f else f(t1 \<mapsto> File c1)) t = Some (File c)"
    "lookup (if dry then f else f(t1 \<mapsto> File c1)) (dirname t) = Some Dir"
    by (simp_all add: lookup_upd_other)
  with assms(5) show ?thesis by blast
qed

lemma modifyExistingFiles_fresh:
  assumes m1: "lookup f (join [root, ''package.json'']) = Some (File manifest)"
    and m2: "JSON_parse l manifest = Inr (JObj kvs)"
    and m3: "listOrAbsent (map_of kvs ''workspaces'') = Some ws"
    and m4: "JStr (''vscode/'' @ language cfg) \<notin> set ws"
    and m5: "objectOrAbsent (map_of kvs ''scripts'') = Some scripts"
    and c1: "lookup f (join [root, ''.github/workflows/ci-repo.yml'']) = Some (File ci)"
    and c2: "\<not> str_includes ci (''package-'' @ language cfg)"
    and a1: "lookup f (join [root, ''scripts/collect-assets.js'']) = Some (File assets)"
    and a2: "\<not> str_includes assets (quoted (binaryName (provider cfg)))"
    and d1: "lookup f (join [root, ''scripts/copy-dist.js'']) = Some (File dist)"
    and d2: "\<not> str_includes dist (quoted (language cfg))"
    and p1: "lookup f (join [root, ''scripts/package-extensions.js'']) = Some (File valid)"
    and p2: "\<not> str_includes valid (quoted (language cfg))"
    and l1: "lookup f (join [root, ''.vscode/launch.json'']) = Some (File launch)"
    and l2: "JSON_parse l launch = Inr (JObj lkvs)"
    and l4: "hasExtension (map_of lkvs ''configurations'') (''vscode/'' @ language cfg) = Inr False"
    and w1: "lookup f (join [root, ''konveyor-extensions.code-workspace'']) = Some (File wtext)"
    and w2: "JSON_parse l (strip_trailing_commas wtext) = Inr (JObj wkvs)"
    and w4: "hasFolder (map_of wkvs ''folders'') (''vscode/'' @ language cfg) = Inr False"
    and par: "\<forall>t \<in> set (targetPaths root). lookup f (dirname t) = Some Dir"
  shows "\<exists>f'. modifyExistingFiles l root cfg rc dry f =
            (Inr ([rootPackageOp cfg, ciWorkflowOp cfg, collectAssetsOp cfg rc, copyDistOp cfg,
                   packageExtensionsOp cfg]
                  @ launchOps cfg (map_of lkvs ''configurations'') @ [workspaceOp cfg]), f')
          \<and> (dry \<longrightarrow> f' = f)
          \<and> (\<not> dry \<longrightarrow> f' (join [root, ''package.json'']) =
                Some (File (JSON_stringify l (patchedManifest cfg kvs ws scripts) @ nl)))"
proof -
  let ?t1 = "join [root, ''package.json'']"
  let ?t2 = "join [root, ''.github/workflows/ci-repo.yml'']"
  let ?t3 = "join [root, ''scripts/collect-assets.js'']"
  let ?t4 = "join [root, ''scripts/copy-dist.js'']"
  let ?t5 = "join [root, ''scripts/package-extensions.js'']"
  let ?t6 = "join [root, ''.vscode/launch.json'']"
  let ?t7 = "join [root, ''konveyor-extensions.code-workspace'']"
  let ?c1 = "JSON_stringify l (patchedManifest cfg kvs ws scripts) @ nl"
  let ?f1 = "if dry then f else f(?t1 \<mapsto> File ?c1)"
  let ?lo = "launchOps cfg (map_of lkvs ''configurations'')"
  note dis = targetPaths_distinct [of root]
  from par have pd: "lookup f (dirname ?t1) = Some Dir" "lookup f (dirname ?t2) = Some Dir"
    "lookup f (dirname ?t3) = Some Dir" "lookup f (dirname ?t4) = Some Dir"
    "lookup f (dirname ?t5) = Some Dir" "lookup f (dirname ?t6) = Some Dir"
    "lookup f (dirname ?t7) = Some Dir"
    by (simp_all add: targetPaths_def)
  from dis have ne: "?t2 \<noteq> ?t1" "?t3 \<noteq> ?t1" "?t4 \<noteq> ?t1" "?t5 \<noteq> ?t1" "?t6 \<noteq> ?t1" "?t7 \<noteq> ?t1"
    by (auto simp: targetPaths_def)
  have first: "patchRootPackage l root cfg dry f = (Inr [rootPackageOp cfg], ?f1)"
    using patchRootPackage_spec [OF m2 m3 m4 m5 m1 pd(1)] by simp
  let ?specs = "[ (patchCiWorkflow root cfg dry, ?t2, [ciWorkflowOp cfg]),
                  (patchCollectAssets root cfg rc dry, ?t3, [collectAssetsOp cfg rc]),
                  (patchCopyDist root cfg dry, ?t4, [copyDistOp cfg]),
                  (patchPackageExtensions root cfg dry, ?t5, [packageExtensionsOp cfg]),
                  (patchLaunch l root cfg dry, ?t6, ?lo),
                  (patchWorkspace l root cfg dry, ?t7, [workspaceOp cfg]) ]"
  have s2: "\<exists>c c'. lookup ?f1 ?t2 = Some (File c) \<and> lookup ?f1 (dirname ?t2) = Some Dir
               \<and> (\<forall>g. lookup g ?t2 = Some (File c) \<and> lookup g (dirname ?t2) = Some Dir \<longrightarrow>
                      patchCiWorkflow root cfg dry g
                        = (Inr [ciWorkflowOp cfg], if dry then g else g(?t2 \<mapsto> File c')))"
    unfolding patchCiWorkflow_def
    by (rule spec_after_first [OF c1 pd(2) ne(1) m1 patchText_spec_ex [OF c2]])
  have s3: "\<exists>c c'. lookup ?f1 ?t3 = Some (File c) \<and> lookup ?f1 (dirname ?t3) = Some Dir
               \<and> (\<forall>g. lookup g ?t3 = Some (File c) \<and> lookup g (dirname ?t3) = Some Dir \<longrightarrow>
                      patchCollectAssets root cfg rc dry g
                        = (Inr [collectAssetsOp cfg rc], if dry then g else g(?t3 \<mapsto> File c')))"
    unfolding patchCollectAssets_def
    by (rule spec_after_first [OF a1 pd(3) ne(2) m1 patchText_spec_ex [OF a2]])
  have s4: "\<exists>c c'. lookup ?f1 ?t4 = Some (File c) \<and> lookup ?f1 (dirname ?t4) = Some Dir
               \<and> (\<forall>g. lookup g ?t4 = Some (File c) \<and> lookup g (dirname ?t4) = Some Dir \<longrightarrow>
                      patchCopyDist root cfg dry g
                        = (Inr [copyDistOp cfg], if dry then g else g(?t4 \<mapsto> File c')))"
    unfolding patchCopyDist_def
    by (rule spec_after_first [OF d1 pd(4) ne(3) m1 patchText_spec_ex [OF d2]])
  have s5: "\<exists>c c'. lookup ?f1 ?t5 = Some (File c) \<and> lookup ?f1 (dirname ?t5) = Some Dir
               \<and> (\<forall>g. lookup g ?t5 = Some (File c) \<and> lookup g (dirname ?t5) = Some Dir \<longrightarrow>
                      patchPackageExtensions root cfg dry g
                        = (Inr [packageExtensionsOp cfg], if dry then g else g(?t5 \<mapsto> File c')))"
    unfolding patchPackageExtensions_def
    by (rule spec_after_first [OF p1 pd(5) ne(4) m1 patchText_spec_ex [OF p2]])
  have s6: "\<exists>c c'. lookup ?f1 ?t6 = Some (File c) \<and> lookup ?f1 (dirname ?t6) = Some Dir
               \<and> (\<forall>g. lookup g ?t6 = Some (File c) \<and> lookup g (dirname ?t6) = Some Dir \<longrightarrow>
                      patchLaunch l root cfg dry g
                        = (Inr ?lo, if dry then g else g(?t6 \<mapsto> File c')))"
    by (rule spec_after_first [OF l1 pd(6) ne(5) m1 patchLaunch_spec [OF l2 l4]])
  have s7: "\<exists>c c'. lookup ?f1 ?t7 = Some (File c) \<and> lookup ?f1 (dirname ?t7) = Some Dir
               \<and> (\<forall>g. lookup g ?t7 = Some (File c) \<and> lookup g (dirname ?t7) = Some Dir \<longrightarrow>
                      patchWorkspace l root cfg dry g
                        = (Inr [workspaceOp cfg], if dry then g else g(?t7 \<mapsto> File c')))"
  proof (rule spec_after_first [OF w1 pd(7) ne(6) m1])
    show "\<exists>c'. \<forall>g. lookup g ?t7 = Some (File wtext) \<and> lookup g (dirname ?t7) = Some Dir \<longrightarrow>
            patchWorkspace l root cfg dry g
              = (Inr [workspaceOp cfg], if dry then g else g(?t7 \<mapsto> File c'))"
      using patchWorkspace_spec [OF w2 w4] by blast
  qed
  have specs: "\<forall>(s, t, staged) \<in> set ?specs.
             \<exists>c c'. lookup ?f1 t = Some (File c) \<and> lookup ?f1 (dirname t) = Some Dir
               \<and> (\<forall>g. lookup g t = Some (File c) \<and> lookup g (dirname t) = Some Dir \<longrightarrow>
                      s g = (Inr staged, if dry then g else g(t \<mapsto> File c')))"
    using s2 s3 s4 s5 s6 s7 by simp
  have dis': "distinct (map (\<lambda>(s, t, staged). t) ?specs)"
    using dis by (simp add: targetPaths_def)
  from run_patches_fresh [OF specs dis', of "[rootPackageOp cfg]"] obtain f' where
    r: "run_steps (map (\<lambda>(s, t, staged). s) ?specs) [rootPackageOp cfg] ?f1 =
          (Inr ([rootPackageOp cfg] @ concat (map (\<lambda>(s, t, staged). staged) ?specs)), f')"
    and fr: "\<forall>p. p \<notin> set (map (\<lambda>(s, t, staged). t) ?specs) \<longrightarrow> f' p = ?f1 p"
    by blast
  have run: "modifyExistingFiles l root cfg rc dry f =
            (Inr ([rootPackageOp cfg, ciWorkflowOp cfg, collectAssetsOp cfg rc, copyDistOp cfg,
                  packageExtensionsOp cfg] @ ?lo @ [workspaceOp cfg]), f')"
    using first r by (simp add: modifyExistingFiles_def patches_def)
  have "?t1 \<notin> set (map (\<lambda>(s, t, staged). t) ?specs)" using ne by auto
  with fr have t1: "f' ?t1 = ?f1 ?t1" by blast
  then have man: "\<not> dry \<longrightarrow> f' ?t1 = Some (File ?c1)" by simp
  have "dry \<longrightarrow> f' = f"
    using modifyExistingFiles_dry [of l root cfg rc f] run by (metis snd_conv)
  with run man show ?thesis by blast
qed

lemma enabledMappings_length:
  "length (enabledMappings (makeTemplateData cfg)) = (if proxyRequired (lsp cfg) then 9 else 8)"
  by (simp add: enabledMappings_def fileMappings_def makeTemplateData_def)

lemma enabledMappings_proxy:
  "(\<exists>m \<in> set (enabledMappings (makeTemplateData cfg)). template m = ''proxyServer.ts.hbs'')
     \<longleftrightarrow> proxyRequired (lsp cfg)"
  by (simp add: enabledMappings_def fileMappings_def makeTemplateData_def)

lemma enabledMappings_proxy_output:
  "proxyRequired (lsp cfg) \<Longrightarrow>
     \<exists>m \<in> set (enabledMappings (makeTemplateData cfg)).
       output m = ''src/'' @ toPascalCase (language cfg) @ ''VscodeProxyServer.ts''"
  by (simp add: enabledMappings_def fileMappings_def makeTemplateData_def)

lemma patch_op_types:
  "opType (rootPackageOp cfg) = Modify" "opType (ciWorkflowOp cfg) = Modify"
  "opType (collectAssetsOp cfg rc) = Modify" "opType (copyDistOp cfg) = Modify"
  "opType (packageExtensionsOp cfg) = Modify" "opType (launchOp cfg) = Modify"
  "opType (workspaceOp cfg) = Modify"
  by (simp_all add: rootPackageOp_def ciWorkflowOp_def collectAssetsOp_def copyDistOp_def
        packageExtensionsOp_def launchOp_def workspaceOp_def modifyOp_def)

lemma patch_op_descriptions:
  "description (rootPackageOp cfg) = ''Add workspace and package script''"
  "description (ciWorkflowOp cfg) = ''Add package step for extension''"
  "description (collectAssetsOp cfg rc) = ''Add asset download configuration''"
  "description (copyDistOp cfg) = ''Add dist copy configuration''"
  "description (packageExtensionsOp cfg) = ''Add extension to valid list''"
  "description (launchOp cfg) = ''Add extension to debug configuration''"
  "description (workspaceOp cfg) = ''Add extension folder to workspace''"
  by (simp_all add: rootPackageOp_def ciWorkflowOp_def collectAssetsOp_def copyDistOp_def
        packageExtensionsOp_def launchOp_def workspaceOp_def modifyOp_def)

lemma createOp_fields:
  "opType (createOp data m dry r) = Create"
  "description (createOp data m dry r) = ''Generated from '' @ template m"
  "path (createOp data m dry r) = ''vscode/'' @ dataLanguage data @ ''/'' @ output m"
  by (simp_all add: createOp_def)

lemma patchedManifest_workspaces:
  "get_prop (patchedManifest cfg kvs ws scripts) ''workspaces''
     = Inr (Some (JArr (js_sort (ws @ [JStr (''vscode/'' @ language cfg)]))))"
  by (simp add: patchedManifest_def get_prop_def map_of_obj_set)

lemma js_sort_mset: "mset (js_sort xs) = mset xs"
  by (simp add: js_sort_def)

lemma js_sort_sorted: "sorted (map to_string (js_sort xs))"
  by (simp add: js_sort_def)

section \<open>Patches whose presence test holds\<close>




section \<open>Where a failing sequence stops\<close>

lemma run_steps_error_prefix:
  "run_steps ss ops fs = (Inl e, fs') \<Longrightarrow>
     \<exists>done failing rest staged fsk.
        ss = done @ failing # rest
        \<and> run_steps done ops fs = (Inr staged, fsk)
        \<and> failing fsk = (Inl e, fs')"
proof (induction ss arbitrary: ops fs)
  case Nil
  then show ?case by simp
next
  case (Cons s ss)
  show ?case
  proof (cases "s fs")
    case (Pair r fsm)
    show ?thesis
    proof (cases r)
      case (Inl x)
      with Pair Cons.prems have "s fs = (Inl e, fs')" by simp
      then have "s # ss = [] @ s # ss \<and> run_steps [] ops fs = (Inr ops, fs) \<and> s fs = (Inl e, fs')"
        by simp
      then show ?thesis by blast
    next
      case (Inr new)
      with Pair Cons.prems have "run_steps ss (ops @ new) fsm = (Inl e, fs')" by simp
      from Cons.IH [OF this] obtain "done" failing rest staged fsk where
        d: "ss = done @ failing # rest"
        and r: "run_steps done (ops @ new) fsm = (Inr staged, fsk)"
        and f: "failing fsk = (Inl e, fs')"
        by blast
      from d r Pair Inr have "s # ss = (s # done) @ failing # rest
           \<and> run_steps (s # done) ops fs = (Inr staged, fsk)"
        by simp
      with f show ?thesis by blast
    qed
  qed
qed

lemma stage_error_frame: "stage dry p t operation fs = (Inl e, fs') \<Longrightarrow> fs' = fs"
  by (auto simp: stage_def split: if_splits sum.splits)

lemma patch_error_frame:
  assumes "s \<in> set (patches l root cfg rc dry)" and "s fs = (Inl e, fs')"
  shows "fs' = fs"
proof -
  have t: "patchText p key anchor repl operation dry fs = (Inl e, fs') \<Longrightarrow> fs' = fs"
    for p key anchor repl operation
    by (auto simp: patchText_def dest: stage_error_frame split: if_splits sum.splits)
  have r: "patchRootPackage l root cfg dry fs = (Inl e, fs') \<Longrightarrow> fs' = fs"
    by (auto simp: patchRootPackage_def Let_def dest: stage_error_frame split: if_splits sum.splits)
  have la: "patchLaunch l root cfg dry fs = (Inl e, fs') \<Longrightarrow> fs' = fs"
    by (auto simp: patchLaunch_def Let_def dest: stage_error_frame
             split: if_splits sum.splits option.splits json.splits)
  have w: "patchWorkspace l root cfg dry fs = (Inl e, fs') \<Longrightarrow> fs' = fs"
    by (auto simp: patchWorkspace_def Let_def dest: stage_error_frame split: if_splits sum.splits)
  from assms t r la w show ?thesis
    by (auto simp: patches_def patchCiWorkflow_def patchCollectAssets_def patchCopyDist_def
          patchPackageExtensions_def)
qed

section \<open>The claims\<close>

text \<open>
  C3. When the extension directory already exists and \<^verbatim>\<open>force\<close> is not set,
  \<open>generateExtension\<close> returns a failure with no operation and exactly one error, which
  names the existing path, and the file tree is the one it was given: nothing was written
  and no directory was created.
\<close>

theorem precondition_failure:
  assumes "existsSync fs (extensionDirOf ctx)" and "\<not> force (options ctx)"
  shows "generateExtension l ctx fs =
           (\<lparr> success = False, operations = [], resultBranchName = branchName ctx,
              errors = [''Extension directory already exists: '' @ extensionDirOf ctx
                          @ ''. Use --force to overwrite.''] \<rparr>, fs)"
  using assms by (simp add: generateExtension_def failed_def)

theorem precondition_failure_witness:
  "existsSync existingExtensionRepo (extensionDirOf (sampleContext False False pythonConfig))
   \<and> \<not> force (options (sampleContext False False pythonConfig))
   \<and> generateExtension ref_lib (sampleContext False False pythonConfig) existingExtensionRepo =
       (\<lparr> success = False, operations = [],
          resultBranchName = ''feature/python-extension'',
          errors = [''Extension directory already exists: /r/vscode/python. Use --force to overwrite.''] \<rparr>,
        existingExtensionRepo)"
proof -
  have e: "existsSync existingExtensionRepo (extensionDirOf (sampleContext False False pythonConfig))"
    by code_simp
  have f: "\<not> force (options (sampleContext False False pythonConfig))"
    by (simp add: sampleContext_def)
  have d: "extensionDirOf (sampleContext False False pythonConfig) = ''/r/vscode/python''"
    by code_simp
  have b: "branchName (sampleContext False False pythonConfig) = ''feature/python-extension''"
    by code_simp
  show ?thesis
    using e f precondition_failure [OF e f, of ref_lib] by (simp add: d b)
qed

text \<open>
  C6. In dry-run mode \<open>generateExtension\<close> returns the file tree it was given, for every
  library, context and tree: no file content changes and no directory appears.
\<close>

theorem dry_run_writes_nothing:
  assumes "dryRun (options ctx)"
  shows "snd (generateExtension l ctx fs) = fs"
proof -
  have n: "snd (generateNewFiles l (templatesDir ctx) (extensionDirOf ctx)
              (makeTemplateData (config ctx)) True fs) = fs"
    by (rule generateNewFiles_dry)
  have m: "snd (modifyExistingFiles l (repoPath ctx) (config ctx) (repoConfig ctx) True fs) = fs"
    by (rule modifyExistingFiles_dry)
  show ?thesis
    using assms n m
    by (auto simp: generateExtension_def makeExtensionDirs_def split: prod.splits sum.splits)
qed

theorem dry_run_writes_nothing_witness:
  "dryRun (options (sampleContext True False pythonConfig))
   \<and> snd (generateExtension ref_lib (sampleContext True False pythonConfig) sampleRepo) = sampleRepo
   \<and> success (fst (generateExtension ref_lib (sampleContext True False pythonConfig) sampleRepo))"
proof -
  have d: "dryRun (options (sampleContext True False pythonConfig))"
    by (simp add: sampleContext_def)
  have s: "success (fst (generateExtension ref_lib (sampleContext True False pythonConfig) sampleRepo))"
    by code_simp
  show ?thesis
    using d s dry_run_writes_nothing [OF d, of ref_lib sampleRepo] by simp
qed




text \<open>
  C2 (amended). For every run and every operation of its result: a create operation carries
  no diff, and carries content exactly when the run is in dry-run and the operation was
  rendered from a template (a placeholder for a missing template carries none in either
  mode); a modify operation carries no content, carries its change summaries in both modes,
  and in dry-run carries a diff.
\<close>

theorem content_only_in_preview:
  "\<forall>operation \<in> set (operations (fst (generateExtension l ctx fs))).
     (opType operation = Create \<longrightarrow>
        diff operation = None
        \<and> (content operation \<noteq> None
             \<longleftrightarrow> dryRun (options ctx) \<and> starts_with (description operation) ''Generated from ''))
     \<and> (opType operation = Modify \<longrightarrow>
          content operation = None \<and> changes operation \<noteq> None
          \<and> (dryRun (options ctx) \<longrightarrow> diff operation \<noteq> None))"
proof -
  let ?P = "\<lambda>operation. create_shape (dryRun (options ctx)) operation \<or> modify_shape operation"
  have "list_all ?P (operations (fst (generateExtension l ctx fs)))"
  proof (cases rule: generateExtension_cases [where fs = fs and ctx = ctx and l = l])
    case pre
    then show ?thesis by (simp add: generateExtension_def failed_def)
  next
    case (dirs e fs1)
    then show ?thesis by (simp add: failed_def)
  next
    case (new e fs1 fs2)
    then show ?thesis by (simp add: failed_def)
  next
    case (patch e newFiles fs1 fs2 fs3)
    from generateNewFiles_ops(1) [OF patch(1)] patch(3) show ?thesis
      by (auto simp add: failed_def list_all_iff)
  next
    case (ok newFiles modifiedFiles fs1 fs2 fs3)
    from generateNewFiles_ops(1) [OF ok(1)] modifyExistingFiles_ops [OF ok(2)] ok(3)
    show ?thesis by (auto simp add: list_all_iff)
  qed
  then show ?thesis
    by (auto simp: list_all_iff create_shape_def modify_shape_def)
qed

theorem content_only_in_preview_witness:
  "map (\<lambda>operation. (opType operation, content operation \<noteq> None, diff operation \<noteq> None))
     (operations (fst (generateExtension ref_lib (sampleContext True False rustConfig) smallRepo)))
   = [(Create, True, False), (Create, False, False), (Create, False, False), (Create, False, False),
      (Create, False, False), (Create, False, False), (Create, False, False), (Create, False, False),
      (Modify, False, True)]
   \<and> list_all (\<lambda>operation.
         opType operation = Modify \<or>
         (content operation \<noteq> None) = starts_with (description operation) ''Generated from '')
        (operations (fst (generateExtension ref_lib (sampleContext True False rustConfig) smallRepo)))"
proof -
  have d: "dryRun (options (sampleContext True False rustConfig))"
    by (simp add: sampleContext_def)
  have a: "map (\<lambda>operation. (opType operation, content operation \<noteq> None, diff operation \<noteq> None))
     (operations (fst (generateExtension ref_lib (sampleContext True False rustConfig) smallRepo)))
   = [(Create, True, False), (Create, False, False), (Create, False, False), (Create, False, False),
      (Create, False, False), (Create, False, False), (Create, False, False), (Create, False, False),
      (Modify, False, True)]"
    by code_simp
  have "list_all (\<lambda>operation.
         opType operation = Modify \<or>
         (content operation \<noteq> None) = starts_with (description operation) ''Generated from '')
        (operations (fst (generateExtension ref_lib (sampleContext True False rustConfig) smallRepo)))"
    unfolding list_all_iff
  proof
    fix operation
    assume "operation \<in> set (operations (fst (generateExtension ref_lib (sampleContext True False rustConfig) smallRepo)))"
    with content_only_in_preview [of ref_lib "sampleContext True False rustConfig" smallRepo] d
    show "opType operation = Modify \<or>
         (content operation \<noteq> None) = starts_with (description operation) ''Generated from ''"
      by (cases "opType operation") auto
  qed
  with a show ?thesis by simp
qed

text \<open>
  C2 as stated fails twice on the small repository: in dry-run the placeholder for a missing
  template is a create operation without content, and in apply mode the modify operation
  carries a diff.
\<close>

theorem content_iff_preview_counterexample:
  "dryRun (options (sampleContext True False rustConfig))
   \<and> map (\<lambda>operation. (opType operation, content operation))
       (filter (\<lambda>operation. description operation = ''Template tsconfig.json.hbs not found - create manually'')
          (operations (fst (generateExtension ref_lib (sampleContext True False rustConfig) smallRepo))))
     = [(Create, None)]
   \<and> \<not> dryRun (options (sampleContext False False rustConfig))
   \<and> map (\<lambda>operation. (opType operation, path operation, diff operation))
       (filter (\<lambda>operation. opType operation = Modify)
          (operations (fst (generateExtension ref_lib (sampleContext False False rustConfig) smallRepo))))
     = [(Modify, ''scripts/package-extensions.js'',
         Some (text_lines [''- const VALID_EXTENSIONS = [...];'',
                           ''+ const VALID_EXTENSIONS = ['' @ quoted ''rust'' @ '', ...];'']))]"
  by code_simp

text \<open>
  C4. When the loop over the mappings reaches an enabled mapping whose template does not
  exist, whatever was staged so far and whatever the file tree, it stages one create
  operation whose description asks for manual creation, leaves the tree as it is, and goes
  on with the remaining mappings. A missing template is never the failure of a run: when
  file generation throws, the error was thrown at a mapping whose template exists.
\<close>

theorem template_missing_degradation:
  "(condition m \<noteq> Some False \<longrightarrow> \<not> existsSync fs (join [tdir, template m]) \<longrightarrow>
      run_steps (map (emitFile l tdir ed data dry) (m # ms)) ops fs =
        run_steps (map (emitFile l tdir ed data dry) ms)
          (ops @ [placeholderOp (join [ed, output m]) m]) fs
      \<and> opType (placeholderOp (join [ed, output m]) m) = Create
      \<and> description (placeholderOp (join [ed, output m]) m) =
          ''Template '' @ template m @ '' not found - create manually'')
   \<and> (generateNewFiles l tdir ed data dry fs1 = (Inl e, fs') \<longrightarrow>
        (\<exists>m' \<in> set (fileMappings data). \<exists>fs0.
            existsSync fs0 (join [tdir, template m'])
            \<and> emitFile l tdir ed data dry m' fs0 = (Inl e, fs')))"
proof (intro conjI impI)
  assume c: "condition m \<noteq> Some False" and n: "\<not> existsSync fs (join [tdir, template m])"
  show "run_steps (map (emitFile l tdir ed data dry) (m # ms)) ops fs =
        run_steps (map (emitFile l tdir ed data dry) ms)
          (ops @ [placeholderOp (join [ed, output m]) m]) fs"
    using emitFile_missing [OF c n] by simp
  show "opType (placeholderOp (join [ed, output m]) m) = Create"
    by (simp add: placeholderOp_def)
  show "description (placeholderOp (join [ed, output m]) m) =
          ''Template '' @ template m @ '' not found - create manually''"
    by (simp add: placeholderOp_def)
next
  assume "generateNewFiles l tdir ed data dry fs1 = (Inl e, fs')"
  then have "\<exists>s \<in> set (map (emitFile l tdir ed data dry) (fileMappings data)). \<exists>fs0. s fs0 = (Inl e, fs')"
    unfolding generateNewFiles_def by (rule run_steps_error)
  then obtain m' fs0 where m': "m' \<in> set (fileMappings data)"
    and f: "emitFile l tdir ed data dry m' fs0 = (Inl e, fs')"
    by auto
  from emitFile_error_template_exists [OF f] m' f
  show "\<exists>m' \<in> set (fileMappings data). \<exists>fs0.
            existsSync fs0 (join [tdir, template m'])
            \<and> emitFile l tdir ed data dry m' fs0 = (Inl e, fs')"
    by blast
qed

theorem template_missing_degradation_witness:
  "condition tsconfigMapping \<noteq> Some False
   \<and> \<not> existsSync sparseTemplateRepo (join [''/t'', template tsconfigMapping])
   \<and> run_steps (map (emitFile ref_lib ''/t'' ''/r/vscode/python'' (makeTemplateData pythonConfig) True)
                  [tsconfigMapping]) [] sparseTemplateRepo =
       (Inr [placeholderOp ''/r/vscode/python/tsconfig.json'' tsconfigMapping], sparseTemplateRepo)
   \<and> description (placeholderOp ''/r/vscode/python/tsconfig.json'' tsconfigMapping) =
       ''Template tsconfig.json.hbs not found - create manually''
   \<and> success (fst (generateExtension ref_lib (sampleContext True False pythonConfig) sparseTemplateRepo))
   \<and> length (filter (\<lambda>op. content op = None \<and> opType op = Create)
        (operations (fst (generateExtension ref_lib (sampleContext True False pythonConfig)
                            sparseTemplateRepo)))) = 8
   \<and> fst (generateNewFiles ref_lib ''/t'' ''/r/vscode/python'' (makeTemplateData pythonConfig) True
             brokenTemplateRepo) =
       Inl (SystemError ''EISDIR: illegal operation on a directory, read'')
   \<and> (\<exists>m' \<in> set (fileMappings (makeTemplateData pythonConfig)). \<exists>fs0.
         existsSync fs0 (join [''/t'', template m'])
         \<and> fst (emitFile ref_lib ''/t'' ''/r/vscode/python'' (makeTemplateData pythonConfig) True m' fs0)
             = Inl (SystemError ''EISDIR: illegal operation on a directory, read''))"
proof -
  let ?data = "makeTemplateData pythonConfig"
  let ?e = "SystemError ''EISDIR: illegal operation on a directory, read''"
  have c: "condition tsconfigMapping \<noteq> Some False"
    by (simp add: tsconfigMapping_def)
  have n: "\<not> existsSync sparseTemplateRepo (join [''/t'', template tsconfigMapping])"
    by code_simp
  have o: "join [''/r/vscode/python'', output tsconfigMapping] = ''/r/vscode/python/tsconfig.json''"
    by code_simp
  have t: "template tsconfigMapping = ''tsconfig.json.hbs''"
    by (simp add: tsconfigMapping_def)
  have s: "success (fst (generateExtension ref_lib (sampleContext True False pythonConfig) sparseTemplateRepo))"
    by code_simp
  have k: "length (filter (\<lambda>op. content op = None \<and> opType op = Create)
        (operations (fst (generateExtension ref_lib (sampleContext True False pythonConfig)
                            sparseTemplateRepo)))) = 8"
    by code_simp
  have b: "fst (generateNewFiles ref_lib ''/t'' ''/r/vscode/python'' ?data True brokenTemplateRepo) = Inl ?e"
    by code_simp
  then have b': "generateNewFiles ref_lib ''/t'' ''/r/vscode/python'' ?data True brokenTemplateRepo =
      (Inl ?e, snd (generateNewFiles ref_lib ''/t'' ''/r/vscode/python'' ?data True brokenTemplateRepo))"
    by (simp add: prod_eq_iff)
  note inst = template_missing_degradation
    [of tsconfigMapping sparseTemplateRepo "''/t''" ref_lib "''/r/vscode/python''" ?data True "[]" "[]"
        brokenTemplateRepo ?e
        "snd (generateNewFiles ref_lib ''/t'' ''/r/vscode/python'' ?data True brokenTemplateRepo)"]
  from inst c n have 1: "run_steps (map (emitFile ref_lib ''/t'' ''/r/vscode/python'' ?data True)
                  [tsconfigMapping]) [] sparseTemplateRepo =
       (Inr [placeholderOp ''/r/vscode/python/tsconfig.json'' tsconfigMapping], sparseTemplateRepo)"
    by (simp add: o)
  from inst c n have 2: "description (placeholderOp ''/r/vscode/python/tsconfig.json'' tsconfigMapping) =
       ''Template tsconfig.json.hbs not found - create manually''"
    by (simp add: o t)
  from inst b' have 3: "\<exists>m' \<in> set (fileMappings ?data). \<exists>fs0.
         existsSync fs0 (join [''/t'', template m'])
         \<and> fst (emitFile ref_lib ''/t'' ''/r/vscode/python'' ?data True m' fs0) = Inl ?e"
    by (metis fst_conv)
  show ?thesis
    using c n 1 2 s k b 3 by blast
qed




text \<open>
  C8 (the code departs from the claim). \<open>parseJsonc\<close> drops every comma that is followed
  by optional whitespace and a closing brace or bracket in the raw text, also inside a string
  literal. A workspace file that is strict JSON, or strict JSON but for trailing commas, and
  holds the folder path \<^verbatim>\<open>a,]\<close> is parsed with the path \<^verbatim>\<open>a]\<close>; the patch appends its
  folder and writes the document back with the path \<^verbatim>\<open>a]\<close>, so the entry that was there
  is not preserved.
\<close>

theorem comma_in_string_literal_is_dropped:
  "JSON_parse ref_lib commaPathWorkspace
       = Inr (JObj [(''folders'', JArr [JObj [(''path'', JStr ''a,]'')]])])
   \<and> strip_trailing_commas commaPathWorkspace \<noteq> commaPathWorkspace
   \<and> commaPathRepo ''/r/konveyor-extensions.code-workspace'' = Some (File commaPathWorkspace)
   \<and> (case snd (patchWorkspace ref_lib ''/r'' pythonConfig False commaPathRepo)
              ''/r/konveyor-extensions.code-workspace'' of
         Some (File written) \<Rightarrow> JSON_parse ref_lib written
       | _ \<Rightarrow> Inr JNull)
       = Inr (JObj [(''folders'', JArr [JObj [(''path'', JStr ''a]'')],
                                        JObj [(''path'', JStr ''vscode/python'')]])])
   \<and> trailingCommaRepo ''/r/konveyor-extensions.code-workspace'' = Some (File trailingCommaWorkspace)
   \<and> isl (JSON_parse ref_lib trailingCommaWorkspace)
   \<and> parseJsonc ref_lib trailingCommaWorkspace
       = Inr (JObj [(''folders'', JArr [JObj [(''path'', JStr ''a]'')]])])
   \<and> fst (patchWorkspace ref_lib ''/r'' pythonConfig False trailingCommaRepo)
       = Inr [workspaceOp pythonConfig]
   \<and> (case snd (patchWorkspace ref_lib ''/r'' pythonConfig False trailingCommaRepo)
              ''/r/konveyor-extensions.code-workspace'' of
         Some (File written) \<Rightarrow> JSON_parse ref_lib written
       | _ \<Rightarrow> Inr JNull)
       = Inr (JObj [(''folders'', JArr [JObj [(''path'', JStr ''a]'')],
                                        JObj [(''path'', JStr ''vscode/python'')]])])"
  by code_simp

text \<open>
  C9 (amended). When the target of a text patch exists and contains neither the key text nor
  the anchor, the replacement returns the text as it is, the file tree after the patch is
  the tree before it (nothing is appended or changed), and the patch still stages its modify
  operation, with the usual change summaries, whenever it runs in dry-run or the write
  succeeds; no skipped or failed patch is reported.
\<close>

theorem anchor_miss_rewrites_nothing:
  assumes "lookup fs p = Some (File text)"
    and "\<not> str_includes text key"
    and "\<not> str_includes text (concat anchor)"
  shows "replace_first anchor replacement text = text
       \<and> snd (patchText p key anchor replacement operation dry fs) = fs
       \<and> (dry \<or> lookup fs (dirname p) = Some Dir \<longrightarrow>
            fst (patchText p key anchor replacement operation dry fs) = Inr [operation])"
proof -
  have r: "replace_first anchor replacement text = text"
    using assms(3) by (rule replace_first_no_match)
  have e: "existsSync fs p" "readFile fs p = Inr text"
    using assms(1) by (simp_all add: existsSync_def readFile_def)
  have "fs p = Some (File text)" using assms(1) by (rule lookup_file_eq)
  then have same: "fs(p \<mapsto> File text) = fs" by (rule fun_upd_idem)
  have s: "snd (stage dry p text operation fs) = fs"
    using same assms(1)
    by (auto simp: stage_def writeFile_def split: sum.splits option.splits node.splits)
  have f: "fst (stage dry p text operation fs) = Inr [operation]"
    if "dry \<or> lookup fs (dirname p) = Some Dir"
    using that writeFile_parent [OF assms(1), of "text"] by (auto simp: stage_def)
  show ?thesis
    using r e s f assms(2) by (simp add: patchText_def)
qed

theorem anchor_miss_rewrites_nothing_witness:
  "lookup noAnchorRepo ''/r/.github/workflows/ci-repo.yml'' = Some (File ''steps: []'')
   \<and> \<not> str_includes ''steps: []'' ''package-python''
   \<and> \<not> str_includes ''steps: []'' (concat [nl, ''      '', ''- name: Upload VSIX artifacts''])
   \<and> snd (patchCiWorkflow ''/r'' pythonConfig False noAnchorRepo) = noAnchorRepo
   \<and> fst (patchCiWorkflow ''/r'' pythonConfig False noAnchorRepo) = Inr [ciWorkflowOp pythonConfig]"
proof -
  have a: "lookup noAnchorRepo ''/r/.github/workflows/ci-repo.yml'' = Some (File ''steps: []'')"
    by code_simp
  have b: "\<not> str_includes ''steps: []'' ''package-python''"
    by code_simp
  have c: "\<not> str_includes ''steps: []'' (concat [nl, ''      '', ''- name: Upload VSIX artifacts''])"
    by code_simp
  have d: "lookup noAnchorRepo (dirname ''/r/.github/workflows/ci-repo.yml'') = Some Dir"
    by code_simp
  have p: "join [''/r'', ''.github/workflows/ci-repo.yml''] = ''/r/.github/workflows/ci-repo.yml''"
    by code_simp
  have l: "language pythonConfig = ''python''"
    by code_simp
  from anchor_miss_rewrites_nothing [OF a b c, of "''$1$2'' @ packageStep pythonConfig @ nl @ nl @ ''$2$3''"
         "ciWorkflowOp pythonConfig" False] d
  have "snd (patchCiWorkflow ''/r'' pythonConfig False noAnchorRepo) = noAnchorRepo"
    and "fst (patchCiWorkflow ''/r'' pythonConfig False noAnchorRepo) = Inr [ciWorkflowOp pythonConfig]"
    by (simp_all add: patchCiWorkflow_def p l)
  with a b c show ?thesis by simp
qed

text \<open>
  C9 as stated fails on a workflow file without the upload step: the file stays as it was
  and the patch stages a modify operation that reports the added step.
\<close>

theorem anchor_miss_counterexample:
  "\<not> str_includes ''steps: []'' (concat [nl, ''      '', ''- name: Upload VSIX artifacts''])
   \<and> noAnchorRepo ''/r/.github/workflows/ci-repo.yml'' = Some (File ''steps: []'')
   \<and> snd (patchCiWorkflow ''/r'' pythonConfig False noAnchorRepo) ''/r/.github/workflows/ci-repo.yml''
       = Some (File ''steps: []'')
   \<and> map (\<lambda>operation. (opType operation, path operation, changes operation))
         (case fst (patchCiWorkflow ''/r'' pythonConfig False noAnchorRepo) of
            Inl e \<Rightarrow> [] | Inr staged \<Rightarrow> staged)
       = [(Modify, ''.github/workflows/ci-repo.yml'',
           Some [''Add step: '' @ quoted ''Package Python extension'', ''Run: npm run package-python''])]"
  by code_simp

text \<open>
  C10 (amended). Past the precondition, \<open>generateExtension\<close> returns a result whatever the
  three phases do. An error thrown by directory creation or by file generation gives a failed
  result with no operation, the error's message as its only error, and the tree as the failing
  phase left it; the create operations staged by the mappings that ran before the failing one
  are not in the result. An error thrown by patching gives a failed result whose operations
  are exactly the create operations of file generation (eight, or nine with the proxy) and
  whose only error is the error's message: the modify operations staged by the patches that
  ran before the failing one are not in the result, and the tree returned is the tree those
  patches wrote. When no phase throws, the result is the success with the operations of both
  phases and no error.
\<close>

theorem failure_keeps_completed_phases:
  fixes l :: lib and ctx :: GenerationContext and fs :: fs
  defines "ed \<equiv> extensionDirOf ctx"
    and "dry \<equiv> dryRun (options ctx)"
    and "data \<equiv> makeTemplateData (config ctx)"
  assumes "\<not> (existsSync fs (extensionDirOf ctx) \<and> \<not> force (options ctx))"
  shows
    "(makeExtensionDirs dry ed fs = (Inl e, fsa) \<longrightarrow>
        generateExtension l ctx fs =
          (\<lparr> success = False, operations = [], resultBranchName = branchName ctx,
             errors = [message e] \<rparr>, fsa))
     \<and> (makeExtensionDirs dry ed fs = (Inr u, fsa) \<longrightarrow>
        generateNewFiles l (templatesDir ctx) ed data dry fsa = (Inl e, fsb) \<longrightarrow>
          generateExtension l ctx fs =
            (\<lparr> success = False, operations = [], resultBranchName = branchName ctx,
               errors = [message e] \<rparr>, fsb)
          \<and> (\<exists>done failing rest staged fsk.
                map (emitFile l (templatesDir ctx) ed data dry) (fileMappings data)
                  = done @ failing # rest
                \<and> run_steps done [] fsa = (Inr staged, fsk)
                \<and> failing fsk = (Inl e, fsb)))
     \<and> (makeExtensionDirs dry ed fs = (Inr u, fsa) \<longrightarrow>
        generateNewFiles l (templatesDir ctx) ed data dry fsa = (Inr newFiles, fsb) \<longrightarrow>
        modifyExistingFiles l (repoPath ctx) (config ctx) (repoConfig ctx) dry fsb = (Inl e, fsc) \<longrightarrow>
          generateExtension l ctx fs =
            (\<lparr> success = False, operations = newFiles, resultBranchName = branchName ctx,
               errors = [message e] \<rparr>, fsc)
          \<and> list_all (\<lambda>operation. opType operation = Create) newFiles
          \<and> length newFiles = (if proxyRequired (lsp (config ctx)) then 9 else 8)
          \<and> (\<exists>done failing rest staged.
                patches l (repoPath ctx) (config ctx) (repoConfig ctx) dry = done @ failing # rest
                \<and> run_steps done [] fsb = (Inr staged, fsc)
                \<and> failing fsc = (Inl e, fsc)))
     \<and> (makeExtensionDirs dry ed fs = (Inr u, fsa) \<longrightarrow>
        generateNewFiles l (templatesDir ctx) ed data dry fsa = (Inr newFiles, fsb) \<longrightarrow>
        modifyExistingFiles l (repoPath ctx) (config ctx) (repoConfig ctx) dry fsb
          = (Inr modifiedFiles, fsc) \<longrightarrow>
          generateExtension l ctx fs =
            (\<lparr> success = True, operations = newFiles @ modifiedFiles,
               resultBranchName = branchName ctx, errors = [] \<rparr>, fsc))"
proof (intro conjI impI)
  assume "makeExtensionDirs dry ed fs = (Inl e, fsa)"
  with assms(4) show "generateExtension l ctx fs =
          (\<lparr> success = False, operations = [], resultBranchName = branchName ctx,
             errors = [message e] \<rparr>, fsa)"
    by (auto simp add: generateExtension_def failed_def ed_def dry_def)
next
  assume d: "makeExtensionDirs dry ed fs = (Inr u, fsa)"
    and g: "generateNewFiles l (templatesDir ctx) ed data dry fsa = (Inl e, fsb)"
  with assms(4) show "generateExtension l ctx fs =
            (\<lparr> success = False, operations = [], resultBranchName = branchName ctx,
               errors = [message e] \<rparr>, fsb)"
    by (auto simp add: generateExtension_def failed_def ed_def dry_def data_def)
  from g show "\<exists>done failing rest staged fsk.
                map (emitFile l (templatesDir ctx) ed data dry) (fileMappings data)
                  = done @ failing # rest
                \<and> run_steps done [] fsa = (Inr staged, fsk)
                \<and> failing fsk = (Inl e, fsb)"
    unfolding generateNewFiles_def by (rule run_steps_error_prefix)
next
  assume d: "makeExtensionDirs dry ed fs = (Inr u, fsa)"
    and g: "generateNewFiles l (templatesDir ctx) ed data dry fsa = (Inr newFiles, fsb)"
    and m: "modifyExistingFiles l (repoPath ctx) (config ctx) (repoConfig ctx) dry fsb = (Inl e, fsc)"
  with assms(4) show "generateExtension l ctx fs =
            (\<lparr> success = False, operations = newFiles, resultBranchName = branchName ctx,
               errors = [message e] \<rparr>, fsc)"
    by (auto simp add: generateExtension_def failed_def ed_def dry_def data_def)
  from generateNewFiles_ops [OF g]
  show "list_all (\<lambda>operation. opType operation = Create) newFiles"
    and "length newFiles = (if proxyRequired (lsp (config ctx)) then 9 else 8)"
    by (simp_all add: data_def makeTemplateData_def list_all_iff create_shape_def)
  from m obtain "done" failing rest staged fsk where
    p: "patches l (repoPath ctx) (config ctx) (repoConfig ctx) dry = done @ failing # rest"
    and r: "run_steps done [] fsb = (Inr staged, fsk)"
    and f: "failing fsk = (Inl e, fsc)"
    unfolding modifyExistingFiles_def by (blast dest: run_steps_error_prefix)
  from p have "failing \<in> set (patches l (repoPath ctx) (config ctx) (repoConfig ctx) dry)"
    by simp
  from patch_error_frame [OF this f] have "fsc = fsk" .
  with p r f show "\<exists>done failing rest staged.
                patches l (repoPath ctx) (config ctx) (repoConfig ctx) dry = done @ failing # rest
                \<and> run_steps done [] fsb = (Inr staged, fsc)
                \<and> failing fsc = (Inl e, fsc)"
    by blast
next
  assume d: "makeExtensionDirs dry ed fs = (Inr u, fsa)"
    and g: "generateNewFiles l (templatesDir ctx) ed data dry fsa = (Inr newFiles, fsb)"
    and m: "modifyExistingFiles l (repoPath ctx) (config ctx) (repoConfig ctx) dry fsb
              = (Inr modifiedFiles, fsc)"
  with assms(4) show "generateExtension l ctx fs =
            (\<lparr> success = True, operations = newFiles @ modifiedFiles,
               resultBranchName = branchName ctx, errors = [] \<rparr>, fsc)"
    by (auto simp add: generateExtension_def ed_def dry_def data_def)
qed

theorem failure_keeps_completed_phases_witness:
  "\<not> (existsSync malformedLaunchRepo (extensionDirOf (sampleContext False False pythonConfig))
        \<and> \<not> force (options (sampleContext False False pythonConfig)))
   \<and> makeExtensionDirs False ''/r/vscode/python'' malformedLaunchRepo = (Inr (), launchFailureDirs)
   \<and> \<not> isl (fst (generateNewFiles ref_lib ''/t'' ''/r/vscode/python'' (makeTemplateData pythonConfig)
                      False launchFailureDirs))
   \<and> isl (fst (modifyExistingFiles ref_lib ''/r'' pythonConfig sampleRepoConfig False
                  launchFailureNewFiles))
   \<and> generateExtension ref_lib (sampleContext False False pythonConfig) malformedLaunchRepo =
       (\<lparr> success = False,
          operations =
            projr (fst (generateNewFiles ref_lib ''/t'' ''/r/vscode/python''
                          (makeTemplateData pythonConfig) False launchFailureDirs)),
          resultBranchName = ''feature/python-extension'',
          errors =
            [message (projl (fst (modifyExistingFiles ref_lib ''/r'' pythonConfig sampleRepoConfig
                                    False launchFailureNewFiles)))] \<rparr>,
        launchFailurePatches)
   \<and> length (projr (fst (generateNewFiles ref_lib ''/t'' ''/r/vscode/python''
                           (makeTemplateData pythonConfig) False launchFailureDirs))) = 9"
proof -
  let ?P = "sampleContext False False pythonConfig"
  let ?data = "makeTemplateData pythonConfig"
  let ?G = "generateNewFiles ref_lib ''/t'' ''/r/vscode/python'' ?data False launchFailureDirs"
  let ?M = "modifyExistingFiles ref_lib ''/r'' pythonConfig sampleRepoConfig False launchFailureNewFiles"
  have pre: "\<not> (existsSync malformedLaunchRepo (extensionDirOf ?P) \<and> \<not> force (options ?P))"
    by code_simp
  have c: "extensionDirOf ?P = ''/r/vscode/python''" "dryRun (options ?P) = False"
    "templatesDir ?P = ''/t''" "repoPath ?P = ''/r''" "config ?P = pythonConfig"
    "repoConfig ?P = sampleRepoConfig" "branchName ?P = ''feature/python-extension''"
    "proxyRequired (lsp pythonConfig)"
    by code_simp+
  have d: "fst (makeExtensionDirs False ''/r/vscode/python'' malformedLaunchRepo) = Inr ()"
    by code_simp
  then have d': "makeExtensionDirs False ''/r/vscode/python'' malformedLaunchRepo = (Inr (), launchFailureDirs)"
    by (simp add: prod_eq_iff launchFailureDirs_def)
  have g: "\<not> isl (fst ?G)" by code_simp
  then have g': "?G = (Inr (projr (fst ?G)), launchFailureNewFiles)"
    by (cases "fst ?G") (simp_all add: prod_eq_iff launchFailureNewFiles_def)
  have m: "isl (fst ?M)" by code_simp
  then have m': "?M = (Inl (projl (fst ?M)), launchFailurePatches)"
    by (cases "fst ?M") (simp_all add: prod_eq_iff launchFailurePatches_def)
  from failure_keeps_completed_phases [OF pre, where l = ref_lib and u = "()"
         and fsa = launchFailureDirs and fsb = launchFailureNewFiles and fsc = launchFailurePatches
         and newFiles = "projr (fst ?G)" and e = "projl (fst ?M)"]
       d' g' m'
  have "generateExtension ref_lib ?P malformedLaunchRepo =
       (\<lparr> success = False, operations = projr (fst ?G),
          resultBranchName = ''feature/python-extension'',
          errors = [message (projl (fst ?M))] \<rparr>, launchFailurePatches)"
    and "length (projr (fst ?G)) = 9"
    by (simp_all add: c)
  with pre d' g m show ?thesis by simp
qed

text \<open>
  C10 as stated fails when a later patch throws: with a malformed launch configuration the
  run has already rewritten the packaging script, and the failed result holds no modify
  operation for it.
\<close>

theorem staged_operations_remain_counterexample:
  "\<not> success (fst (generateExtension ref_lib (sampleContext False False pythonConfig)
                     malformedLaunchRepo))
   \<and> malformedLaunchRepo ''/r/scripts/package-extensions.js''
       = Some (File ''const VALID_EXTENSIONS = [];'')
   \<and> snd (generateExtension ref_lib (sampleContext False False pythonConfig) malformedLaunchRepo)
         ''/r/scripts/package-extensions.js''
       = Some (File (''const VALID_EXTENSIONS = ['' @ quoted ''python'' @ '', ];''))
   \<and> filter (\<lambda>operation. opType operation = Modify)
        (operations (fst (generateExtension ref_lib (sampleContext False False pythonConfig)
                            malformedLaunchRepo))) = []"
  by code_simp

text \<open>
  C5 (amended). On a repository that is fresh for the extension and holds the templates and
  the seven patch targets, each with its presence test false, where the manifest, the launch
  file and the workspace file parse to objects, the manifest's workspace list is absent,
  \<^verbatim>\<open>null\<close> or an array and its scripts are absent, \<^verbatim>\<open>null\<close> or an object, and every target
  lies in a directory: a run succeeds and stages, in this order, one create operation per
  enabled mapping and the modify operations. There are nine create operations when the proxy
  is required, eight otherwise, and an operation for the proxy-server file exactly when the
  proxy is required. There are seven modify operations when the launch file has
  configurations, and six, none of them for the launch file, when it has none. In apply mode
  the manifest written back holds the workspace list sorted, with the entries it had and one
  more, the extension's path.
\<close>

theorem fresh_repository_operations:
  fixes l :: lib and ctx :: GenerationContext and fs :: fs
  defines "cfg \<equiv> config ctx"
    and "root \<equiv> repoPath ctx"
    and "dry \<equiv> dryRun (options ctx)"
    and "data \<equiv> makeTemplateData (config ctx)"
  defines "created \<equiv>
             map (\<lambda>m. createOp data m dry (renderedOf l (templatesDir ctx) data fs m))
               (enabledMappings data)"
  assumes fresh: "\<not> existsSync fs (extensionDirOf ctx)"
    and free: "extensionSpaceFree fs (extensionDirOf ctx) data"
    and ready: "templatesReady l (templatesDir ctx) data fs"
    and m1: "lookup fs (join [root, ''package.json'']) = Some (File manifest)"
    and m2: "JSON_parse l manifest = Inr (JObj kvs)"
    and m3: "listOrAbsent (map_of kvs ''workspaces'') = Some ws"
    and m4: "JStr (''vscode/'' @ language cfg) \<notin> set ws"
    and m5: "objectOrAbsent (map_of kvs ''scripts'') = Some scripts"
    and c1: "lookup fs (join [root, ''.github/workflows/ci-repo.yml'']) = Some (File ci)"
    and c2: "\<not> str_includes ci (''package-'' @ language cfg)"
    and a1: "lookup fs (join [root, ''scripts/collect-assets.js'']) = Some (File assets)"
    and a2: "\<not> str_includes assets (quoted (binaryName (provider cfg)))"
    and d1: "lookup fs (join [root, ''scripts/copy-dist.js'']) = Some (File dist)"
    and d2: "\<not> str_includes dist (quoted (language cfg))"
    and p1: "lookup fs (join [root, ''scripts/package-extensions.js'']) = Some (File valid)"
    and p2: "\<not> str_includes valid (quoted (language cfg))"
    and l1: "lookup fs (join [root, ''.vscode/launch.json'']) = Some (File launch)"
    and l2: "JSON_parse l launch = Inr (JObj lkvs)"
    and l4: "hasExtension (map_of lkvs ''configurations'') (''vscode/'' @ language cfg) = Inr False"
    and w1: "lookup fs (join [root, ''konveyor-extensions.code-workspace'']) = Some (File wtext)"
    and w2: "JSON_parse l (strip_trailing_commas wtext) = Inr (JObj wkvs)"
    and w4: "hasFolder (map_of wkvs ''folders'') (''vscode/'' @ language cfg) = Inr False"
    and par: "\<forall>t \<in> set (targetPaths root). lookup fs (dirname t) = Some Dir"
  shows "fst (generateExtension l ctx fs) =
           \<lparr> success = True,
             operations =
               created
               @ [rootPackageOp cfg, ciWorkflowOp cfg, collectAssetsOp cfg (repoConfig ctx),
                  copyDistOp cfg, packageExtensionsOp cfg]
               @ launchOps cfg (map_of lkvs ''configurations'') @ [workspaceOp cfg],
             resultBranchName = branchName ctx, errors = [] \<rparr>
       \<and> length (filter (\<lambda>operation. opType operation = Create)
                   (operations (fst (generateExtension l ctx fs))))
            = (if proxyRequired (lsp cfg) then 9 else 8)
       \<and> length (filter (\<lambda>operation. opType operation = Modify)
                   (operations (fst (generateExtension l ctx fs))))
            = (if defined_truthy (map_of lkvs ''configurations'') then 7 else 6)
       \<and> ((\<exists>operation \<in> set (operations (fst (generateExtension l ctx fs))).
              description operation = ''Generated from proxyServer.ts.hbs'')
            \<longleftrightarrow> proxyRequired (lsp cfg))
       \<and> (proxyRequired (lsp cfg) \<longrightarrow>
            (\<exists>operation \<in> set created.
               path operation = ''vscode/'' @ language cfg @ ''/src/''
                                  @ toPascalCase (language cfg) @ ''VscodeProxyServer.ts''))
       \<and> (\<not> dry \<longrightarrow>
            snd (generateExtension l ctx fs) (join [root, ''package.json'']) =
              Some (File (JSON_stringify l (patchedManifest cfg kvs ws scripts) @ nl)))
       \<and> get_prop (patchedManifest cfg kvs ws scripts) ''workspaces''
            = Inr (Some (JArr (js_sort (ws @ [JStr (''vscode/'' @ language cfg)]))))
       \<and> mset (js_sort (ws @ [JStr (''vscode/'' @ language cfg)]))
            = mset ws + {#JStr (''vscode/'' @ language cfg)#}
       \<and> sorted (map to_string (js_sort (ws @ [JStr (''vscode/'' @ language cfg)])))"
proof -
  let ?ed = "extensionDirOf ctx"
  let ?D = "newDirectories ?ed data"
  let ?O = "outputPaths ?ed data"
  let ?lo = "launchOps cfg (map_of lkvs ''configurations'')"
  let ?modified = "[rootPackageOp cfg, ciWorkflowOp cfg, collectAssetsOp cfg (repoConfig ctx),
                    copyDistOp cfg, packageExtensionsOp cfg] @ ?lo @ [workspaceOp cfg]"
  have k0: "keeps fs ?D ?O fs" using free by (rule keeps_init)
  from makeExtensionDirs_fresh [OF k0 free, of dry] obtain f1 where
    s1: "makeExtensionDirs dry ?ed fs = (Inr (), f1)" and k1: "keeps fs ?D ?O f1"
    by blast
  from generateNewFiles_fresh [OF k1 free ready, of dry] obtain f2 where
    s2: "generateNewFiles l (templatesDir ctx) ?ed data dry f1 = (Inr created, f2)"
    and k2: "keeps fs ?D ?O f2"
    by (auto simp: created_def)
  have par2: "\<forall>t \<in> set (targetPaths root). lookup f2 (dirname t) = Some Dir"
    using par keeps_lookup [OF k2] by blast
  from modifyExistingFiles_fresh
    [OF keeps_lookup [OF k2 m1] m2 m3 m4 m5 keeps_lookup [OF k2 c1] c2 keeps_lookup [OF k2 a1] a2
        keeps_lookup [OF k2 d1] d2 keeps_lookup [OF k2 p1] p2 keeps_lookup [OF k2 l1] l2 l4
        keeps_lookup [OF k2 w1] w2 w4 par2, of "repoConfig ctx" dry]
  obtain f3 where
    s3: "modifyExistingFiles l root cfg (repoConfig ctx) dry f2 = (Inr ?modified, f3)"
    and man: "\<not> dry \<longrightarrow> f3 (join [root, ''package.json'']) =
                Some (File (JSON_stringify l (patchedManifest cfg kvs ws scripts) @ nl))"
    by auto
  have run: "generateExtension l ctx fs =
               (\<lparr> success = True, operations = created @ ?modified,
                  resultBranchName = branchName ctx, errors = [] \<rparr>, f3)"
    using fresh s1 s2 s3
    by (simp add: generateExtension_def cfg_def root_def dry_def data_def)
  have n: "length created = (if proxyRequired (lsp cfg) then 9 else 8)"
    by (simp add: created_def data_def cfg_def enabledMappings_length)
  have tc: "list_all (\<lambda>operation. opType operation = Create) created"
    by (simp add: created_def list_all_iff createOp_fields)
  have tm: "list_all (\<lambda>operation. opType operation = Modify) ?modified"
    by (simp add: patch_op_types launchOps_def)
  have pm: "\<not> (\<exists>operation \<in> set ?modified.
              description operation = ''Generated from proxyServer.ts.hbs'')"
    by (simp add: patch_op_descriptions launchOps_def)
  have pc: "(\<exists>operation \<in> set created.
              description operation = ''Generated from proxyServer.ts.hbs'')
            \<longleftrightarrow> proxyRequired (lsp cfg)"
    using enabledMappings_proxy [of "config ctx"]
    by (simp add: created_def createOp_fields data_def cfg_def)
  have pp: "\<exists>operation \<in> set created.
               path operation = ''vscode/'' @ language cfg @ ''/src/''
                                  @ toPascalCase (language cfg) @ ''VscodeProxyServer.ts''"
    if "proxyRequired (lsp cfg)"
    using enabledMappings_proxy_output [of "config ctx"] that
    by (auto simp: created_def createOp_fields data_def cfg_def makeTemplateData_def)
  have fc: "filter (\<lambda>operation. opType operation = Create) (created @ ?modified) = created"
    using tc tm by (simp add: list_all_iff filter_id_conv filter_empty_conv)
  have fm: "filter (\<lambda>operation. opType operation = Modify) (created @ ?modified) = ?modified"
    using tc tm by (simp add: list_all_iff filter_id_conv filter_empty_conv)
  have nm: "length ?modified = (if defined_truthy (map_of lkvs ''configurations'') then 7 else 6)"
    by (simp add: launchOps_def)
  have pa: "(\<exists>operation \<in> set (created @ ?modified).
              description operation = ''Generated from proxyServer.ts.hbs'')
            \<longleftrightarrow> proxyRequired (lsp cfg)"
    using pm pc by auto
  have ops: "operations (fst (generateExtension l ctx fs)) = created @ ?modified"
    using run by simp
  show ?thesis
    unfolding ops fc fm
    using run n nm pa pp man patchedManifest_workspaces [of cfg kvs ws scripts]
      js_sort_mset [of "ws @ [JStr (''vscode/'' @ language cfg)]"]
      js_sort_sorted [of "ws @ [JStr (''vscode/'' @ language cfg)]"]
    by simp
qed

theorem fresh_repository_operations_witness:
  "success (fst (generateExtension ref_lib (sampleContext False False pythonConfig) sampleRepo))
   \<and> length (filter (\<lambda>operation. opType operation = Create)
        (operations (fst (generateExtension ref_lib (sampleContext False False pythonConfig) sampleRepo))))
       = 9
   \<and> length (filter (\<lambda>operation. opType operation = Modify)
        (operations (fst (generateExtension ref_lib (sampleContext False False pythonConfig) sampleRepo))))
       = 7
   \<and> list_ex (\<lambda>operation. path operation = ''vscode/python/src/PythonVscodeProxyServer.ts'')
        (operations (fst (generateExtension ref_lib (sampleContext False False pythonConfig) sampleRepo)))
   \<and> success (fst (generateExtension ref_lib (sampleContext False False rustConfig) sampleRepo))
   \<and> length (filter (\<lambda>operation. opType operation = Create)
        (operations (fst (generateExtension ref_lib (sampleContext False False rustConfig) sampleRepo))))
       = 8
   \<and> length (filter (\<lambda>operation. opType operation = Modify)
        (operations (fst (generateExtension ref_lib (sampleContext False False rustConfig) sampleRepo))))
       = 7
   \<and> list_all (\<lambda>operation. description operation \<noteq> ''Generated from proxyServer.ts.hbs'')
        (operations (fst (generateExtension ref_lib (sampleContext False False rustConfig) sampleRepo)))
   \<and> snd (generateExtension ref_lib (sampleContext False False rustConfig) sampleRepo) ''/r/package.json''
       = Some (File (JSON_stringify ref_lib
                 (JObj [(''workspaces'', JArr [JStr ''shared'', JStr ''vscode/core'', JStr ''vscode/rust'']),
                        (''scripts'', JObj [(''package-rust'',
                                             JStr ''node ./scripts/package-extensions.js rust'')])])
               @ nl))
   \<and> success (fst (generateExtension ref_lib (sampleContext False False rustConfig) bareRepo))
   \<and> length (filter (\<lambda>operation. opType operation = Create)
        (operations (fst (generateExtension ref_lib (sampleContext False False rustConfig) bareRepo))))
       = 8
   \<and> length (filter (\<lambda>operation. opType operation = Modify)
        (operations (fst (generateExtension ref_lib (sampleContext False False rustConfig) bareRepo))))
       = 6
   \<and> snd (generateExtension ref_lib (sampleContext False False rustConfig) bareRepo) ''/r/package.json''
       = Some (File (JSON_stringify ref_lib
                 (JObj [(''workspaces'', JArr [JStr ''vscode/rust'']),
                        (''scripts'', JObj [(''package-rust'',
                                             JStr ''node ./scripts/package-extensions.js rust'')])])
               @ nl))"
proof -
  let ?kvs = "[(''workspaces'', JArr [JStr ''shared'', JStr ''vscode/core'']), (''scripts'', JObj [])]"
  let ?ws = "[JStr ''shared'', JStr ''vscode/core'']"
  let ?lkvs = "[(''configurations'',
                 JArr [JObj [(''extensionDevelopmentPath'', JArr [JStr ''${workspaceFolder}/vscode/core''])]])]"
  let ?wkvs = "[(''folders'', JArr [JObj [(''path'', JStr ''vscode/core'')]])]"
  have m2: "JSON_parse ref_lib sampleManifest = Inr (JObj ?kvs)" by code_simp
  have m3: "listOrAbsent (map_of ?kvs ''workspaces'') = Some ?ws" by code_simp
  have m5: "objectOrAbsent (map_of ?kvs ''scripts'') = Some []" by code_simp
  have l2: "JSON_parse ref_lib sampleLaunch = Inr (JObj ?lkvs)" by code_simp
  have l5: "defined_truthy (map_of ?lkvs ''configurations'')" by code_simp
  have w2: "JSON_parse ref_lib (strip_trailing_commas sampleWorkspace) = Inr (JObj ?wkvs)" by code_simp

  let ?P = "sampleContext False False pythonConfig"
  have P: "success (fst (generateExtension ref_lib ?P sampleRepo))
   \<and> length (filter (\<lambda>operation. opType operation = Create)
        (operations (fst (generateExtension ref_lib ?P sampleRepo)))) = 9
   \<and> length (filter (\<lambda>operation. opType operation = Modify)
        (operations (fst (generateExtension ref_lib ?P sampleRepo)))) = 7
   \<and> list_ex (\<lambda>operation. path operation = ''vscode/python/src/PythonVscodeProxyServer.ts'')
        (operations (fst (generateExtension ref_lib ?P sampleRepo)))"
  proof -
    have fresh: "\<not> existsSync sampleRepo (extensionDirOf ?P)" by code_simp
    have free: "extensionSpaceFree sampleRepo (extensionDirOf ?P) (makeTemplateData (config ?P))"
      by code_simp
    have ready: "templatesReady ref_lib (templatesDir ?P) (makeTemplateData (config ?P)) sampleRepo"
      by code_simp
    have m1: "lookup sampleRepo (join [repoPath ?P, ''package.json'']) = Some (File sampleManifest)"
      by code_simp
    have m4: "JStr (''vscode/'' @ language (config ?P)) \<notin> set ?ws" by code_simp
    have c1: "lookup sampleRepo (join [repoPath ?P, ''.github/workflows/ci-repo.yml''])
                = Some (File sampleWorkflow)" by code_simp
    have c2: "\<not> str_includes sampleWorkflow (''package-'' @ language (config ?P))" by code_simp
    have a1: "lookup sampleRepo (join [repoPath ?P, ''scripts/collect-assets.js''])
                = Some (File ''const ASSETS = {};'')" by code_simp
    have a2: "\<not> str_includes ''const ASSETS = {};'' (quoted (binaryName (provider (config ?P))))"
      by code_simp
    have d1: "lookup sampleRepo (join [repoPath ?P, ''scripts/copy-dist.js''])
                = Some (File ''const EXTENSIONS = {};'')" by code_simp
    have d2: "\<not> str_includes ''const EXTENSIONS = {};'' (quoted (language (config ?P)))" by code_simp
    have p1: "lookup sampleRepo (join [repoPath ?P, ''scripts/package-extensions.js''])
                = Some (File ''const VALID_EXTENSIONS = [];'')" by code_simp
    have p2: "\<not> str_includes ''const VALID_EXTENSIONS = [];'' (quoted (language (config ?P)))"
      by code_simp
    have l1: "lookup sampleRepo (join [repoPath ?P, ''.vscode/launch.json'']) = Some (File sampleLaunch)"
      by code_simp
    have l4: "hasExtension (map_of ?lkvs ''configurations'') (''vscode/'' @ language (config ?P))
                = Inr False"
      by code_simp
    have w1: "lookup sampleRepo (join [repoPath ?P, ''konveyor-extensions.code-workspace''])
                = Some (File sampleWorkspace)" by code_simp
    have w4: "hasFolder (map_of ?wkvs ''folders'') (''vscode/'' @ language (config ?P)) = Inr False"
      by code_simp
    have par: "\<forall>t \<in> set (targetPaths (repoPath ?P)). lookup sampleRepo (dirname t) = Some Dir"
      by code_simp
    have px: "proxyRequired (lsp (config ?P))" by code_simp
    have pp: "''vscode/'' @ language (config ?P) @ ''/src/'' @ toPascalCase (language (config ?P))
                @ ''VscodeProxyServer.ts'' = ''vscode/python/src/PythonVscodeProxyServer.ts''"
      by code_simp
    note inst = fresh_repository_operations
      [OF fresh free ready m1 m2 m3 m4 m5 c1 c2 a1 a2 d1 d2 p1 p2 l1 l2 l4 w1 w2 w4 par]
    note i1 = inst [THEN conjunct1]
      and i2 = inst [THEN conjunct2, THEN conjunct1]
      and i3 = inst [THEN conjunct2, THEN conjunct2, THEN conjunct1]
      and i5 = inst [THEN conjunct2, THEN conjunct2, THEN conjunct2, THEN conjunct2, THEN conjunct1]
    have s: "success (fst (generateExtension ref_lib ?P sampleRepo))"
      by (simp add: i1)
    have nc: "length (filter (\<lambda>operation. opType operation = Create)
        (operations (fst (generateExtension ref_lib ?P sampleRepo)))) = 9"
      using i2 px by simp
    have nm: "length (filter (\<lambda>operation. opType operation = Modify)
        (operations (fst (generateExtension ref_lib ?P sampleRepo)))) = 7"
      using i3 l5 by simp
    have ex: "\<exists>operation \<in> set (operations (fst (generateExtension ref_lib ?P sampleRepo))).
                path operation = ''vscode/python/src/PythonVscodeProxyServer.ts''"
      using i5 px unfolding pp by (auto simp: i1)
    from s nc nm ex show ?thesis
      by (simp add: list_ex_iff)
  qed

  let ?R = "sampleContext False False rustConfig"
  have fresh: "\<not> existsSync sampleRepo (extensionDirOf ?R)" by code_simp
  have px: "\<not> proxyRequired (lsp (config ?R))" by code_simp
  have dr: "\<not> dryRun (options ?R)" by code_simp
  have pj: "join [repoPath ?R, ''package.json''] = ''/r/package.json''" by code_simp
  have c2: "\<not> str_includes sampleWorkflow (''package-'' @ language (config ?R))" by code_simp
  have a2: "\<not> str_includes ''const ASSETS = {};'' (quoted (binaryName (provider (config ?R))))"
    by code_simp
  have d2: "\<not> str_includes ''const EXTENSIONS = {};'' (quoted (language (config ?R)))" by code_simp
  have p2: "\<not> str_includes ''const VALID_EXTENSIONS = [];'' (quoted (language (config ?R)))"
    by code_simp
  have R: "success (fst (generateExtension ref_lib ?R sampleRepo))
   \<and> length (filter (\<lambda>operation. opType operation = Create)
        (operations (fst (generateExtension ref_lib ?R sampleRepo)))) = 8
   \<and> length (filter (\<lambda>operation. opType operation = Modify)
        (operations (fst (generateExtension ref_lib ?R sampleRepo)))) = 7
   \<and> list_all (\<lambda>operation. description operation \<noteq> ''Generated from proxyServer.ts.hbs'')
        (operations (fst (generateExtension ref_lib ?R sampleRepo)))
   \<and> snd (generateExtension ref_lib ?R sampleRepo) ''/r/package.json''
       = Some (File (JSON_stringify ref_lib
                 (JObj [(''workspaces'', JArr [JStr ''shared'', JStr ''vscode/core'', JStr ''vscode/rust'']),
                        (''scripts'', JObj [(''package-rust'',
                                             JStr ''node ./scripts/package-extensions.js rust'')])])
               @ nl))"
  proof -
    have free: "extensionSpaceFree sampleRepo (extensionDirOf ?R) (makeTemplateData (config ?R))"
      by code_simp
    have ready: "templatesReady ref_lib (templatesDir ?R) (makeTemplateData (config ?R)) sampleRepo"
      by code_simp
    have m1: "lookup sampleRepo (join [repoPath ?R, ''package.json'']) = Some (File sampleManifest)"
      by code_simp
    have m4: "JStr (''vscode/'' @ language (config ?R)) \<notin> set ?ws" by code_simp
    have c1: "lookup sampleRepo (join [repoPath ?R, ''.github/workflows/ci-repo.yml''])
                = Some (File sampleWorkflow)" by code_simp
    have a1: "lookup sampleRepo (join [repoPath ?R, ''scripts/collect-assets.js''])
                = Some (File ''const ASSETS = {};'')" by code_simp
    have d1: "lookup sampleRepo (join [repoPath ?R, ''scripts/copy-dist.js''])
                = Some (File ''const EXTENSIONS = {};'')" by code_simp
    have p1: "lookup sampleRepo (join [repoPath ?R, ''scripts/package-extensions.js''])
                = Some (File ''const VALID_EXTENSIONS = [];'')" by code_simp
    have l1: "lookup sampleRepo (join [repoPath ?R, ''.vscode/launch.json'']) = Some (File sampleLaunch)"
      by code_simp
    have l4: "hasExtension (map_of ?lkvs ''configurations'') (''vscode/'' @ language (config ?R))
                = Inr False"
      by code_simp
    have w1: "lookup sampleRepo (join [repoPath ?R, ''konveyor-extensions.code-workspace''])
                = Some (File sampleWorkspace)" by code_simp
    have w4: "hasFolder (map_of ?wkvs ''folders'') (''vscode/'' @ language (config ?R)) = Inr False"
      by code_simp
    have par: "\<forall>t \<in> set (targetPaths (repoPath ?R)). lookup sampleRepo (dirname t) = Some Dir"
      by code_simp
    have pm: "patchedManifest (config ?R) ?kvs ?ws [] =
                JObj [(''workspaces'', JArr [JStr ''shared'', JStr ''vscode/core'', JStr ''vscode/rust'']),
                      (''scripts'', JObj [(''package-rust'',
                                           JStr ''node ./scripts/package-extensions.js rust'')])]"
      by code_simp
    note inst = fresh_repository_operations
      [OF fresh free ready m1 m2 m3 m4 m5 c1 c2 a1 a2 d1 d2 p1 p2 l1 l2 l4 w1 w2 w4 par]
    note i1 = inst [THEN conjunct1]
      and i2 = inst [THEN conjunct2, THEN conjunct1]
      and i3 = inst [THEN conjunct2, THEN conjunct2, THEN conjunct1]
      and i4 = inst [THEN conjunct2, THEN conjunct2, THEN conjunct2, THEN conjunct1]
      and i6 = inst [THEN conjunct2, THEN conjunct2, THEN conjunct2, THEN conjunct2, THEN conjunct2,
                     THEN conjunct1]
    have s: "success (fst (generateExtension ref_lib ?R sampleRepo))"
      by (simp add: i1)
    have nc: "length (filter (\<lambda>operation. opType operation = Create)
        (operations (fst (generateExtension ref_lib ?R sampleRepo)))) = 8"
      using i2 px by simp
    have nm: "length (filter (\<lambda>operation. opType operation = Modify)
        (operations (fst (generateExtension ref_lib ?R sampleRepo)))) = 7"
      using i3 l5 by simp
    have nx: "\<forall>operation \<in> set (operations (fst (generateExtension ref_lib ?R sampleRepo))).
                description operation \<noteq> ''Generated from proxyServer.ts.hbs''"
      using i4 px by blast
    have w: "snd (generateExtension ref_lib ?R sampleRepo) ''/r/package.json''
       = Some (File (JSON_stringify ref_lib
                 (JObj [(''workspaces'', JArr [JStr ''shared'', JStr ''vscode/core'', JStr ''vscode/rust'']),
                        (''scripts'', JObj [(''package-rust'',
                                             JStr ''node ./scripts/package-extensions.js rust'')])])
               @ nl))"
      using i6 dr unfolding pj pm by simp
    from s nc nm nx w show ?thesis
      by (simp add: list_all_iff)
  qed

  have B: "success (fst (generateExtension ref_lib ?R bareRepo))
   \<and> length (filter (\<lambda>operation. opType operation = Create)
        (operations (fst (generateExtension ref_lib ?R bareRepo)))) = 8
   \<and> length (filter (\<lambda>operation. opType operation = Modify)
        (operations (fst (generateExtension ref_lib ?R bareRepo)))) = 6
   \<and> snd (generateExtension ref_lib ?R bareRepo) ''/r/package.json''
       = Some (File (JSON_stringify ref_lib
                 (JObj [(''workspaces'', JArr [JStr ''vscode/rust'']),
                        (''scripts'', JObj [(''package-rust'',
                                             JStr ''node ./scripts/package-extensions.js rust'')])])
               @ nl))"
  proof -
    have fresh: "\<not> existsSync bareRepo (extensionDirOf ?R)" by code_simp
    have free: "extensionSpaceFree bareRepo (extensionDirOf ?R) (makeTemplateData (config ?R))"
      by code_simp
    have ready: "templatesReady ref_lib (templatesDir ?R) (makeTemplateData (config ?R)) bareRepo"
      by code_simp
    have e2: "JSON_parse ref_lib ''{}'' = Inr (JObj [])" by code_simp
    have e2': "JSON_parse ref_lib (strip_trailing_commas ''{}'') = Inr (JObj [])" by code_simp
    have m1: "lookup bareRepo (join [repoPath ?R, ''package.json'']) = Some (File ''{}'')"
      by code_simp
    have m3: "listOrAbsent (map_of [] ''workspaces'') = Some []" by code_simp
    have m4: "JStr (''vscode/'' @ language (config ?R)) \<notin> set []" by simp
    have m5: "objectOrAbsent (map_of [] ''scripts'') = Some []" by code_simp
    have c1: "lookup bareRepo (join [repoPath ?R, ''.github/workflows/ci-repo.yml''])
                = Some (File sampleWorkflow)" by code_simp
    have a1: "lookup bareRepo (join [repoPath ?R, ''scripts/collect-assets.js''])
                = Some (File ''const ASSETS = {};'')" by code_simp
    have d1: "lookup bareRepo (join [repoPath ?R, ''scripts/copy-dist.js''])
                = Some (File ''const EXTENSIONS = {};'')" by code_simp
    have p1: "lookup bareRepo (join [repoPath ?R, ''scripts/package-extensions.js''])
                = Some (File ''const VALID_EXTENSIONS = [];'')" by code_simp
    have l1: "lookup bareRepo (join [repoPath ?R, ''.vscode/launch.json'']) = Some (File ''{}'')"
      by code_simp
    have l4: "hasExtension (map_of [] ''configurations'') (''vscode/'' @ language (config ?R))
                = Inr False"
      by code_simp
    have l5: "\<not> defined_truthy (map_of ([] :: (string \<times> json) list) ''configurations'')" by code_simp
    have w1: "lookup bareRepo (join [repoPath ?R, ''konveyor-extensions.code-workspace''])
                = Some (File ''{}'')" by code_simp
    have w4: "hasFolder (map_of [] ''folders'') (''vscode/'' @ language (config ?R)) = Inr False"
      by code_simp
    have par: "\<forall>t \<in> set (targetPaths (repoPath ?R)). lookup bareRepo (dirname t) = Some Dir"
      by code_simp
    have pm: "patchedManifest (config ?R) [] [] [] =
                JObj [(''workspaces'', JArr [JStr ''vscode/rust'']),
                      (''scripts'', JObj [(''package-rust'',
                                           JStr ''node ./scripts/package-extensions.js rust'')])]"
      by code_simp
    note inst = fresh_repository_operations
      [OF fresh free ready m1 e2 m3 m4 m5 c1 c2 a1 a2 d1 d2 p1 p2 l1 e2 l4 w1 e2' w4 par]
    note i1 = inst [THEN conjunct1]
      and i2 = inst [THEN conjunct2, THEN conjunct1]
      and i3 = inst [THEN conjunct2, THEN conjunct2, THEN conjunct1]
      and i6 = inst [THEN conjunct2, THEN conjunct2, THEN conjunct2, THEN conjunct2, THEN conjunct2,
                     THEN conjunct1]
    have s: "success (fst (generateExtension ref_lib ?R bareRepo))"
      by (simp add: i1)
    have nc: "length (filter (\<lambda>operation. opType operation = Create)
        (operations (fst (generateExtension ref_lib ?R bareRepo)))) = 8"
      using i2 px by simp
    have nm: "length (filter (\<lambda>operation. opType operation = Modify)
        (operations (fst (generateExtension ref_lib ?R bareRepo)))) = 6"
      using i3 l5 by simp
    have w: "snd (generateExtension ref_lib ?R bareRepo) ''/r/package.json''
       = Some (File (JSON_stringify ref_lib
                 (JObj [(''workspaces'', JArr [JStr ''vscode/rust'']),
                        (''scripts'', JObj [(''package-rust'',
                                             JStr ''node ./scripts/package-extensions.js rust'')])])
               @ nl))"
      using i6 dr unfolding pj pm by simp
    from s nc nm w show ?thesis by simp
  qed
  from P R B show ?thesis by simp
qed

text \<open>
  C5 as stated fails on the sample repository when its launch file is the empty object: the
  seven targets and the templates are there and every presence test is false, yet the launch
  patch finds no configurations to add to and the run stages six modify operations, in
  dry-run and in apply mode.
\<close>

theorem seven_modify_operations_counterexample:
  "list_all (\<lambda>t. is_file (lookup emptyLaunchRepo t)) (targetPaths ''/r'')
   \<and> templatesReady ref_lib ''/t'' (makeTemplateData pythonConfig) emptyLaunchRepo
   \<and> \<not> existsSync emptyLaunchRepo (extensionDirOf (sampleContext True False pythonConfig))
   \<and> emptyLaunchRepo ''/r/.vscode/launch.json'' = Some (File ''{}'')
   \<and> JSON_parse ref_lib ''{}'' = Inr (JObj [])
   \<and> hasExtension (map_of [] ''configurations'') ''vscode/python'' = Inr False
   \<and> success (fst (generateExtension ref_lib (sampleContext True False pythonConfig) emptyLaunchRepo))
   \<and> length (filter (\<lambda>operation. opType operation = Create)
        (operations (fst (generateExtension ref_lib (sampleContext True False pythonConfig)
                            emptyLaunchRepo)))) = 9
   \<and> map path (filter (\<lambda>operation. opType operation = Modify)
        (operations (fst (generateExtension ref_lib (sampleContext True False pythonConfig)
                            emptyLaunchRepo))))
       = [''package.json'', ''.github/workflows/ci-repo.yml'', ''scripts/collect-assets.js'',
          ''scripts/copy-dist.js'', ''scripts/package-extensions.js'',
          ''konveyor-extensions.code-workspace'']
   \<and> map path (filter (\<lambda>operation. opType operation = Modify)
        (operations (fst (generateExtension ref_lib (sampleContext False False pythonConfig)
                            emptyLaunchRepo))))
       = [''package.json'', ''.github/workflows/ci-repo.yml'', ''scripts/collect-assets.js'',
          ''scripts/copy-dist.js'', ''scripts/package-extensions.js'',
          ''konveyor-extensions.code-workspace'']"
  by code_simp

end
